theory Spec2Isabelle
  imports Complex_Main
begin

section \<open>Data model\<close>

text \<open>
  The local store of the POS backend (\<^verbatim>\<open>models.py\<close>): four tables. A table is the
  list of its rows in storage order (the order an unordered query returns them in),
  each row paired with its primary key \<^verbatim>\<open>id\<close>. A column that may hold Python's
  \<^verbatim>\<open>None\<close> is an \<open>option\<close>; the columns declared \<^verbatim>\<open>nullable=False\<close> are options
  too, because the Python object may carry \<^verbatim>\<open>None\<close> until the commit refuses it.
  Amounts are Python floats, modelled below. The timestamps, which the code never
  reads, are left out.
\<close>

type_synonym 'a table = "(nat \<times> 'a) list"

subsection \<open>Python floats\<close>

text \<open>
  A Python \<^verbatim>\<open>float\<close> is an IEEE 754 binary64 number: a finite value, given here by
  the rational it stands for, an infinity, or a NaN. The two zeros, which compare
  equal, are one value. \<open>round_double\<close> is the rounding of every operation, to the
  nearest double and to the even one of two nearest: a double has 53 significant bits,
  the unit of its last place is no less than \<open>2 ^ - 1074\<close>, and what would round to
  \<open>2 ^ 1024\<close> or beyond is an infinity. It works on the numerator \<open>p\<close> and the
  denominator \<open>q\<close> of the absolute value: \<open>binary_exponent p q\<close> is the \<open>e\<close> with
  \<open>2 ^ e \<le> p / q < 2 ^ (e + 1)\<close>, and \<open>round_half_even p q\<close> the integer nearest to
  \<open>p / q\<close>.
\<close>

datatype double = Finite rat | PosInf | NegInf | NaN

definition pow2 :: "int \<Rightarrow> rat" where
  "pow2 k = (if 0 \<le> k then of_int (2 ^ nat k) else 1 / of_int (2 ^ nat (- k)))"

function bit_length :: "int \<Rightarrow> int" where
  "bit_length n = (if n \<le> 0 then 0 else bit_length (n div 2) + 1)"
  by auto

termination
  by (relation "measure nat") auto

declare bit_length.simps [simp del]

definition binary_exponent :: "int \<Rightarrow> int \<Rightarrow> int" where
  "binary_exponent p q =
     (let e = bit_length p - bit_length q
      in if (if 0 \<le> e then q * 2 ^ nat e \<le> p else q \<le> p * 2 ^ nat (- e)) then e else e - 1)"

definition round_half_even :: "int \<Rightarrow> int \<Rightarrow> int" where
  "round_half_even p q =
     (let n = p div q; rest = 2 * (p mod q)
      in if rest < q then n else if q < rest then n + 1
         else if even n then n else n + 1)"

definition round_double :: "rat \<Rightarrow> double" where
  "round_double r =
     (if r = 0 then Finite 0
      else
        let p = \<bar>fst (quotient_of r)\<bar>; q = snd (quotient_of r);
            e = binary_exponent p q;
            k = max (e - 52) (- 1074);
            n = (if 0 \<le> k then round_half_even p (q * 2 ^ nat k)
                 else round_half_even (p * 2 ^ nat (- k)) q)
        in if 1024 \<le> e \<or> (e = 1023 \<and> n = 2 ^ 53)
             then (if 0 < r then PosInf else NegInf)
           else Finite ((if 0 < r then of_int n else - of_int n) * pow2 k))"

text \<open>
  Sum, negation, product and the two comparisons. A NaN makes every sum and product a
  NaN and every comparison false; the infinities of opposite sign have no sum, and an
  infinity times zero is no number either.
\<close>

fun fadd :: "double \<Rightarrow> double \<Rightarrow> double" where
  "fadd (Finite a) (Finite b) = round_double (a + b)"
| "fadd NaN y = NaN"
| "fadd x NaN = NaN"
| "fadd PosInf NegInf = NaN"
| "fadd NegInf PosInf = NaN"
| "fadd PosInf y = PosInf"
| "fadd x PosInf = PosInf"
| "fadd NegInf y = NegInf"
| "fadd x NegInf = NegInf"

fun fneg :: "double \<Rightarrow> double" where
  "fneg (Finite a) = Finite (- a)"
| "fneg PosInf = NegInf"
| "fneg NegInf = PosInf"
| "fneg NaN = NaN"

fun fmul :: "double \<Rightarrow> double \<Rightarrow> double" where
  "fmul (Finite a) (Finite b) = round_double (a * b)"
| "fmul NaN y = NaN"
| "fmul x NaN = NaN"
| "fmul (Finite a) PosInf = (if a = 0 then NaN else if 0 < a then PosInf else NegInf)"
| "fmul (Finite a) NegInf = (if a = 0 then NaN else if 0 < a then NegInf else PosInf)"
| "fmul PosInf (Finite b) = (if b = 0 then NaN else if 0 < b then PosInf else NegInf)"
| "fmul NegInf (Finite b) = (if b = 0 then NaN else if 0 < b then NegInf else PosInf)"
| "fmul PosInf PosInf = PosInf"
| "fmul NegInf NegInf = PosInf"
| "fmul PosInf NegInf = NegInf"
| "fmul NegInf PosInf = NegInf"

fun fle :: "double \<Rightarrow> double \<Rightarrow> bool" where
  "fle (Finite a) (Finite b) = (a \<le> b)"
| "fle NaN y = False"
| "fle x NaN = False"
| "fle NegInf y = True"
| "fle x PosInf = True"
| "fle x NegInf = False"
| "fle PosInf y = False"

fun flt :: "double \<Rightarrow> double \<Rightarrow> bool" where
  "flt (Finite a) (Finite b) = (a < b)"
| "flt NaN y = False"
| "flt x NaN = False"
| "flt PosInf y = False"
| "flt x NegInf = False"
| "flt NegInf y = True"
| "flt x PosInf = True"

text \<open>
  With these, \<open>+\<close>, \<open>-\<close>, \<open>*\<close>, \<open>\<le>\<close> and \<open><\<close> on \<open>double\<close> are Python's on floats,
  and \<open>0\<close> is \<^verbatim>\<open>0.0\<close>, which is also what an \<^verbatim>\<open>int\<close> 0 is when it meets a float.
  They obey none of the laws of an ordered field: \<open>\<not> x \<le> y\<close> does not mean \<open>y < x\<close>.
\<close>

instantiation double :: "{zero, plus, minus, uminus, times, ord}"
begin

definition zero_double :: double where
  "zero_double = Finite 0"

definition plus_double :: "double \<Rightarrow> double \<Rightarrow> double" where
  "plus_double x y = fadd x y"

definition uminus_double :: "double \<Rightarrow> double" where
  "uminus_double x = fneg x"

definition minus_double :: "double \<Rightarrow> double \<Rightarrow> double" where
  "minus_double x y = fadd x (fneg y)"

definition times_double :: "double \<Rightarrow> double \<Rightarrow> double" where
  "times_double x y = fmul x y"

definition less_eq_double :: "double \<Rightarrow> double \<Rightarrow> bool" where
  "less_eq_double x y = fle x y"

definition less_double :: "double \<Rightarrow> double \<Rightarrow> bool" where
  "less_double x y = flt x y"

instance ..

end

subsection \<open>The tables\<close>

record product =
  p_shopify_id :: "int option"
  p_shopify_product_id :: "int option"
  p_title :: "string option"
  p_sku :: "string option"
  p_barcode :: "string option"
  p_price :: double
  p_inventory_quantity :: "int option"
  p_variant_title :: "string option"
  p_image_url :: "string option"

record customer =
  c_shopify_id :: "int option"
  c_first_name :: "string option"
  c_last_name :: "string option"
  c_email :: "string option"
  c_phone :: "string option"
  c_address :: "string option"
  c_city :: "string option"
  c_country :: "string option"

record order =
  o_shopify_order_id :: "int option"
  o_customer_id :: "nat option"
  o_product_id :: "nat option"
  o_barcode :: "string option"
  o_title :: "string option"
  o_quantity :: "int option"
  o_price :: double
  o_payment_method :: string
  o_status :: "string option"

record webhook_event =
  w_topic :: string
  w_shopify_id :: "int option"
  w_payload :: string
  w_status :: string
  w_error_message :: "string option"

text \<open>
  \<open>enforce_foreign_keys\<close> tells the two deployments of \<^verbatim>\<open>database.py\<close> apart: the
  PostgreSQL one enforces the foreign keys of \<^verbatim>\<open>orders\<close>, the default SQLite one
  does not (the engine is created without the foreign-key pragma).
\<close>

record db =
  products :: "product table"
  customers :: "customer table"
  orders :: "order table"
  webhook_events :: "webhook_event table"
  enforce_foreign_keys :: bool

datatype error =
    EmptyItems
  | InvalidPaymentMethod
  | NoCustomerSelector
  | BothCustomerSelectors
  | CustomerCreateFailed
  | CustomerNotFound
  | ProductNotFound
  | NoValidProducts
  | DiscountTooLarge double double
  | TitleRequired
  | PriceNotPositive
  | QuantityTooSmall
  | OrderCreateFailed
  | InvalidJson
  | DatabaseError
  | InternalError

text \<open>The status code of the \<^verbatim>\<open>HTTPException\<close> each error is raised with.\<close>

fun status_code :: "error \<Rightarrow> nat" where
  "status_code EmptyItems = 400"
| "status_code InvalidPaymentMethod = 400"
| "status_code NoCustomerSelector = 400"
| "status_code BothCustomerSelectors = 400"
| "status_code CustomerCreateFailed = 500"
| "status_code CustomerNotFound = 404"
| "status_code ProductNotFound = 404"
| "status_code NoValidProducts = 400"
| "status_code (DiscountTooLarge d t) = 400"
| "status_code TitleRequired = 400"
| "status_code PriceNotPositive = 400"
| "status_code QuantityTooSmall = 400"
| "status_code OrderCreateFailed = 500"
| "status_code InvalidJson = 400"
| "status_code DatabaseError = 500"
| "status_code InternalError = 500"

subsection \<open>Queries and commits\<close>

text \<open>\<^verbatim>\<open>query.filter(...).first()\<close>: the first row, in storage order, that matches.\<close>

fun first_row :: "('a \<Rightarrow> bool) \<Rightarrow> 'a table \<Rightarrow> (nat \<times> 'a) option" where
  "first_row P [] = None"
| "first_row P (r # rs) = (if P (snd r) then Some r else first_row P rs)"

text \<open>\<^verbatim>\<open>query.filter(...).all()\<close>.\<close>

definition all_rows :: "('a \<Rightarrow> bool) \<Rightarrow> 'a table \<Rightarrow> 'a table" where
  "all_rows P t = filter (\<lambda>r. P (snd r)) t"

text \<open>
  Assigning to the attributes of the object a \<^verbatim>\<open>first()\<close> returned: the first
  matching row is rewritten in place.
\<close>

fun update_first :: "('a \<Rightarrow> bool) \<Rightarrow> ('a \<Rightarrow> 'a) \<Rightarrow> 'a table \<Rightarrow> 'a table" where
  "update_first P f [] = []"
| "update_first P f (r # rs) =
     (if P (snd r) then (fst r, f (snd r)) # rs else r # update_first P f rs)"

text \<open>The key an inserted row gets: one more than the largest key in the table.\<close>

definition next_id :: "'a table \<Rightarrow> nat" where
  "next_id t = Suc (fold max (map fst t) 0)"

text \<open>
  The session is created with \<^verbatim>\<open>autoflush=False\<close>: the objects handed to
  \<^verbatim>\<open>db.add\<close> wait in a pending list that no query sees, and the commit inserts them
  in the order they were added.
\<close>

fun insert_all :: "'a table \<Rightarrow> 'a list \<Rightarrow> 'a table" where
  "insert_all t [] = t"
| "insert_all t (r # rs) = insert_all (t @ [(next_id t, r)]) rs"

text \<open>The constraints a commit checks: the columns that are not nullable, the unique
  customer key.\<close>

definition products_ok :: "product table \<Rightarrow> bool" where
  "products_ok t = list_all (\<lambda>r. p_shopify_id (snd r) \<noteq> None \<and> p_title (snd r) \<noteq> None) t"

definition customers_ok :: "customer table \<Rightarrow> bool" where
  "customers_ok t =
     (list_all (\<lambda>r. c_shopify_id (snd r) \<noteq> None) t \<and> distinct (map (\<lambda>r. c_shopify_id (snd r)) t))"

text \<open>Some order row points to a row of the products table.\<close>

definition product_referenced :: "db \<Rightarrow> (product \<Rightarrow> bool) \<Rightarrow> bool" where
  "product_referenced d P =
     list_ex (\<lambda>r. list_ex (\<lambda>p. P (snd p) \<and> o_product_id (snd r) = Some (fst p)) (products d)) (orders d)"

section \<open>Clearing the products table\<close>

text \<open>
  \<^verbatim>\<open>clear_products\<close> (main.py): \<^verbatim>\<open>db.query(Product).delete()\<close>, then the commit. Where
  the foreign keys are enforced, deleting a product an order row points to raises; the
  handler rolls back and answers 500.
\<close>

definition clear_products :: "db \<Rightarrow> error + db" where
  "clear_products d =
     (if enforce_foreign_keys d \<and> product_referenced d (\<lambda>p. True) then Inl InternalError
      else Inr (d\<lparr>products := []\<rparr>))"

section \<open>Choosing the variant of a barcode\<close>

text \<open>
  The loop of \<^verbatim>\<open>create_order_from_cart\<close> and \<^verbatim>\<open>create_order_endpoint\<close>:
  \<^verbatim>\<open>for p in products: if p.inventory_quantity > 0: product = p; break\<close>.
  A row whose quantity is \<^verbatim>\<open>None\<close> makes the comparison raise \<^verbatim>\<open>TypeError\<close>.
\<close>

fun first_in_stock :: "product table \<Rightarrow> error + (nat \<times> product) option" where
  "first_in_stock [] = Inr None"
| "first_in_stock (p # ps) =
     (case p_inventory_quantity (snd p) of
        None \<Rightarrow> Inl InternalError
      | Some q \<Rightarrow> if q > 0 then Inr (Some p) else first_in_stock ps)"

text \<open>
  \<^verbatim>\<open>products = db.query(Product).filter(Product.barcode == barcode).all()\<close>, the loop,
  then \<^verbatim>\<open>if not product: product = products[0]\<close>. The result is \<open>None\<close> when no row
  has the barcode.
\<close>

definition select_product :: "db \<Rightarrow> string \<Rightarrow> error + (nat \<times> product) option" where
  "select_product d barcode =
     (case all_rows (\<lambda>p. p_barcode p = Some barcode) (products d) of
        [] \<Rightarrow> Inr None
      | p # ps \<Rightarrow>
          (case first_in_stock (p # ps) of
             Inl e \<Rightarrow> Inl e
           | Inr None \<Rightarrow> Inr (Some p)
           | Inr (Some q) \<Rightarrow> Inr (Some q)))"

section \<open>JSON payloads\<close>

text \<open>
  The payloads of the remote API and of its webhooks are JSON objects read with
  \<^verbatim>\<open>dict.get\<close>. Where the code passes a default (\<^verbatim>\<open>d.get(k, default)\<close>) a missing key
  and an explicit \<^verbatim>\<open>null\<close> differ, and the key is a \<open>jfield\<close>; where it does not
  (\<^verbatim>\<open>d.get(k)\<close>), both read as \<^verbatim>\<open>None\<close> and the key is an \<open>option\<close>.
\<close>

datatype 'a jfield = Absent | Null | Val 'a

fun get_default :: "'a jfield \<Rightarrow> 'a \<Rightarrow> 'a option" where
  "get_default Absent dflt = Some dflt"
| "get_default Null dflt = None"
| "get_default (Val v) dflt = Some v"

text \<open>
  A price arrives as a number or as text and goes through \<^verbatim>\<open>float(...)\<close>.
  \<open>Number x\<close> is a value of which \<^verbatim>\<open>float\<close> makes the float \<open>x\<close>; \<open>NotANumber\<close> is one
  on which it raises (text that is no number, an integer too large for a float).
\<close>

datatype price_json = Number double | NotANumber

text \<open>\<^verbatim>\<open>float(x.get("price") or 0)\<close>.\<close>

fun float_or_0 :: "price_json option \<Rightarrow> error + double" where
  "float_or_0 None = Inr 0"
| "float_or_0 (Some (Number x)) = Inr x"
| "float_or_0 (Some NotANumber) = Inl InternalError"

text \<open>
  An \<^verbatim>\<open>int\<close> that meets a float in a product is converted first: to the nearest
  double, or with an \<^verbatim>\<open>OverflowError\<close> when it is too large for one.
\<close>

definition int_to_float :: "int \<Rightarrow> error + double" where
  "int_to_float n =
     (case round_double (of_int n) of
        Finite x \<Rightarrow> Inr (Finite x)
      | PosInf \<Rightarrow> Inl InternalError
      | NegInf \<Rightarrow> Inl InternalError
      | NaN \<Rightarrow> Inl InternalError)"

text \<open>\<^verbatim>\<open>int(x.get("inventory_quantity") or 0)\<close>; the quantity is a JSON integer.\<close>

fun int_or_0 :: "int jfield \<Rightarrow> int" where
  "int_or_0 (Val n) = n"
| "int_or_0 _ = 0"

record variant_json =
  v_id :: "int option"
  v_sku :: "string option"
  v_barcode :: "string option"
  v_price :: "price_json option"
  v_inventory_quantity :: "int jfield"
  v_title :: "string option"
  v_image_id :: "int option"

record image_json =
  img_id :: "int option"
  img_src :: "string option"

record product_json =
  pj_id :: "int option"
  pj_title :: "string jfield"
  pj_variants :: "variant_json list"
  pj_images :: "image_json list"
  pj_image :: "image_json option"

record address_json =
  a_address1 :: "string option"
  a_address2 :: "string option"
  a_city :: "string option"
  a_country :: "string option"

record customer_json =
  cj_id :: "int option"
  cj_first_name :: "string option"
  cj_last_name :: "string option"
  cj_email :: "string option"
  cj_phone :: "string option"
  cj_addresses :: "address_json list"

record line_item_json =
  li_variant_id :: "int option"
  li_title :: "string option"
  li_quantity :: "int jfield"
  li_price :: "price_json option"

record order_json =
  oj_id :: "int option"
  oj_financial_status :: "string jfield"
  oj_line_items :: "line_item_json list"
  oj_customer :: "int option option"
  oj_tags :: "string jfield"
  oj_gateway :: "string option"

record inventory_json =
  ij_inventory_item_id :: "int option"
  ij_available :: "int option"

text \<open>Python's truth value of an optional string and of an optional integer.\<close>

fun truthy_str :: "string option \<Rightarrow> bool" where
  "truthy_str None = False"
| "truthy_str (Some s) = (s \<noteq> [])"

fun truthy_int :: "int option \<Rightarrow> bool" where
  "truthy_int None = False"
| "truthy_int (Some n) = (n \<noteq> 0)"

text \<open>
  The address columns, from the first address only: \<^verbatim>\<open>address1\<close> and \<^verbatim>\<open>address2\<close>
  joined by a blank when they are not empty.
\<close>

definition address_parts :: "address_json \<Rightarrow> string list" where
  "address_parts a =
     (if truthy_str (a_address1 a) then [the (a_address1 a)] else []) @
     (if truthy_str (a_address2 a) then [the (a_address2 a)] else [])"

fun join_blank :: "string list \<Rightarrow> string" where
  "join_blank [] = []"
| "join_blank [s] = s"
| "join_blank (s # t # ss) = s @ '' '' @ join_blank (t # ss)"

definition address_of :: "address_json list \<Rightarrow> string option \<times> string option \<times> string option" where
  "address_of addresses =
     (case addresses of
        [] \<Rightarrow> (None, None, None)
      | a # _ \<Rightarrow>
          ((if address_parts a = [] then None else Some (join_blank (address_parts a))),
           a_city a, a_country a))"

text \<open>The columns every customer path writes from a remote customer.\<close>

definition customer_fields :: "customer_json \<Rightarrow> customer \<Rightarrow> customer" where
  "customer_fields cj c =
     (case address_of (cj_addresses cj) of
        (address_str, city, country) \<Rightarrow>
          c\<lparr>c_first_name := cj_first_name cj, c_last_name := cj_last_name cj,
            c_email := cj_email cj, c_phone := cj_phone cj,
            c_address := address_str, c_city := city, c_country := country\<rparr>)"

definition new_customer_row :: "customer_json \<Rightarrow> customer" where
  "new_customer_row cj =
     customer_fields cj
       \<lparr>c_shopify_id = cj_id cj, c_first_name = None, c_last_name = None, c_email = None,
        c_phone = None, c_address = None, c_city = None, c_country = None\<rparr>"

section \<open>The session\<close>

text \<open>
  What a request works on: the store as its queries see it, with the attribute
  assignments made so far, and the rows added but not yet inserted.
\<close>

record session =
  store :: db
  new_products :: "product list"
  new_customers :: "customer list"
  new_orders :: "order list"
  new_events :: "webhook_event list"

definition open_session :: "db \<Rightarrow> session" where
  "open_session d = \<lparr>store = d, new_products = [], new_customers = [], new_orders = [], new_events = []\<rparr>"

text \<open>
  On INSERT the ORM leaves out a column whose attribute is \<^verbatim>\<open>None\<close> when the column
  has a default, so the default is stored: \<^verbatim>\<open>inventory_quantity\<close> 0, \<^verbatim>\<open>quantity\<close> 1,
  \<^verbatim>\<open>status\<close> "completed". An UPDATE stores the \<^verbatim>\<open>None\<close>.
\<close>

definition product_defaults :: "product \<Rightarrow> product" where
  "product_defaults p =
     (case p_inventory_quantity p of None \<Rightarrow> p\<lparr>p_inventory_quantity := Some 0\<rparr> | Some _ \<Rightarrow> p)"

definition order_defaults :: "order \<Rightarrow> order" where
  "order_defaults r =
     (let r1 = (case o_quantity r of None \<Rightarrow> r\<lparr>o_quantity := Some 1\<rparr> | Some _ \<Rightarrow> r)
      in case o_status r1 of None \<Rightarrow> r1\<lparr>o_status := Some ''completed''\<rparr> | Some _ \<Rightarrow> r1)"

text \<open>The store a commit would write: the pending rows inserted after the others.\<close>

definition flushed :: "session \<Rightarrow> db" where
  "flushed s =
     (store s)\<lparr>products := insert_all (products (store s)) (map product_defaults (new_products s)),
       customers := insert_all (customers (store s)) (new_customers s),
       orders := insert_all (orders (store s)) (map order_defaults (new_orders s)),
       webhook_events := insert_all (webhook_events (store s)) (new_events s)\<rparr>"

text \<open>\<^verbatim>\<open>db.commit()\<close>: the flush, refused as a whole when a constraint fails.\<close>

definition commit :: "session \<Rightarrow> error + db" where
  "commit s =
     (if products_ok (products (flushed s)) \<and> customers_ok (customers (flushed s))
      then Inr (flushed s) else Inl InternalError)"

section \<open>Bulk synchronisation\<close>

text \<open>
  The counters and the transient set of \<^verbatim>\<open>sync_products\<close> and \<^verbatim>\<open>sync_customers\<close>
  (main.py), with the session the pass works on.
\<close>

record pass =
  sess :: session
  added_count :: nat
  updated_count :: nat
  skipped_count :: nat
  processed_ids :: "int set"

definition start_pass :: "db \<Rightarrow> pass" where
  "start_pass d =
     \<lparr>sess = open_session d, added_count = 0, updated_count = 0, skipped_count = 0,
      processed_ids = {}\<rparr>"

record sync_report =
  added :: nat
  updated :: nat
  skipped_no_barcode :: nat
  total :: nat

text \<open>\<^verbatim>\<open>product["images"][0].get("src")\<close> when the product has images.\<close>

definition first_image :: "product_json \<Rightarrow> string option" where
  "first_image product = (case pj_images product of [] \<Rightarrow> None | img # _ \<Rightarrow> img_src img)"

text \<open>The columns the pass writes, on an existing row and on a new one alike.\<close>

definition synced_fields :: "product_json \<Rightarrow> variant_json \<Rightarrow> double \<Rightarrow> product \<Rightarrow> product" where
  "synced_fields product variant price p =
     p\<lparr>p_title := get_default (pj_title product) ''Unknown Product'',
       p_shopify_product_id := pj_id product,
       p_sku := v_sku variant,
       p_barcode := v_barcode variant,
       p_price := price,
       p_inventory_quantity := Some (int_or_0 (v_inventory_quantity variant)),
       p_variant_title := v_title variant,
       p_image_url := first_image product\<rparr>"

definition blank_product :: "int option \<Rightarrow> product" where
  "blank_product vid =
     \<lparr>p_shopify_id = vid, p_shopify_product_id = None, p_title = None, p_sku = None,
      p_barcode = None, p_price = 0, p_inventory_quantity = None, p_variant_title = None,
      p_image_url = None\<rparr>"

text \<open>\<^verbatim>\<open>if not barcode or not variant_id\<close> is false: both are there, and neither is
  empty or zero.\<close>

definition eligible :: "variant_json \<Rightarrow> bool" where
  "eligible variant = (truthy_str (v_barcode variant) \<and> truthy_int (v_id variant))"

text \<open>The body of the inner loop of \<^verbatim>\<open>sync_products\<close>, for one variant of one product.\<close>

definition sync_variant :: "product_json \<Rightarrow> variant_json \<Rightarrow> pass \<Rightarrow> error + pass" where
  "sync_variant product variant st =
     (if \<not> eligible variant then Inr (st\<lparr>skipped_count := skipped_count st + 1\<rparr>)
      else case v_id variant of
        None \<Rightarrow> Inr (st\<lparr>skipped_count := skipped_count st + 1\<rparr>)
      | Some variant_id \<Rightarrow>
          if variant_id \<in> processed_ids st then Inr st
          else
            (case float_or_0 (v_price variant) of
               Inl e \<Rightarrow> Inl e
             | Inr price \<Rightarrow>
                 let s = sess st; d = store s in
                 (case first_row (\<lambda>p. p_shopify_id p = Some variant_id) (products d) of
                    Some existing \<Rightarrow>
                      Inr (st\<lparr>processed_ids := insert variant_id (processed_ids st),
                             sess := s\<lparr>store := d\<lparr>products :=
                               update_first (\<lambda>p. p_shopify_id p = Some variant_id)
                                 (synced_fields product variant price) (products d)\<rparr>\<rparr>,
                             updated_count := updated_count st + 1\<rparr>)
                  | None \<Rightarrow>
                      Inr (st\<lparr>processed_ids := insert variant_id (processed_ids st),
                             sess := s\<lparr>new_products := new_products s @
                               [synced_fields product variant price (blank_product (Some variant_id))]\<rparr>,
                             added_count := added_count st + 1\<rparr>))))"

text \<open>
  \<^verbatim>\<open>for product in shopify_products: for variant in product.get("variants", [])\<close>
  visits the variants of all products in order, each with its product.
\<close>

definition variant_pairs :: "product_json list \<Rightarrow> (product_json \<times> variant_json) list" where
  "variant_pairs shopify_products =
     concat (map (\<lambda>product. map (Pair product) (pj_variants product)) shopify_products)"

fun sync_variants :: "(product_json \<times> variant_json) list \<Rightarrow> pass \<Rightarrow> error + pass" where
  "sync_variants [] st = Inr st"
| "sync_variants (pv # pvs) st =
     (case sync_variant (fst pv) (snd pv) st of
        Inl e \<Rightarrow> Inl e
      | Inr st' \<Rightarrow> sync_variants pvs st')"

text \<open>
  \<^verbatim>\<open>sync_products\<close>, given what \<^verbatim>\<open>get_all_products\<close> returned. Any exception, of the
  loop or of the one commit at its end, rolls the session back and answers 500: the
  store is then the one the request found.
\<close>

definition sync_products :: "product_json list \<Rightarrow> db \<Rightarrow> error + (db \<times> sync_report)" where
  "sync_products shopify_products d =
     (case sync_variants (variant_pairs shopify_products) (start_pass d) of
        Inl e \<Rightarrow> Inl InternalError
      | Inr st \<Rightarrow>
          (case commit (sess st) of
             Inl e \<Rightarrow> Inl InternalError
           | Inr d' \<Rightarrow>
               Inr (d', \<lparr>added = added_count st, updated = updated_count st,
                         skipped_no_barcode = skipped_count st,
                         total = length shopify_products\<rparr>)))"

text \<open>The body of the loop of \<^verbatim>\<open>sync_customers\<close>.\<close>

definition sync_customer :: "customer_json \<Rightarrow> pass \<Rightarrow> pass" where
  "sync_customer cj st =
     (case cj_id cj of
        None \<Rightarrow> st
      | Some customer_id \<Rightarrow>
          if customer_id = 0 then st
          else if customer_id \<in> processed_ids st then st
          else
            let s = sess st; d = store s in
            (case first_row (\<lambda>c. c_shopify_id c = Some customer_id) (customers d) of
               Some existing \<Rightarrow>
                 st\<lparr>processed_ids := insert customer_id (processed_ids st),
                    sess := s\<lparr>store := d\<lparr>customers :=
                      update_first (\<lambda>c. c_shopify_id c = Some customer_id)
                        (customer_fields cj) (customers d)\<rparr>\<rparr>,
                    updated_count := updated_count st + 1\<rparr>
             | None \<Rightarrow>
                 st\<lparr>processed_ids := insert customer_id (processed_ids st),
                    sess := s\<lparr>new_customers := new_customers s @ [new_customer_row cj]\<rparr>,
                    added_count := added_count st + 1\<rparr>))"

fun sync_customer_loop :: "customer_json list \<Rightarrow> pass \<Rightarrow> pass" where
  "sync_customer_loop [] st = st"
| "sync_customer_loop (cj # cjs) st = sync_customer_loop cjs (sync_customer cj st)"

text \<open>\<^verbatim>\<open>sync_customers\<close>, given what \<^verbatim>\<open>get_all_customers\<close> returned; its report has
  no \<^verbatim>\<open>skipped_no_barcode\<close>, which is 0 here.\<close>

definition sync_customers :: "customer_json list \<Rightarrow> db \<Rightarrow> error + (db \<times> sync_report)" where
  "sync_customers shopify_customers d =
     (let st = sync_customer_loop shopify_customers (start_pass d) in
      case commit (sess st) of
        Inl e \<Rightarrow> Inl InternalError
      | Inr d' \<Rightarrow>
          Inr (d', \<lparr>added = added_count st, updated = updated_count st,
                    skipped_no_barcode = 0, total = length shopify_customers\<rparr>))"

section \<open>Webhook handlers\<close>

text \<open>
  The handlers of \<^verbatim>\<open>webhooks.py\<close> work on the caller's session and never commit. A
  handler that raises leaves the session as it was at the raise: the result is the
  session together with the exception, if any.
\<close>

fun jget :: "'a jfield \<Rightarrow> 'a option" where
  "jget (Val v) = Some v"
| "jget _ = None"

text \<open>The image of a variant: the payload image with the variant's \<^verbatim>\<open>image_id\<close>, or
  else the payload's own \<^verbatim>\<open>image\<close>.\<close>

definition variant_image :: "product_json \<Rightarrow> variant_json \<Rightarrow> string option" where
  "variant_image payload variant =
     (if truthy_int (v_image_id variant) \<and> pj_images payload \<noteq> [] then
        (case find (\<lambda>img. img_id img = v_image_id variant) (pj_images payload) of
           None \<Rightarrow> None
         | Some img \<Rightarrow> img_src img)
      else (case pj_image payload of None \<Rightarrow> None | Some img \<Rightarrow> img_src img))"

definition webhook_fields :: "product_json \<Rightarrow> variant_json \<Rightarrow> double \<Rightarrow> product \<Rightarrow> product" where
  "webhook_fields payload variant price p =
     p\<lparr>p_title := jget (pj_title payload),
       p_sku := v_sku variant,
       p_barcode := v_barcode variant,
       p_price := price,
       p_inventory_quantity := get_default (v_inventory_quantity variant) 0,
       p_variant_title := v_title variant,
       p_image_url := variant_image payload variant\<rparr>"

text \<open>The body of the loop of \<^verbatim>\<open>handle_product_webhook\<close>: no barcode test, no set of
  the variants already seen.\<close>

definition webhook_variant :: "product_json \<Rightarrow> variant_json \<Rightarrow> session \<Rightarrow> error + session" where
  "webhook_variant payload variant s =
     (case float_or_0 (v_price variant) of
        Inl e \<Rightarrow> Inl e
      | Inr price \<Rightarrow>
          (case first_row (\<lambda>p. p_shopify_id p = v_id variant) (products (store s)) of
             Some existing \<Rightarrow>
               Inr (s\<lparr>store := (store s)\<lparr>products :=
                      update_first (\<lambda>p. p_shopify_id p = v_id variant)
                        (webhook_fields payload variant price) (products (store s))\<rparr>\<rparr>)
           | None \<Rightarrow>
               Inr (s\<lparr>new_products := new_products s @
                      [webhook_fields payload variant price
                         ((blank_product (v_id variant))\<lparr>p_shopify_product_id := pj_id payload\<rparr>)]\<rparr>)))"

fun webhook_variants :: "product_json \<Rightarrow> variant_json list \<Rightarrow> session \<Rightarrow> session \<times> error option" where
  "webhook_variants payload [] s = (s, None)"
| "webhook_variants payload (variant # variants) s =
     (case webhook_variant payload variant s of
        Inl e \<Rightarrow> (s, Some e)
      | Inr s' \<Rightarrow> webhook_variants payload variants s')"

definition handle_product_webhook :: "product_json \<Rightarrow> session \<Rightarrow> session \<times> error option" where
  "handle_product_webhook payload s = webhook_variants payload (pj_variants payload) s"

text \<open>
  \<^verbatim>\<open>handle_product_delete\<close>: one DELETE of every variant of the product, run at once.
  Where the foreign keys are enforced and an order row points to one of them, the
  statement raises \<open>DatabaseError\<close>, and the database refuses every later statement
  of the transaction.
\<close>

definition handle_product_delete :: "product_json \<Rightarrow> session \<Rightarrow> session \<times> error option" where
  "handle_product_delete payload s =
     (if enforce_foreign_keys (store s)
         \<and> product_referenced (store s) (\<lambda>p. p_shopify_product_id p = pj_id payload)
      then (s, Some DatabaseError)
      else (s\<lparr>store := (store s)\<lparr>products :=
              filter (\<lambda>r. p_shopify_product_id (snd r) \<noteq> pj_id payload) (products (store s))\<rparr>\<rparr>,
            None))"

text \<open>\<^verbatim>\<open>handle_inventory_update\<close>: the quantity of the first variant whose external id
  is the inventory item id.\<close>

definition handle_inventory_update :: "inventory_json \<Rightarrow> session \<Rightarrow> session \<times> error option" where
  "handle_inventory_update payload s =
     (s\<lparr>store := (store s)\<lparr>products :=
         update_first (\<lambda>p. p_shopify_id p = ij_inventory_item_id payload)
           (\<lambda>p. p\<lparr>p_inventory_quantity := ij_available payload\<rparr>) (products (store s))\<rparr>\<rparr>,
      None)"

definition handle_customer_webhook :: "customer_json \<Rightarrow> session \<Rightarrow> session \<times> error option" where
  "handle_customer_webhook payload s =
     (case first_row (\<lambda>c. c_shopify_id c = cj_id payload) (customers (store s)) of
        Some existing \<Rightarrow>
          (s\<lparr>store := (store s)\<lparr>customers :=
              update_first (\<lambda>c. c_shopify_id c = cj_id payload)
                (customer_fields payload) (customers (store s))\<rparr>\<rparr>,
           None)
      | None \<Rightarrow> (s\<lparr>new_customers := new_customers s @ [new_customer_row payload]\<rparr>, None))"

subsection \<open>Order webhooks\<close>

text \<open>\<^verbatim>\<open>str.lower\<close> on ASCII letters, and \<^verbatim>\<open>sub in s\<close>.\<close>

definition lower_char :: "char \<Rightarrow> char" where
  "lower_char c =
     (case map_of (zip ''ABCDEFGHIJKLMNOPQRSTUVWXYZ'' ''abcdefghijklmnopqrstuvwxyz'') c of
        Some l \<Rightarrow> l
      | None \<Rightarrow> c)"

definition lower :: "string \<Rightarrow> string" where
  "lower s = map lower_char s"

fun contains :: "string \<Rightarrow> string \<Rightarrow> bool" where
  "contains [] sub = (sub = [])"
| "contains (c # cs) sub = (take (length sub) (c # cs) = sub \<or> contains cs sub)"

text \<open>
  The payment method of a webhook order: "cash" when the tags, or else the gateway,
  mention it. \<^verbatim>\<open>payload.get("tags", "").lower()\<close> raises on a \<^verbatim>\<open>null\<close>.
\<close>

definition webhook_payment_method :: "order_json \<Rightarrow> error + string" where
  "webhook_payment_method payload =
     (case get_default (oj_tags payload) [] of
        None \<Rightarrow> Inl InternalError
      | Some tags \<Rightarrow>
          if contains (lower tags) ''cash'' then Inr ''cash''
          else
            (case oj_gateway payload of
               None \<Rightarrow> Inr ''pos''
             | Some gateway \<Rightarrow>
                 if gateway \<noteq> [] \<and> contains (lower gateway) ''cash'' then Inr ''cash''
                 else Inr ''pos''))"

text \<open>The row of one line item; the product is looked up by the item's variant id.\<close>

definition webhook_order_row ::
  "order_json \<Rightarrow> nat option \<Rightarrow> string \<Rightarrow> string option \<Rightarrow> line_item_json \<Rightarrow> session \<Rightarrow> error + order" where
  "webhook_order_row payload customer_id payment_method financial_status item s =
     (let product =
            (if truthy_int (li_variant_id item)
             then first_row (\<lambda>p. p_shopify_id p = li_variant_id item) (products (store s))
             else None)
      in case float_or_0 (li_price item) of
           Inl e \<Rightarrow> Inl e
         | Inr price \<Rightarrow>
             Inr \<lparr>o_shopify_order_id = oj_id payload,
                  o_customer_id = customer_id,
                  o_product_id = map_option fst product,
                  o_barcode = (case product of None \<Rightarrow> None | Some r \<Rightarrow> p_barcode (snd r)),
                  o_title = li_title item,
                  o_quantity = get_default (li_quantity item) 1,
                  o_price = price,
                  o_payment_method = payment_method,
                  o_status = financial_status\<rparr>)"

fun webhook_line_items ::
  "order_json \<Rightarrow> nat option \<Rightarrow> string \<Rightarrow> string option \<Rightarrow> line_item_json list \<Rightarrow> session
     \<Rightarrow> session \<times> error option" where
  "webhook_line_items payload customer_id payment_method financial_status [] s = (s, None)"
| "webhook_line_items payload customer_id payment_method financial_status (item # items) s =
     (case webhook_order_row payload customer_id payment_method financial_status item s of
        Inl e \<Rightarrow> (s, Some e)
      | Inr new_order \<Rightarrow>
          webhook_line_items payload customer_id payment_method financial_status items
            (s\<lparr>new_orders := new_orders s @ [new_order]\<rparr>))"

text \<open>
  \<^verbatim>\<open>handle_order_webhook\<close>. With rows of the order already there, each gets the
  payload's financial status and nothing else happens; otherwise one row per line item
  is added.
\<close>

definition handle_order_webhook :: "order_json \<Rightarrow> session \<Rightarrow> session \<times> error option" where
  "handle_order_webhook payload s =
     (let shopify_order_id = oj_id payload;
          financial_status = get_default (oj_financial_status payload) ''pending'';
          existing_orders =
            all_rows (\<lambda>r. o_shopify_order_id r = shopify_order_id) (orders (store s))
      in if existing_orders \<noteq> [] then
           (s\<lparr>store := (store s)\<lparr>orders :=
               map (\<lambda>r. if o_shopify_order_id (snd r) = shopify_order_id
                         then (fst r, (snd r)\<lparr>o_status := financial_status\<rparr>) else r)
                 (orders (store s))\<rparr>\<rparr>,
            None)
         else if oj_line_items payload = [] then (s, None)
         else
           (let customer_id =
                  (case oj_customer payload of
                     None \<Rightarrow> None
                   | Some customer_shopify_id \<Rightarrow>
                       map_option fst
                         (first_row (\<lambda>c. c_shopify_id c = customer_shopify_id) (customers (store s))))
            in case webhook_payment_method payload of
                 Inl e \<Rightarrow> (s, Some e)
               | Inr payment_method \<Rightarrow>
                   webhook_line_items payload customer_id payment_method financial_status
                     (oj_line_items payload) s))"

section \<open>The webhook endpoint\<close>

text \<open>
  The JSON object a webhook delivers, with the keys the handlers read; each handler
  sees the object through the keys of its own resource.
\<close>

record webhook_json =
  wj_raw :: string
  wj_id :: "int option"
  wj_title :: "string jfield"
  wj_variants :: "variant_json list"
  wj_images :: "image_json list"
  wj_image :: "image_json option"
  wj_inventory_item_id :: "int option"
  wj_available :: "int option"
  wj_first_name :: "string option"
  wj_last_name :: "string option"
  wj_email :: "string option"
  wj_phone :: "string option"
  wj_addresses :: "address_json list"
  wj_financial_status :: "string jfield"
  wj_line_items :: "line_item_json list"
  wj_customer :: "int option option"
  wj_tags :: "string jfield"
  wj_gateway :: "string option"

definition as_product :: "webhook_json \<Rightarrow> product_json" where
  "as_product w =
     \<lparr>pj_id = wj_id w, pj_title = wj_title w, pj_variants = wj_variants w,
      pj_images = wj_images w, pj_image = wj_image w\<rparr>"

definition as_inventory :: "webhook_json \<Rightarrow> inventory_json" where
  "as_inventory w =
     \<lparr>ij_inventory_item_id = wj_inventory_item_id w, ij_available = wj_available w\<rparr>"

definition as_customer :: "webhook_json \<Rightarrow> customer_json" where
  "as_customer w =
     \<lparr>cj_id = wj_id w, cj_first_name = wj_first_name w, cj_last_name = wj_last_name w,
      cj_email = wj_email w, cj_phone = wj_phone w, cj_addresses = wj_addresses w\<rparr>"

definition as_order :: "webhook_json \<Rightarrow> order_json" where
  "as_order w =
     \<lparr>oj_id = wj_id w, oj_financial_status = wj_financial_status w,
      oj_line_items = wj_line_items w, oj_customer = wj_customer w, oj_tags = wj_tags w,
      oj_gateway = wj_gateway w\<rparr>"

text \<open>The handler of a topic; \<open>None\<close> for a topic the endpoint does not handle.\<close>

definition dispatch :: "string \<Rightarrow> webhook_json \<Rightarrow> (session \<Rightarrow> session \<times> error option) option" where
  "dispatch topic payload =
     (if topic \<in> {''products/create'', ''products/update''}
        then Some (handle_product_webhook (as_product payload))
      else if topic = ''products/delete'' then Some (handle_product_delete (as_product payload))
      else if topic = ''inventory_levels/update''
        then Some (handle_inventory_update (as_inventory payload))
      else if topic \<in> {''customers/create'', ''customers/update''}
        then Some (handle_customer_webhook (as_customer payload))
      else if topic \<in> {''orders/create'', ''orders/paid'', ''orders/cancelled''}
        then Some (handle_order_webhook (as_order payload))
      else None)"

text \<open>The status and the message of the log row of the call.\<close>

definition set_log :: "nat \<Rightarrow> string \<Rightarrow> string option \<Rightarrow> db \<Rightarrow> db" where
  "set_log log_id status message d =
     d\<lparr>webhook_events :=
         map (\<lambda>row. if fst row = log_id
                     then (fst row, (snd row)\<lparr>w_status := status, w_error_message := message\<rparr>)
                     else row)
           (webhook_events d)\<rparr>"

text \<open>\<^verbatim>\<open>str(handler_error)\<close>; the model keeps no more of it than its kind.\<close>

definition exception_text :: "error \<Rightarrow> string" where
  "exception_text e = (if e = DatabaseError then ''IntegrityError'' else ''Exception'')"

text \<open>
  \<^verbatim>\<open>handle_webhook\<close> (main.py). A body that is not JSON is answered 400 and logged
  nowhere. Otherwise the log row is committed first, as "processing"; then the
  handler runs and the endpoint commits once more, with the row marked "processed".
  When the handler raises, the endpoint marks the row "failed" and commits
  \<^emph>\<open>without a rollback\<close>: what the handler did before it raised is committed with it.
  A commit that a constraint refuses leaves the session unusable until it is rolled
  back: whether it was the commit after a handler that returned or the commit of the
  \<^verbatim>\<open>except\<close> block itself (or the transaction was already refused by the
  database), the commit of the \<^verbatim>\<open>except\<close> block raises in its turn, the outer
  handler rolls back, and the log row stays as it was first written, "processing".
  The result is the error answered, if any, and the store left behind.
\<close>

definition handle_webhook :: "string \<Rightarrow> webhook_json option \<Rightarrow> db \<Rightarrow> error option \<times> db" where
  "handle_webhook topic body d =
     (case body of
        None \<Rightarrow> (Some InvalidJson, d)
      | Some payload \<Rightarrow>
          let log_id = next_id (webhook_events d);
              d1 = d\<lparr>webhook_events := insert_all (webhook_events d)
                      [\<lparr>w_topic = topic, w_shopify_id = wj_id payload, w_payload = wj_raw payload,
                        w_status = ''processing'', w_error_message = None\<rparr>]\<rparr>
          in (case dispatch topic payload of
                None \<Rightarrow>
                  (None, set_log log_id ''skipped'' (Some (''Unhandled topic: '' @ topic)) d1)
              | Some handler \<Rightarrow>
                  (case handler (open_session d1) of
                     (s, None) \<Rightarrow>
                       (case commit (s\<lparr>store := set_log log_id ''processed'' None (store s)\<rparr>) of
                          Inr d2 \<Rightarrow> (None, d2)
                        | Inl e \<Rightarrow> (Some InternalError, d1))
                   | (s, Some e) \<Rightarrow>
                       if e = DatabaseError then (Some InternalError, d1)
                       else
                         (case commit (s\<lparr>store := set_log log_id ''failed''
                                          (Some (exception_text e)) (store s)\<rparr>) of
                            Inr d2 \<Rightarrow> (Some InternalError, d2)
                          | Inl e' \<Rightarrow> (Some InternalError, d1)))))"

section \<open>The paginated fetchers of the remote client\<close>

text \<open>
  \<^verbatim>\<open>get_all_products\<close>, \<^verbatim>\<open>get_all_customers\<close> and \<^verbatim>\<open>get_orders_by_date_range\<close>
  (shopify.py) are the same loop over different URLs and keys. One pass of the loop
  sends one GET. Whatever goes wrong inside the \<^verbatim>\<open>try\<close> (the transport, a status that
  is not 2xx, a body that is not JSON) is \<open>RequestFailed\<close>; otherwise the response is
  its JSON object, as a list of keys with their record lists, and its \<^verbatim>\<open>Link\<close> header,
  empty when there is none.
\<close>

datatype 'a response = RequestFailed | Response "(string \<times> 'a list) list" string

text \<open>\<^verbatim>\<open>str.split(sep)\<close> for a separator of one character: never the empty list.\<close>

fun split_on :: "char \<Rightarrow> string \<Rightarrow> string list" where
  "split_on sep [] = [[]]"
| "split_on sep (c # cs) =
     (if c = sep then [] # split_on sep cs
      else (case split_on sep cs of [] \<Rightarrow> [[c]] | piece # pieces \<Rightarrow> (c # piece) # pieces))"

text \<open>
  \<^verbatim>\<open>str.strip(chars)\<close> and \<^verbatim>\<open>str.strip()\<close>. A header value is decoded as Latin-1,
  one character per byte, and these are the twelve characters below \<open>0x100\<close> that
  \<^verbatim>\<open>str.isspace\<close> holds of: the ASCII ones, the four separators \<open>0x1C\<close> to \<open>0x1F\<close>,
  the next line \<open>0x85\<close> and the no-break space \<open>0xA0\<close>.
\<close>

definition strip_chars :: "string \<Rightarrow> string \<Rightarrow> string" where
  "strip_chars chars s =
     rev (dropWhile (\<lambda>c. c \<in> set chars) (rev (dropWhile (\<lambda>c. c \<in> set chars) s)))"

definition whitespace :: string where
  "whitespace =
     [CHR 0x09, CHR 0x0A, CHR 0x0B, CHR 0x0C, CHR 0x0D, CHR 0x1C, CHR 0x1D, CHR 0x1E, CHR 0x1F,
      CHR 0x20, CHR 0x85, CHR 0xA0]"

definition strip :: "string \<Rightarrow> string" where
  "strip s = strip_chars whitespace s"

definition rel_next :: string where
  "rel_next = ''rel='' @ [CHR 0x22] @ ''next'' @ [CHR 0x22]"

text \<open>
  The URL the loop goes on with: \<^verbatim>\<open>None\<close> unless a part of the header mentions
  \<^verbatim>\<open>rel="next"\<close>; then what stands before the first semicolon of the first such part,
  without blanks and angle brackets.
\<close>

definition next_url :: "string \<Rightarrow> string option" where
  "next_url link_header =
     (if link_header = [] then None
      else (case find (\<lambda>link. contains link rel_next) (split_on CHR '','' link_header) of
              None \<Rightarrow> None
            | Some link \<Rightarrow>
                (case split_on CHR '';'' link of
                   [] \<Rightarrow> None
                 | target # _ \<Rightarrow> Some (strip_chars ''<>'' (strip target)))))"

text \<open>\<^verbatim>\<open>data.get(key, [])\<close>.\<close>

definition records :: "(string \<times> 'a list) list \<Rightarrow> string \<Rightarrow> 'a list" where
  "records data key = (case map_of data key of None \<Rightarrow> [] | Some xs \<Rightarrow> xs)"

text \<open>
  The loop \<^verbatim>\<open>while url: ...\<close>. \<open>http n u\<close> is the outcome of the \<open>n\<close>-th GET of the
  call when it asks for \<open>u\<close>; \<open>page_count\<close> counts the GETs, as in the source. The
  loop need not end (the remote may send next links for ever): not returning is
  \<open>None\<close>. It has no \<^verbatim>\<open>raise\<close>.
\<close>

partial_function (option) fetch_pages ::
  "(nat \<Rightarrow> string \<Rightarrow> 'a response) \<Rightarrow> string \<Rightarrow> string option \<Rightarrow> nat \<Rightarrow> 'a list
     \<Rightarrow> ('a list \<times> nat) option" where
  "fetch_pages http key url page_count all_records =
     (case url of
        None \<Rightarrow> Some (all_records, page_count)
      | Some u \<Rightarrow>
          if u = [] then Some (all_records, page_count)
          else
            (case http (page_count + 1) u of
               RequestFailed \<Rightarrow> Some (all_records, page_count + 1)
             | Response data link_header \<Rightarrow>
                 if records data key = [] then Some (all_records, page_count + 1)
                 else fetch_pages http key (next_url link_header) (page_count + 1)
                        (all_records @ records data key)))"

definition get_all_products ::
  "string \<Rightarrow> (nat \<Rightarrow> string \<Rightarrow> 'a response) \<Rightarrow> ('a list \<times> nat) option" where
  "get_all_products base_url http =
     fetch_pages http ''products'' (Some (base_url @ ''/products.json?limit=250'')) 0 []"

definition get_all_customers ::
  "string \<Rightarrow> (nat \<Rightarrow> string \<Rightarrow> 'a response) \<Rightarrow> ('a list \<times> nat) option" where
  "get_all_customers base_url http =
     fetch_pages http ''customers'' (Some (base_url @ ''/customers.json?limit=250'')) 0 []"

definition get_orders_by_date_range ::
  "string \<Rightarrow> (nat \<Rightarrow> string \<Rightarrow> 'a response) \<Rightarrow> string \<Rightarrow> string \<Rightarrow> string
     \<Rightarrow> ('a list \<times> nat) option" where
  "get_orders_by_date_range base_url http start_date end_date status =
     fetch_pages http ''orders''
       (Some (base_url @ ''/orders.json?limit=250&status='' @ status @ ''&created_at_min=''
                @ start_date @ ''&created_at_max='' @ end_date)) 0 []"

section \<open>Order creation\<close>

text \<open>
  The three order endpoints of main.py talk to the remote platform; \<open>remote\<close> holds
  what it answers. \<^verbatim>\<open>create_customer\<close> and \<^verbatim>\<open>search_customer_by_email\<close> (shopify.py)
  swallow every failure and return \<^verbatim>\<open>None\<close> and \<^verbatim>\<open>[]\<close>; the POST of an order either
  raises or returns a JSON object that may hold an \<^verbatim>\<open>"order"\<close>.
\<close>

record new_customer =
  nc_first_name :: string
  nc_last_name :: string
  nc_email :: string
  nc_phone :: "string option"
  nc_address :: "address_json option"

record remote_line_item =
  rl_title :: "string option"
  rl_quantity :: int
  rl_price :: double
  rl_variant_id :: "int option"

text \<open>The order sent to the remote platform: its line items, tags, customer, the one
  sale transaction (amount and gateway) and, with a discount, the note (the discount
  and its reason).\<close>

record order_payload =
  op_line_items :: "remote_line_item list"
  op_tags :: string
  op_financial_status :: string
  op_email :: "string option"
  op_customer :: "int option"
  op_amount :: double
  op_gateway :: string
  op_note :: "(double \<times> string option) option"

record shopify_order =
  so_id :: "int option"
  so_order_number :: "int option"

datatype post_result = PostFailed | Posted "shopify_order option"

record remote =
  remote_create_customer :: "new_customer \<Rightarrow> customer_json option"
  remote_search_by_email :: "string \<Rightarrow> customer_json list"
  remote_post_order :: "order_payload \<Rightarrow> post_result"

text \<open>
  \<^verbatim>\<open>db.add(customer); db.commit(); db.refresh(customer)\<close>: the new row is committed
  at once, in a transaction of its own. A remote customer without an id, or with the
  id of a row already there, makes it raise.
\<close>

definition persist_customer :: "customer_json \<Rightarrow> db \<Rightarrow> error + db \<times> nat \<times> customer" where
  "persist_customer cj d =
     (case commit ((open_session d)\<lparr>new_customers := [new_customer_row cj]\<rparr>) of
        Inl e \<Rightarrow> Inl InternalError
      | Inr d' \<Rightarrow> Inr (d', next_id (customers d), new_customer_row cj))"

text \<open>The customer of an email: the local row, or else the first remote match, which
  is persisted.\<close>

definition find_or_fetch_customer ::
  "remote \<Rightarrow> string \<Rightarrow> db \<Rightarrow> error + db \<times> (nat \<times> customer) option" where
  "find_or_fetch_customer r email d =
     (case first_row (\<lambda>c. c_email c = Some email) (customers d) of
        Some customer \<Rightarrow> Inr (d, Some customer)
      | None \<Rightarrow>
          (case remote_search_by_email r email of
             [] \<Rightarrow> Inr (d, None)
           | c # _ \<Rightarrow>
               (case persist_customer c d of
                  Inl e \<Rightarrow> Inl e
                | Inr (d', customer) \<Rightarrow> Inr (d', Some customer))))"

subsection \<open>The cart\<close>

record cart_item =
  ci_type :: "string jfield"
  ci_quantity :: "int jfield"
  ci_title :: "string option"
  ci_size :: "string jfield"
  ci_price :: "price_json jfield"
  ci_barcode :: "string option"

record cart_order =
  co_items :: "cart_item list"
  co_payment_method :: string
  co_email :: "string option"
  co_new_customer :: "new_customer option"
  co_discount :: "double option"
  co_discount_reason :: "string option"

record local_order =
  lo_type :: string
  lo_title :: "string option"
  lo_quantity :: int
  lo_price :: double
  lo_barcode :: "string option"
  lo_product :: "(nat \<times> product) option"

record cart =
  line_items :: "remote_line_item list"
  local_orders :: "local_order list"
  total_amount :: double

record cart_response =
  cr_shopify_order_id :: "int option"
  cr_shopify_order_number :: "int option"
  cr_original_amount :: double
  cr_final_amount :: double
  cr_items_count :: nat
  cr_orders :: "order list"
  cr_discount_applied :: "double option"

text \<open>The customer of a cart order: exactly one of the email and the new customer.\<close>

definition resolve_customer :: "remote \<Rightarrow> cart_order \<Rightarrow> db \<Rightarrow> error + db \<times> nat \<times> customer" where
  "resolve_customer r request d =
     (case co_new_customer request of
        Some new_customer_data \<Rightarrow>
          (case first_row (\<lambda>c. c_email c = Some (nc_email new_customer_data)) (customers d) of
             Some existing \<Rightarrow> Inr (d, existing)
           | None \<Rightarrow>
               (case remote_create_customer r new_customer_data of
                  None \<Rightarrow> Inl CustomerCreateFailed
                | Some shopify_customer \<Rightarrow> persist_customer shopify_customer d))
      | None \<Rightarrow>
          (case co_email request of
             None \<Rightarrow> Inl NoCustomerSelector
           | Some email \<Rightarrow>
               (case find_or_fetch_customer r email d of
                  Inl e \<Rightarrow> Inl e
                | Inr (d', None) \<Rightarrow> Inl CustomerNotFound
                | Inr (d', Some customer) \<Rightarrow> Inr (d', customer))))"

text \<open>\<^verbatim>\<open>float(item.get("price", 0))\<close>: a \<^verbatim>\<open>null\<close> raises, as text that is no number.\<close>

fun float_default_0 :: "price_json jfield \<Rightarrow> error + double" where
  "float_default_0 Absent = Inr 0"
| "float_default_0 Null = Inl InternalError"
| "float_default_0 (Val (Number x)) = Inr x"
| "float_default_0 (Val NotANumber) = Inl InternalError"

text \<open>\<^verbatim>\<open>f"{title} - {size}" if size else title\<close>.\<close>

definition full_title :: "string \<Rightarrow> string option \<Rightarrow> string" where
  "full_title title item_size =
     (case item_size of
        None \<Rightarrow> title
      | Some s \<Rightarrow> if s = [] then title else title @ '' - '' @ s)"

text \<open>
  The body of the loop over the cart items. An item is skipped without a word when it
  is a custom item with no title or with \<^verbatim>\<open>custom_price <= 0\<close> (which a NaN is not),
  or a barcode item with no barcode or no local variant. The quantity is an integer or
  \<^verbatim>\<open>null\<close>; multiplying the price by \<^verbatim>\<open>null\<close>, or by an integer too large for a
  float, raises. The total starts as the integer 0 and every item adds its price times
  its quantity, in floats and in the order of the cart.
\<close>

definition add_cart_item :: "db \<Rightarrow> cart_item \<Rightarrow> cart \<Rightarrow> error + cart" where
  "add_cart_item d item acc =
     (let quantity = get_default (ci_quantity item) 1 in
      if get_default (ci_type item) ''barcode'' = Some ''custom'' then
        (case float_default_0 (ci_price item) of
           Inl e \<Rightarrow> Inl e
         | Inr custom_price \<Rightarrow>
             (case ci_title item of
                None \<Rightarrow> Inr acc
              | Some custom_title \<Rightarrow>
                  if custom_title = [] \<or> custom_price \<le> 0 then Inr acc
                  else
                    (case quantity of
                       None \<Rightarrow> Inl InternalError
                     | Some q \<Rightarrow>
                         (case int_to_float q of
                            Inl e \<Rightarrow> Inl e
                          | Inr factor \<Rightarrow>
                              let title = full_title custom_title (get_default (ci_size item) [])
                              in Inr \<lparr>line_items = line_items acc @
                                        [\<lparr>rl_title = Some title, rl_quantity = q,
                                          rl_price = custom_price, rl_variant_id = None\<rparr>],
                                      local_orders = local_orders acc @
                                        [\<lparr>lo_type = ''custom'', lo_title = Some title,
                                          lo_quantity = q, lo_price = custom_price,
                                          lo_barcode = None, lo_product = None\<rparr>],
                                      total_amount =
                                        total_amount acc + custom_price * factor\<rparr>))))
      else
        (case ci_barcode item of
           None \<Rightarrow> Inr acc
         | Some barcode \<Rightarrow>
             if barcode = [] then Inr acc
             else
               (case select_product d barcode of
                  Inl e \<Rightarrow> Inl e
                | Inr None \<Rightarrow> Inr acc
                | Inr (Some product) \<Rightarrow>
                    (case quantity of
                       None \<Rightarrow> Inl InternalError
                     | Some q \<Rightarrow>
                         (case int_to_float q of
                            Inl e \<Rightarrow> Inl e
                          | Inr factor \<Rightarrow>
                              Inr \<lparr>line_items = line_items acc @
                                     [\<lparr>rl_title = p_title (snd product), rl_quantity = q,
                                       rl_price = p_price (snd product),
                                       rl_variant_id = p_shopify_id (snd product)\<rparr>],
                                   local_orders = local_orders acc @
                                     [\<lparr>lo_type = ''barcode'', lo_title = p_title (snd product),
                                       lo_quantity = q, lo_price = p_price (snd product),
                                       lo_barcode = Some barcode, lo_product = Some product\<rparr>],
                                   total_amount =
                                     total_amount acc + p_price (snd product) * factor\<rparr>)))))"

fun add_cart_items :: "db \<Rightarrow> cart_item list \<Rightarrow> cart \<Rightarrow> error + cart" where
  "add_cart_items d [] acc = Inr acc"
| "add_cart_items d (item # items) acc =
     (case add_cart_item d item acc of
        Inl e \<Rightarrow> Inl e
      | Inr acc' \<Rightarrow> add_cart_items d items acc')"

definition empty_cart :: cart where
  "empty_cart = \<lparr>line_items = [], local_orders = [], total_amount = 0\<rparr>"

text \<open>
  The discount of the cart endpoint: compared with the total only when
  \<^verbatim>\<open>discount_amount > 0\<close>, and then subtracted from it, in floats. Comparing a
  \<^verbatim>\<open>null\<close> discount with 0 raises.
\<close>

definition apply_discount :: "double option \<Rightarrow> double \<Rightarrow> error + double" where
  "apply_discount discount_amount original_total =
     (case discount_amount of
        None \<Rightarrow> Inl InternalError
      | Some discount \<Rightarrow>
          if discount > 0 then
            (if discount \<ge> original_total then Inl (DiscountTooLarge discount original_total)
             else Inr (original_total - discount))
          else Inr original_total)"

definition gateway_of :: "string \<Rightarrow> string" where
  "gateway_of payment_method = (if payment_method = ''cash'' then ''cash'' else ''pos'')"

text \<open>Python's \<^verbatim>\<open>f"{x}"\<close> of an optional string.\<close>

definition fstr :: "string option \<Rightarrow> string" where
  "fstr s = (case s of None \<Rightarrow> ''None'' | Some text \<Rightarrow> text)"

text \<open>
  The order the cart endpoint posts. With a positive discount it gets a note, and a
  line of negative price is appended to the line items.
\<close>

definition cart_order_payload ::
  "cart_order \<Rightarrow> customer \<Rightarrow> remote_line_item list \<Rightarrow> double \<Rightarrow> double \<Rightarrow> order_payload" where
  "cart_order_payload request customer items discount final_amount =
     \<lparr>op_line_items =
        (if discount > 0 then
           items @ [\<lparr>rl_title = Some (''Discount - '' @ fstr (co_discount_reason request)),
                     rl_quantity = 1, rl_price = - discount, rl_variant_id = None\<rparr>]
         else items),
      op_tags = ''in-store, '' @ co_payment_method request,
      op_financial_status = ''paid'',
      op_email = c_email customer,
      op_customer = (if truthy_int (c_shopify_id customer) then c_shopify_id customer else None),
      op_amount = final_amount,
      op_gateway = gateway_of (co_payment_method request),
      op_note = (if discount > 0 then Some (discount, co_discount_reason request) else None)\<rparr>"

text \<open>The local row of an accepted cart item.\<close>

definition cart_row :: "shopify_order \<Rightarrow> nat \<Rightarrow> string \<Rightarrow> local_order \<Rightarrow> order" where
  "cart_row remote_order customer_id payment_method order_data =
     \<lparr>o_shopify_order_id = so_id remote_order,
      o_customer_id = Some customer_id,
      o_product_id =
        (if lo_type order_data = ''custom'' then None else map_option fst (lo_product order_data)),
      o_barcode = (if lo_type order_data = ''custom'' then None else lo_barcode order_data),
      o_title = lo_title order_data,
      o_quantity = Some (lo_quantity order_data),
      o_price = lo_price order_data,
      o_payment_method = payment_method,
      o_status = Some ''completed''\<rparr>"

text \<open>
  What follows the customer in \<^verbatim>\<open>create_order_from_cart\<close>: the items, the check that
  some were accepted, the discount, the one POST, and only then the local rows, one
  \<^verbatim>\<open>db.add\<close> per accepted item and one commit. The receipt that is printed afterwards
  is best effort and touches neither the store nor the response; it is left out.
  \<open>d\<close> is the store after the customer was resolved: an error here leaves it as it is.
\<close>

definition checkout ::
  "remote \<Rightarrow> cart_order \<Rightarrow> nat \<times> customer \<Rightarrow> db \<Rightarrow> error + db \<times> cart_response" where
  "checkout r request customer d =
     (case add_cart_items d (co_items request) empty_cart of
        Inl e \<Rightarrow> Inl InternalError
      | Inr acc \<Rightarrow>
          if line_items acc = [] then Inl NoValidProducts
          else
            (case apply_discount (co_discount request) (total_amount acc) of
               Inl e \<Rightarrow> Inl e
             | Inr final_amount \<Rightarrow>
                 let discount = (case co_discount request of None \<Rightarrow> 0 | Some x \<Rightarrow> x);
                     payload = cart_order_payload request (snd customer) (line_items acc)
                                 discount final_amount
                 in (case remote_post_order r payload of
                       PostFailed \<Rightarrow> Inl InternalError
                     | Posted None \<Rightarrow> Inl OrderCreateFailed
                     | Posted (Some remote_order) \<Rightarrow>
                         let rows = map (cart_row remote_order (fst customer)
                                           (co_payment_method request)) (local_orders acc)
                         in (case commit ((open_session d)\<lparr>new_orders := rows\<rparr>) of
                               Inl e \<Rightarrow> Inl InternalError
                             | Inr d' \<Rightarrow>
                                 Inr (d',
                                   \<lparr>cr_shopify_order_id = so_id remote_order,
                                    cr_shopify_order_number = so_order_number remote_order,
                                    cr_original_amount = total_amount acc,
                                    cr_final_amount = final_amount,
                                    cr_items_count = length (op_line_items payload),
                                    cr_orders = rows,
                                    cr_discount_applied =
                                      (if discount > 0 then Some discount else None)\<rparr>)))))"

text \<open>
  \<^verbatim>\<open>create_order_from_cart\<close>. The result is the response or the error, with the store
  the request leaves behind: a customer committed on the way stays committed when a
  later step fails.
\<close>

definition create_order_from_cart ::
  "remote \<Rightarrow> cart_order \<Rightarrow> db \<Rightarrow> (error + cart_response) \<times> db" where
  "create_order_from_cart r request d =
     (if co_items request = [] then (Inl EmptyItems, d)
      else if co_payment_method request \<notin> {''cash'', ''pos''} then (Inl InvalidPaymentMethod, d)
      else if \<not> truthy_str (co_email request) \<and> co_new_customer request = None
        then (Inl NoCustomerSelector, d)
      else if truthy_str (co_email request) \<and> co_new_customer request \<noteq> None
        then (Inl BothCustomerSelectors, d)
      else
        (case resolve_customer r request d of
           Inl e \<Rightarrow> (Inl e, d)
         | Inr (d1, customer) \<Rightarrow>
             (case checkout r request customer d1 of
                Inl e \<Rightarrow> (Inl e, d1)
              | Inr (d2, response) \<Rightarrow> (Inr response, d2))))"

subsection \<open>The single-item endpoints\<close>

text \<open>
  \<^verbatim>\<open>ShopifyAPI.create_order\<close>: one line of quantity 1 at the variant's price, whatever
  quantity was asked for. It swallows every failure and returns \<^verbatim>\<open>None\<close>.
\<close>

definition create_order :: "remote \<Rightarrow> product \<Rightarrow> customer \<Rightarrow> string \<Rightarrow> shopify_order option" where
  "create_order r product customer payment_method =
     (case remote_post_order r
             \<lparr>op_line_items =
                [\<lparr>rl_title = p_title product, rl_quantity = 1, rl_price = p_price product,
                  rl_variant_id = p_shopify_id product\<rparr>],
              op_tags = ''in-store, '' @ payment_method,
              op_financial_status = ''paid'',
              op_email = (if truthy_str (c_email customer) then c_email customer else None),
              op_customer =
                (if truthy_int (c_shopify_id customer) then c_shopify_id customer else None),
              op_amount = p_price product,
              op_gateway = gateway_of payment_method,
              op_note = None\<rparr> of
        PostFailed \<Rightarrow> None
      | Posted remote_order \<Rightarrow> remote_order)"

text \<open>\<^verbatim>\<open>create_order_endpoint\<close>: one barcode, one local row.\<close>

definition create_order_endpoint ::
  "remote \<Rightarrow> string \<Rightarrow> string \<Rightarrow> string \<Rightarrow> int \<Rightarrow> db \<Rightarrow> (error + order) \<times> db" where
  "create_order_endpoint r barcode payment_method email quantity d =
     (if payment_method \<notin> {''cash'', ''pos''} then (Inl InvalidPaymentMethod, d)
      else
        (case select_product d barcode of
           Inl e \<Rightarrow> (Inl InternalError, d)
         | Inr None \<Rightarrow> (Inl ProductNotFound, d)
         | Inr (Some product) \<Rightarrow>
             (case find_or_fetch_customer r email d of
                Inl e \<Rightarrow> (Inl e, d)
              | Inr (d1, None) \<Rightarrow> (Inl CustomerNotFound, d1)
              | Inr (d1, Some customer) \<Rightarrow>
                  (case create_order r (snd product) (snd customer) payment_method of
                     None \<Rightarrow> (Inl OrderCreateFailed, d1)
                   | Some remote_order \<Rightarrow>
                       let new_order =
                             \<lparr>o_shopify_order_id = so_id remote_order,
                              o_customer_id = Some (fst customer),
                              o_product_id = Some (fst product),
                              o_barcode = Some barcode,
                              o_title = p_title (snd product),
                              o_quantity = Some quantity,
                              o_price = p_price (snd product),
                              o_payment_method = payment_method,
                              o_status = Some ''completed''\<rparr>
                       in (case commit ((open_session d1)\<lparr>new_orders := [new_order]\<rparr>) of
                             Inl e \<Rightarrow> (Inl InternalError, d1)
                           | Inr d2 \<Rightarrow> (Inr new_order, d2))))))"

record manual_order =
  mo_title :: string
  mo_size :: "string option"
  mo_price :: double
  mo_quantity :: int
  mo_payment_method :: string
  mo_email :: "string option"
  mo_discount :: "double option"

record manual_response =
  mr_shopify_order_id :: "int option"
  mr_order :: order
  mr_original_amount :: double
  mr_final_amount :: double
  mr_discount_applied :: "double option"

text \<open>
  \<^verbatim>\<open>ShopifyAPI.create_manual_order\<close>: the custom line, the sale transaction of the
  discounted amount and, with a positive discount, a note and a line of negative price.
  It computes the total anew, \<^verbatim>\<open>price * quantity\<close> with the quantity \<open>factor\<close> as a
  float, and swallows every failure.
\<close>

definition manual_order_payload ::
  "manual_order \<Rightarrow> customer option \<Rightarrow> double \<Rightarrow> double \<Rightarrow> order_payload" where
  "manual_order_payload request customer discount factor =
     \<lparr>op_line_items =
        [\<lparr>rl_title = Some (full_title (mo_title request) (mo_size request)),
          rl_quantity = mo_quantity request, rl_price = mo_price request,
          rl_variant_id = None\<rparr>] @
        (if discount > 0 then
           [\<lparr>rl_title = Some ''Discount'', rl_quantity = 1, rl_price = - discount,
             rl_variant_id = None\<rparr>]
         else []),
      op_tags = ''in-store, manual, '' @ mo_payment_method request,
      op_financial_status = ''paid'',
      op_email =
        (case customer of
           None \<Rightarrow> None
         | Some c \<Rightarrow> if truthy_str (c_email c) then c_email c else None),
      op_customer =
        (case customer of
           None \<Rightarrow> None
         | Some c \<Rightarrow> if truthy_int (c_shopify_id c) then c_shopify_id c else None),
      op_amount = mo_price request * factor - discount,
      op_gateway = gateway_of (mo_payment_method request),
      op_note = (if discount > 0 then Some (discount, None) else None)\<rparr>"

definition create_manual_order ::
  "remote \<Rightarrow> manual_order \<Rightarrow> customer option \<Rightarrow> double \<Rightarrow> shopify_order option" where
  "create_manual_order r request customer discount =
     (case int_to_float (mo_quantity request) of
        Inl e \<Rightarrow> None
      | Inr factor \<Rightarrow>
          (case remote_post_order r (manual_order_payload request customer discount factor) of
             PostFailed \<Rightarrow> None
           | Posted remote_order \<Rightarrow> remote_order))"

text \<open>The customer of a manual order: none when no email is given.\<close>

definition manual_customer ::
  "remote \<Rightarrow> manual_order \<Rightarrow> db \<Rightarrow> error + db \<times> (nat \<times> customer) option" where
  "manual_customer r request d =
     (case mo_email request of
        None \<Rightarrow> Inr (d, None)
      | Some email \<Rightarrow>
          if email = [] then Inr (d, None) else find_or_fetch_customer r email d)"

text \<open>
  \<^verbatim>\<open>create_manual_order_endpoint\<close>. Every check, the discount's too, comes before the
  customer is looked up; the discount is compared with the total, in floats, whatever
  its sign. The checks are \<^verbatim>\<open>price <= 0\<close> and \<^verbatim>\<open>discount >= item_total\<close>: a NaN
  passes both. A customer that is found nowhere is no error here: the order is then
  anonymous.
\<close>

definition create_manual_order_endpoint ::
  "remote \<Rightarrow> manual_order \<Rightarrow> db \<Rightarrow> (error + manual_response) \<times> db" where
  "create_manual_order_endpoint r request d =
     (if mo_title request = [] then (Inl TitleRequired, d)
      else if mo_price request \<le> 0 then (Inl PriceNotPositive, d)
      else if mo_payment_method request \<notin> {''cash'', ''pos''} then (Inl InvalidPaymentMethod, d)
      else if mo_quantity request < 1 then (Inl QuantityTooSmall, d)
      else
        (case int_to_float (mo_quantity request) of
           Inl e \<Rightarrow> (Inl InternalError, d)
         | Inr factor \<Rightarrow>
        (let item_total = mo_price request * factor in
         case mo_discount request of
           None \<Rightarrow> (Inl InternalError, d)
         | Some discount \<Rightarrow>
             if discount \<ge> item_total then (Inl (DiscountTooLarge discount item_total), d)
             else
               (case manual_customer r request d of
                  Inl e \<Rightarrow> (Inl e, d)
                | Inr (d1, customer) \<Rightarrow>
                    (case create_manual_order r request (map_option snd customer) discount of
                       None \<Rightarrow> (Inl OrderCreateFailed, d1)
                     | Some remote_order \<Rightarrow>
                         let new_order =
                               \<lparr>o_shopify_order_id = so_id remote_order,
                                o_customer_id = map_option fst customer,
                                o_product_id = None,
                                o_barcode = None,
                                o_title = Some (full_title (mo_title request) (mo_size request)),
                                o_quantity = Some (mo_quantity request),
                                o_price = mo_price request,
                                o_payment_method = mo_payment_method request,
                                o_status = Some ''completed''\<rparr>
                         in (case commit ((open_session d1)\<lparr>new_orders := [new_order]\<rparr>) of
                               Inl e \<Rightarrow> (Inl InternalError, d1)
                             | Inr d2 \<Rightarrow>
                                 (Inr \<lparr>mr_shopify_order_id = so_id remote_order,
                                       mr_order = new_order,
                                       mr_original_amount = item_total,
                                       mr_final_amount = item_total - discount,
                                       mr_discount_applied =
                                         (if discount > 0 then Some discount else None)\<rparr>,
                                  d2)))))))"

section \<open>Notions used in the proofs\<close>

text \<open>The rows a session holds for the products table, stored or pending; the external
  ids of the stored ones; and everything of a session that is not a product.\<close>

definition product_rows :: "session \<Rightarrow> product set" where
  "product_rows s = snd ` set (products (store s)) \<union> set (new_products s)"

definition stored_ids :: "session \<Rightarrow> int option list" where
  "stored_ids s = map (\<lambda>r. p_shopify_id (snd r)) (products (store s))"

definition other_tables ::
  "session \<Rightarrow> customer table \<times> order table \<times> webhook_event table \<times> bool \<times> customer list \<times> order list \<times> webhook_event list" where
  "other_tables s =
     (customers (store s), orders (store s), webhook_events (store s), enforce_foreign_keys (store s),
      new_customers s, new_orders s, new_events s)"

definition pass_inv :: "pass \<Rightarrow> bool" where
  "pass_inv st \<longleftrightarrow>
     distinct (map p_shopify_id (new_products (sess st)))
   \<and> (\<forall>p \<in> set (new_products (sess st)).
         p_shopify_id p \<notin> set (stored_ids (sess st)) \<and> p_shopify_id p \<in> Some ` processed_ids st)
   \<and> (\<forall>vid \<in> processed_ids st.
         Some vid \<in> set (stored_ids (sess st)) \<union> p_shopify_id ` set (new_products (sess st)))
   \<and> finite (processed_ids st)
   \<and> added_count st = length (new_products (sess st))
   \<and> added_count st + updated_count st = card (processed_ids st)"

definition eligible_ids :: "(product_json \<times> variant_json) list \<Rightarrow> int list" where
  "eligible_ids pvs = List.map_filter (\<lambda>pv. if eligible (snd pv) then v_id (snd pv) else None) pvs"


text \<open>The same notions for the customers table.\<close>

definition customer_ids :: "session \<Rightarrow> int option list" where
  "customer_ids s = map (\<lambda>r. c_shopify_id (snd r)) (customers (store s))"

definition beside_customers ::
  "session \<Rightarrow> product table \<times> order table \<times> webhook_event table \<times> bool \<times> product list \<times> order list \<times> webhook_event list" where
  "beside_customers s =
     (products (store s), orders (store s), webhook_events (store s), enforce_foreign_keys (store s),
      new_products s, new_orders s, new_events s)"

definition customer_keys :: "customer_json list \<Rightarrow> int list" where
  "customer_keys cjs =
     List.map_filter (\<lambda>cj. case cj_id cj of None \<Rightarrow> None | Some k \<Rightarrow> if k = 0 then None else Some k) cjs"

definition customer_pass_inv :: "pass \<Rightarrow> bool" where
  "customer_pass_inv st \<longleftrightarrow>
     distinct (map c_shopify_id (new_customers (sess st)))
   \<and> (\<forall>c \<in> set (new_customers (sess st)).
         c_shopify_id c \<notin> set (customer_ids (sess st)) \<and> c_shopify_id c \<in> Some ` processed_ids st)
   \<and> (\<forall>k \<in> processed_ids st.
         Some k \<in> set (customer_ids (sess st)) \<union> c_shopify_id ` set (new_customers (sess st)))
   \<and> finite (processed_ids st)
   \<and> added_count st = length (new_customers (sess st))
   \<and> added_count st + updated_count st = card (processed_ids st)"

text \<open>
  \<open>pages_from http key n u pages u'\<close>: starting with the GET number \<open>n + 1\<close> for the
  URL \<open>u\<close>, the remote answers the next \<open>length pages\<close> GETs of the loop, each with a
  JSON object that has under \<open>key\<close> one element of \<open>pages\<close> (not empty), and with a link
  to a next URL, the last of which is \<open>u'\<close>.
\<close>

fun pages_from ::
  "(nat \<Rightarrow> string \<Rightarrow> 'a response) \<Rightarrow> string \<Rightarrow> nat \<Rightarrow> string \<Rightarrow> 'a list list \<Rightarrow> string \<Rightarrow> bool" where
  "pages_from http key n u [] u' = (u' = u)"
| "pages_from http key n u (page # pages) u' =
     (u \<noteq> [] \<and>
      (case http (n + 1) u of
         RequestFailed \<Rightarrow> False
       | Response data link_header \<Rightarrow>
           map_of data key = Some page \<and> page \<noteq> [] \<and>
           (case next_url link_header of
              None \<Rightarrow> False
            | Some v \<Rightarrow> pages_from http key (n + 1) v pages u')))"

text \<open>
  The cart items the loop of \<^verbatim>\<open>create_order_from_cart\<close> accepts: a custom item with
  a title and a price that is not \<open>\<le> 0\<close>, a barcode item whose barcode some local
  variant has.
\<close>

definition accepted :: "db \<Rightarrow> cart_item \<Rightarrow> bool" where
  "accepted d item =
     (if get_default (ci_type item) ''barcode'' = Some ''custom'' then
        (case float_default_0 (ci_price item) of
           Inl e \<Rightarrow> False
         | Inr custom_price \<Rightarrow> truthy_str (ci_title item) \<and> \<not> custom_price \<le> 0)
      else
        (case ci_barcode item of
           None \<Rightarrow> False
         | Some barcode \<Rightarrow>
             barcode \<noteq> [] \<and> all_rows (\<lambda>p. p_barcode p = Some barcode) (products d) \<noteq> []))"

text \<open>
  The total of a cart, as the specification words it: the running total accumulates
  price times quantity across all accepted items. The sum is the floats' sum, taken in
  the order of the cart from 0. The price of a custom item is its own; the price of a
  barcode item is that of the variant it sells, the first row with the barcode that is
  in stock or else the first row with the barcode. A quantity that is left out is 1.
\<close>

definition sold_variant :: "db \<Rightarrow> string \<Rightarrow> product option" where
  "sold_variant d barcode =
     (let rows = filter (\<lambda>row. p_barcode (snd row) = Some barcode) (products d)
      in case find (\<lambda>row. case p_inventory_quantity (snd row) of
                              None \<Rightarrow> False | Some n \<Rightarrow> 0 < n) rows of
           Some row \<Rightarrow> Some (snd row)
         | None \<Rightarrow> (case rows of [] \<Rightarrow> None | row # _ \<Rightarrow> Some (snd row)))"

definition item_price :: "db \<Rightarrow> cart_item \<Rightarrow> double" where
  "item_price d item =
     (if get_default (ci_type item) ''barcode'' = Some ''custom'' then
        (case ci_price item of Val (Number x) \<Rightarrow> x | _ \<Rightarrow> 0)
      else
        (case ci_barcode item of
           None \<Rightarrow> 0
         | Some barcode \<Rightarrow>
             (case sold_variant d barcode of None \<Rightarrow> 0 | Some row \<Rightarrow> p_price row)))"

definition item_quantity :: "cart_item \<Rightarrow> int" where
  "item_quantity item = (case ci_quantity item of Val q \<Rightarrow> q | _ \<Rightarrow> 1)"

definition cart_total :: "db \<Rightarrow> cart_item list \<Rightarrow> double" where
  "cart_total d items =
     foldl (+) 0
       (map (\<lambda>item. item_price d item * round_double (of_int (item_quantity item)))
          (filter (accepted d) items))"

text \<open>The four checks \<^verbatim>\<open>create_order_from_cart\<close> makes before it looks at the store.\<close>

definition well_formed_request :: "cart_order \<Rightarrow> bool" where
  "well_formed_request request =
     (co_items request \<noteq> [] \<and> co_payment_method request \<in> {''cash'', ''pos''}
      \<and> (truthy_str (co_email request) \<noteq> (co_new_customer request \<noteq> None)))"

text \<open>A product row with a barcode and an external variant id, neither null nor the
  empty string or zero; a store whose product rows all are.\<close>

definition barcoded :: "product \<Rightarrow> bool" where
  "barcoded p \<longleftrightarrow> p_barcode p \<notin> {None, Some []} \<and> p_shopify_id p \<notin> {None, Some 0}"

definition all_barcoded :: "db \<Rightarrow> bool" where
  "all_barcoded d = list_all (\<lambda>row. barcoded (snd row)) (products d)"

text \<open>
  The stores that can be reached from one without products by the operations of the
  model, product webhooks of the topics \<^verbatim>\<open>products/create\<close> and \<^verbatim>\<open>products/update\<close>
  left out: bulk syncs, clearing the products, every other webhook, and the three order
  endpoints. (A sync or a clear that fails leaves the store as it was.)
\<close>

inductive reachable :: "db \<Rightarrow> bool" where
  start: "products d = [] \<Longrightarrow> reachable d"
| products_synced: "reachable d \<Longrightarrow> sync_products ps d = Inr (d', rep) \<Longrightarrow> reachable d'"
| customers_synced: "reachable d \<Longrightarrow> sync_customers cjs d = Inr (d', rep) \<Longrightarrow> reachable d'"
| products_cleared: "reachable d \<Longrightarrow> clear_products d = Inr d' \<Longrightarrow> reachable d'"
| webhook: "reachable d \<Longrightarrow> topic \<notin> {''products/create'', ''products/update''} \<Longrightarrow>
     handle_webhook topic body d = (answer, d') \<Longrightarrow> reachable d'"
| cart_order: "reachable d \<Longrightarrow> create_order_from_cart r request d = (cart_result, d') \<Longrightarrow>
     reachable d'"
| single_order: "reachable d \<Longrightarrow>
     create_order_endpoint r barcode payment_method email quantity d = (order_result, d') \<Longrightarrow>
     reachable d'"
| manual_order: "reachable d \<Longrightarrow>
     create_manual_order_endpoint r manual d = (manual_result, d') \<Longrightarrow> reachable d'"

text \<open>Between two states of a session: every product row of the second is a row of the
  first or is barcoded.\<close>

definition untouched_or_barcoded :: "session \<Rightarrow> session \<Rightarrow> bool" where
  "untouched_or_barcoded s s' \<longleftrightarrow>
     (\<forall>x \<in> snd ` set (products (store s')). x \<in> snd ` set (products (store s)) \<or> barcoded x)
   \<and> (\<forall>x \<in> set (new_products s'). x \<in> set (new_products s) \<or> barcoded x)"

text \<open>The four checks of \<^verbatim>\<open>create_manual_order_endpoint\<close> that come before the
  discount.\<close>

definition valid_manual :: "manual_order \<Rightarrow> bool" where
  "valid_manual request =
     (mo_title request \<noteq> [] \<and> \<not> mo_price request \<le> 0
      \<and> mo_payment_method request \<in> {''cash'', ''pos''} \<and> 1 \<le> mo_quantity request)"

text \<open>The customer a cart request names is a row of the store already.\<close>

definition customer_known :: "cart_order \<Rightarrow> db \<Rightarrow> bool" where
  "customer_known request d =
     (case co_new_customer request of
        Some new_customer_data \<Rightarrow>
          first_row (\<lambda>c. c_email c = Some (nc_email new_customer_data)) (customers d) \<noteq> None
      | None \<Rightarrow>
          (case co_email request of
             None \<Rightarrow> True
           | Some email \<Rightarrow> first_row (\<lambda>c. c_email c = Some email) (customers d) \<noteq> None))"

text \<open>The errors \<^verbatim>\<open>create_order_from_cart\<close> raises before it resolves the customer.\<close>

definition early_error :: "error \<Rightarrow> bool" where
  "early_error e =
     (e = EmptyItems \<or> e = InvalidPaymentMethod \<or> e = NoCustomerSelector
      \<or> e = BothCustomerSelectors)"

section \<open>Example stores and payloads\<close>

text \<open>A store on the default SQLite deployment: one variant, and one order row that
  points to it.\<close>

definition sqlite_store :: db where
  "sqlite_store =
     \<lparr>products =
        [(1, (blank_product (Some 11))\<lparr>p_title := Some ''Shirt'', p_barcode := Some ''888'',
               p_inventory_quantity := Some 3\<rparr>)],
      customers = [],
      orders =
        [(1, \<lparr>o_shopify_order_id = Some 500, o_customer_id = None, o_product_id = Some 1,
              o_barcode = Some ''888'', o_title = Some ''Shirt'', o_quantity = Some 1,
              o_price = Finite 10, o_payment_method = ''cash'', o_status = Some ''completed''\<rparr>)],
      webhook_events = [],
      enforce_foreign_keys = False\<rparr>"

text \<open>The same rows on the PostgreSQL deployment.\<close>

definition postgres_store :: db where
  "postgres_store = sqlite_store\<lparr>enforce_foreign_keys := True\<rparr>"

text \<open>Two line rows of the remote order 500 and one of the order 499.\<close>

definition two_line_store :: db where
  "two_line_store =
     sqlite_store\<lparr>orders :=
       [(1, \<lparr>o_shopify_order_id = Some 500, o_customer_id = None, o_product_id = Some 1,
             o_barcode = Some ''888'', o_title = Some ''Shirt'', o_quantity = Some 1,
             o_price = Finite 10, o_payment_method = ''cash'', o_status = Some ''pending''\<rparr>),
        (2, \<lparr>o_shopify_order_id = Some 499, o_customer_id = None, o_product_id = None,
             o_barcode = None, o_title = Some ''Mug'', o_quantity = Some 1,
             o_price = Finite 4, o_payment_method = ''pos'', o_status = Some ''completed''\<rparr>),
        (3, \<lparr>o_shopify_order_id = Some 500, o_customer_id = None, o_product_id = None,
             o_barcode = None, o_title = Some ''Cap'', o_quantity = Some 2,
             o_price = Finite 5, o_payment_method = ''cash'', o_status = Some ''pending''\<rparr>)]\<rparr>"

text \<open>An \<^verbatim>\<open>orders/paid\<close> payload for the order 500, with three line items.\<close>

definition paid_payload :: order_json where
  "paid_payload =
     \<lparr>oj_id = Some 500, oj_financial_status = Val ''paid'',
      oj_line_items =
        [\<lparr>li_variant_id = Some 11, li_title = Some ''Shirt'', li_quantity = Val 1,
           li_price = Some (Number (Finite 10))\<rparr>,
         \<lparr>li_variant_id = Some 12, li_title = Some ''Cap'', li_quantity = Val 2,
           li_price = Some (Number (Finite 5))\<rparr>,
         \<lparr>li_variant_id = None, li_title = Some ''Bag'', li_quantity = Absent,
           li_price = None\<rparr>],
      oj_customer = None, oj_tags = Val ''in-store, cash'', oj_gateway = None\<rparr>"

text \<open>Two variants with the barcode 888: the first out of stock, the second in stock.\<close>

definition shared_barcode_store :: db where
  "shared_barcode_store =
     \<lparr>products =
        [(1, (blank_product (Some 11))\<lparr>p_title := Some ''Shirt S'', p_barcode := Some ''888'',
               p_inventory_quantity := Some 0\<rparr>),
         (2, (blank_product (Some 12))\<lparr>p_title := Some ''Shirt M'', p_barcode := Some ''888'',
               p_inventory_quantity := Some 5\<rparr>)],
      customers = [], orders = [], webhook_events = [], enforce_foreign_keys = False\<rparr>"

text \<open>An \<^verbatim>\<open>inventory_levels/update\<close> payload whose \<^verbatim>\<open>available\<close> is \<^verbatim>\<open>null\<close>, as the
  remote platform sends for an item it does not track.\<close>

definition untracked_payload :: inventory_json where
  "untracked_payload = \<lparr>ij_inventory_item_id = Some 11, ij_available = None\<rparr>"

text \<open>An empty store, and a remote catalog as the paginated fetch may return it: the
  first product twice, a variant without a barcode, a product without a title.\<close>

definition empty_store :: db where
  "empty_store =
     \<lparr>products = [], customers = [], orders = [], webhook_events = [],
      enforce_foreign_keys = False\<rparr>"

definition shirt :: product_json where
  "shirt =
     \<lparr>pj_id = Some 100, pj_title = Val ''Shirt'',
      pj_variants =
        [\<lparr>v_id = Some 11, v_sku = Some ''SH-S'', v_barcode = Some ''888'',
           v_price = Some (Number (Finite 10)), v_inventory_quantity = Val 3, v_title = Some ''S'',
           v_image_id = None\<rparr>,
         \<lparr>v_id = Some 12, v_sku = Some ''SH-M'', v_barcode = Some ''888'',
           v_price = Some (Number (Finite 12)), v_inventory_quantity = Null, v_title = Some ''M'',
           v_image_id = None\<rparr>,
         \<lparr>v_id = Some 13, v_sku = None, v_barcode = None,
           v_price = Some (Number (Finite 12)), v_inventory_quantity = Val 1, v_title = Some ''L'',
           v_image_id = None\<rparr>],
      pj_images = [\<lparr>img_id = Some 1, img_src = Some ''shirt.png''\<rparr>],
      pj_image = None\<rparr>"

definition cap :: product_json where
  "cap =
     \<lparr>pj_id = Some 200, pj_title = Absent,
      pj_variants =
        [\<lparr>v_id = Some 21, v_sku = None, v_barcode = Some ''999'',
           v_price = None, v_inventory_quantity = Absent, v_title = None,
           v_image_id = None\<rparr>],
      pj_images = [], pj_image = None\<rparr>"

definition catalog :: "product_json list" where
  "catalog = [shirt, cap, shirt]"

text \<open>The store after one sync of the catalog into the empty store.\<close>

definition synced_store :: db where
  "synced_store =
     \<lparr>products =
        [(1, \<lparr>p_shopify_id = Some 11, p_shopify_product_id = Some 100, p_title = Some ''Shirt'',
              p_sku = Some ''SH-S'', p_barcode = Some ''888'', p_price = Finite 10,
              p_inventory_quantity = Some 3, p_variant_title = Some ''S'',
              p_image_url = Some ''shirt.png''\<rparr>),
         (2, \<lparr>p_shopify_id = Some 12, p_shopify_product_id = Some 100, p_title = Some ''Shirt'',
              p_sku = Some ''SH-M'', p_barcode = Some ''888'', p_price = Finite 12,
              p_inventory_quantity = Some 0, p_variant_title = Some ''M'',
              p_image_url = Some ''shirt.png''\<rparr>),
         (3, \<lparr>p_shopify_id = Some 21, p_shopify_product_id = Some 200,
              p_title = Some ''Unknown Product'', p_sku = None, p_barcode = Some ''999'',
              p_price = Finite 0, p_inventory_quantity = Some 0, p_variant_title = None,
              p_image_url = None\<rparr>)],
      customers = [], orders = [], webhook_events = [], enforce_foreign_keys = False\<rparr>"

text \<open>A remote customer list with a repeated customer and one without an id.\<close>

definition ada :: customer_json where
  "ada =
     \<lparr>cj_id = Some 7, cj_first_name = Some ''Ada'', cj_last_name = Some ''Lovelace'',
      cj_email = Some ''ada@example.com'', cj_phone = None,
      cj_addresses =
        [\<lparr>a_address1 = Some ''12 Main St'', a_address2 = Some ''Flat 3'',
           a_city = Some ''London'', a_country = Some ''UK''\<rparr>,
         \<lparr>a_address1 = Some ''Elsewhere'', a_address2 = None, a_city = None, a_country = None\<rparr>]\<rparr>"

definition bob :: customer_json where
  "bob =
     \<lparr>cj_id = Some 8, cj_first_name = Some ''Bob'', cj_last_name = None,
      cj_email = Some ''bob@example.com'', cj_phone = Some ''555'', cj_addresses = []\<rparr>"

definition customer_feed :: "customer_json list" where
  "customer_feed = [ada, bob, ada, bob\<lparr>cj_id := None\<rparr>]"

definition synced_customers :: db where
  "synced_customers =
     empty_store\<lparr>customers :=
       [(1, \<lparr>c_shopify_id = Some 7, c_first_name = Some ''Ada'', c_last_name = Some ''Lovelace'',
             c_email = Some ''ada@example.com'', c_phone = None,
             c_address = Some ''12 Main St Flat 3'', c_city = Some ''London'',
             c_country = Some ''UK''\<rparr>),
        (2, \<lparr>c_shopify_id = Some 8, c_first_name = Some ''Bob'', c_last_name = None,
             c_email = Some ''bob@example.com'', c_phone = Some ''555'',
             c_address = None, c_city = None, c_country = None\<rparr>)]\<rparr>"

text \<open>A remote that answers the first two GETs of a call, fails the third and would
  answer a fourth. The second next link stands between a no-break space and a next
  line character.\<close>

definition example_http :: "nat \<Rightarrow> string \<Rightarrow> nat response" where
  "example_http n u =
     (if n = 1 then
        Response [(''products'', [1, 2, 3, 4, 5]), (''customers'', [70, 71, 72]),
                  (''orders'', [50, 51, 52, 53])]
          (''<https://shop/page2>; rel='' @ [CHR 0x22] @ ''next'' @ [CHR 0x22])
      else if n = 2 \<and> u = ''https://shop/page2'' then
        Response [(''products'', [6, 7, 8]), (''customers'', [73, 74, 75, 76]),
                  (''orders'', [54, 55, 56])]
          (''<https://shop/page1>; rel='' @ [CHR 0x22] @ ''previous'' @ [CHR 0x22]
             @ '', '' @ [CHR 0xA0] @ ''<https://shop/page3>'' @ [CHR 0x85] @ ''; rel=''
             @ [CHR 0x22] @ ''next'' @ [CHR 0x22])
      else if n = 3 then RequestFailed
      else Response [(''products'', [9]), (''customers'', [77]), (''orders'', [57])] [])"

text \<open>A store with the synced catalog and customers, and a remote that creates what
  it is asked to.\<close>

definition shop_store :: db where
  "shop_store = synced_store\<lparr>customers := customers synced_customers\<rparr>"

definition carol :: new_customer where
  "carol =
     \<lparr>nc_first_name = ''Carol'', nc_last_name = ''Jones'', nc_email = ''carol@example.com'',
      nc_phone = None, nc_address = None\<rparr>"

definition example_remote :: remote where
  "example_remote =
     \<lparr>remote_create_customer =
        (\<lambda>nc. Some \<lparr>cj_id = Some 9, cj_first_name = Some (nc_first_name nc),
                     cj_last_name = Some (nc_last_name nc), cj_email = Some (nc_email nc),
                     cj_phone = nc_phone nc, cj_addresses = []\<rparr>),
      remote_search_by_email = (\<lambda>email. []),
      remote_post_order =
        (\<lambda>payload. Posted (Some \<lparr>so_id = Some 9001, so_order_number = Some 1001\<rparr>))\<rparr>"

text \<open>Cart items: a barcode item, custom items, and items the loop skips.\<close>

definition barcode_item :: "string \<Rightarrow> int \<Rightarrow> cart_item" where
  "barcode_item barcode quantity =
     \<lparr>ci_type = Absent, ci_quantity = Val quantity, ci_title = None, ci_size = Absent,
      ci_price = Absent, ci_barcode = Some barcode\<rparr>"

definition custom_item :: "string \<Rightarrow> double \<Rightarrow> int \<Rightarrow> cart_item" where
  "custom_item title price quantity =
     \<lparr>ci_type = Val ''custom'', ci_quantity = Val quantity, ci_title = Some title,
      ci_size = Val ''XL'', ci_price = Val (Number price), ci_barcode = None\<rparr>"

text \<open>Three accepted items (total 100), a custom item without a title, and a discount
  of 99.99, as the float the request is parsed into.\<close>

definition mixed_cart :: cart_order where
  "mixed_cart =
     \<lparr>co_items =
        [barcode_item ''888'' 2, custom_item [] (Finite 5) 1, custom_item ''Print'' (Finite 30) 2,
         custom_item ''Bag'' (Finite 20) 1],
      co_payment_method = ''cash'', co_email = Some ''ada@example.com'',
      co_new_customer = None, co_discount = Some (round_double (9999 / 100)),
      co_discount_reason = Some ''Store discount''\<rparr>"

text \<open>A cart of a new customer in which no item is accepted.\<close>

definition rejected_cart :: cart_order where
  "rejected_cart =
     \<lparr>co_items = [barcode_item ''000'' 1, custom_item [] (Finite 5) 1],
      co_payment_method = ''cash'', co_email = None,
      co_new_customer = Some carol, co_discount = Some 0,
      co_discount_reason = Some ''Store discount''\<rparr>"

text \<open>A cart with one variant whose local price is 0, and no discount.\<close>

definition free_cart :: cart_order where
  "free_cart =
     \<lparr>co_items = [barcode_item ''999'' 1],
      co_payment_method = ''pos'', co_email = Some ''ada@example.com'',
      co_new_customer = None, co_discount = Some 0,
      co_discount_reason = Some ''Store discount''\<rparr>"

text \<open>A \<^verbatim>\<open>products/create\<close> webhook for a product whose one variant has no barcode.\<close>

definition no_barcode_webhook :: webhook_json where
  "no_barcode_webhook =
     \<lparr>wj_raw = ''{...}'', wj_id = Some 300, wj_title = Val ''Gift card'',
      wj_variants =
        [\<lparr>v_id = Some 31, v_sku = None, v_barcode = None, v_price = Some (Number (Finite 25)),
           v_inventory_quantity = Val 0, v_title = Some ''Default'', v_image_id = None\<rparr>],
      wj_images = [], wj_image = None, wj_inventory_item_id = None, wj_available = None,
      wj_first_name = None, wj_last_name = None, wj_email = None, wj_phone = None,
      wj_addresses = [], wj_financial_status = Absent, wj_line_items = [],
      wj_customer = None, wj_tags = Absent, wj_gateway = None\<rparr>"





text \<open>What the checkout of the mixed cart answers and leaves in the store.\<close>

definition mixed_rows :: "order list" where
  "mixed_rows =
     [\<lparr>o_shopify_order_id = Some 9001, o_customer_id = Some 1, o_product_id = Some 1,
       o_barcode = Some ''888'', o_title = Some ''Shirt'', o_quantity = Some 2, o_price = Finite 10,
       o_payment_method = ''cash'', o_status = Some ''completed''\<rparr>,
      \<lparr>o_shopify_order_id = Some 9001, o_customer_id = Some 1, o_product_id = None,
       o_barcode = None, o_title = Some ''Print - XL'', o_quantity = Some 2, o_price = Finite 30,
       o_payment_method = ''cash'', o_status = Some ''completed''\<rparr>,
      \<lparr>o_shopify_order_id = Some 9001, o_customer_id = Some 1, o_product_id = None,
       o_barcode = None, o_title = Some ''Bag - XL'', o_quantity = Some 1, o_price = Finite 20,
       o_payment_method = ''cash'', o_status = Some ''completed''\<rparr>]"

definition mixed_response :: cart_response where
  "mixed_response =
     \<lparr>cr_shopify_order_id = Some 9001, cr_shopify_order_number = Some 1001,
      cr_original_amount = Finite 100,
      cr_final_amount = Finite (703687441777 / 70368744177664), cr_items_count = 4,
      cr_orders = mixed_rows,
      cr_discount_applied = Some (Finite (7036170730324623 / 70368744177664))\<rparr>"

definition mixed_store :: db where
  "mixed_store = shop_store\<lparr>orders := [(1, mixed_rows ! 0), (2, mixed_rows ! 1), (3, mixed_rows ! 2)]\<rparr>"

text \<open>
  A cart of two custom items priced 0.1 and 0.2 with a discount of 0.3, each the
  float its decimal is parsed into.
\<close>

definition dime_cart :: cart_order where
  "dime_cart =
     \<lparr>co_items =
        [custom_item ''Sticker'' (round_double (1 / 10)) 1,
         custom_item ''Badge'' (round_double (2 / 10)) 1],
      co_payment_method = ''cash'', co_email = Some ''ada@example.com'',
      co_new_customer = None, co_discount = Some (round_double (3 / 10)),
      co_discount_reason = Some ''Store discount''\<rparr>"

text \<open>The mixed cart with a discount equal to its total, and a manual order of total
  100.\<close>

definition full_discount_cart :: cart_order where
  "full_discount_cart = mixed_cart\<lparr>co_discount := Some (Finite 100)\<rparr>"

definition poster :: "double \<Rightarrow> manual_order" where
  "poster discount =
     \<lparr>mo_title = ''Poster'', mo_size = Some ''A2'', mo_price = Finite 50, mo_quantity = 2,
      mo_payment_method = ''pos'', mo_email = None, mo_discount = Some discount\<rparr>"

section \<open>Tables, passes and commits\<close>

subsection \<open>Tables\<close>

lemma first_row_None_iff: "first_row P t = None \<longleftrightarrow> (\<forall>r \<in> set t. \<not> P (snd r))"
  by (induction t) auto

lemma first_row_SomeD: "first_row P t = Some r \<Longrightarrow> r \<in> set t \<and> P (snd r)"
  by (induction t) (auto split: if_splits)

lemma length_update_first [simp]: "length (update_first P f t) = length t"
  by (induction t) auto

lemma map_fst_update_first [simp]: "map fst (update_first P f t) = map fst t"
  by (induction t) auto

lemma map_update_first_invariant:
  assumes "\<And>x. g (f x) = g x"
  shows "map (\<lambda>r. g (snd r)) (update_first P f t) = map (\<lambda>r. g (snd r)) t"
  using assms by (induction t) auto

lemma update_first_keeps:
  assumes "r \<in> set t" "\<not> P (snd r)"
  shows "r \<in> set (update_first P f t)"
  using assms by (induction t) auto

lemma update_first_rows:
  assumes "r \<in> set (update_first P f t)"
  shows "r \<in> set t \<or> (\<exists>r0 \<in> set t. P (snd r0) \<and> r = (fst r0, f (snd r0)))"
  using assms by (induction t) (auto split: if_splits)

lemma update_first_writes:
  assumes "first_row P t = Some r0"
  shows "(fst r0, f (snd r0)) \<in> set (update_first P f t)"
  using assms by (induction t) (auto split: if_splits)

lemma map_snd_insert_all [simp]: "map snd (insert_all t rs) = map snd t @ rs"
  by (induction rs arbitrary: t) auto

lemma length_insert_all [simp]: "length (insert_all t rs) = length t + length rs"
  by (induction rs arbitrary: t) auto

lemma insert_all_append: "\<exists>new. insert_all t rs = t @ new \<and> map snd new = rs"
proof (induction rs arbitrary: t)
  case Nil
  then show ?case by simp
next
  case (Cons r rs)
  obtain new where new: "insert_all (t @ [(next_id t, r)]) rs = (t @ [(next_id t, r)]) @ new"
    "map snd new = rs"
    using Cons.IH [of "t @ [(next_id t, r)]"] by (elim exE conjE)
  show ?case
    by (rule exI [of _ "(next_id t, r) # new"]) (simp add: new)
qed

subsection \<open>The product pass\<close>

lemma synced_fields_id [simp]: "p_shopify_id (synced_fields product variant price p) = p_shopify_id p"
  by (simp add: synced_fields_def)

lemma synced_fields_title [simp]:
  "p_title (synced_fields product variant price p) = get_default (pj_title product) ''Unknown Product''"
  by (simp add: synced_fields_def)

lemma synced_fields_barcode [simp]: "p_barcode (synced_fields product variant price p) = v_barcode variant"
  by (simp add: synced_fields_def)

text \<open>What a step of the pass does, case by case.\<close>

lemma sync_variant_skip:
  "\<not> eligible variant \<Longrightarrow>
     sync_variant product variant st = Inr (st\<lparr>skipped_count := skipped_count st + 1\<rparr>)"
  by (simp add: sync_variant_def)

lemma sync_variant_seen:
  "eligible variant \<Longrightarrow> v_id variant = Some vid \<Longrightarrow> vid \<in> processed_ids st \<Longrightarrow>
     sync_variant product variant st = Inr st"
  by (simp add: sync_variant_def)

lemma sync_variant_bad_price:
  "eligible variant \<Longrightarrow> v_id variant = Some vid \<Longrightarrow> vid \<notin> processed_ids st \<Longrightarrow>
   float_or_0 (v_price variant) = Inl e \<Longrightarrow>
     sync_variant product variant st = Inl e"
  by (simp add: sync_variant_def)

lemma sync_variant_update:
  "eligible variant \<Longrightarrow> v_id variant = Some vid \<Longrightarrow> vid \<notin> processed_ids st \<Longrightarrow>
   float_or_0 (v_price variant) = Inr price \<Longrightarrow>
   first_row (\<lambda>p. p_shopify_id p = Some vid) (products (store (sess st))) = Some r0 \<Longrightarrow>
     sync_variant product variant st =
       Inr (st\<lparr>processed_ids := insert vid (processed_ids st),
              sess := (sess st)\<lparr>store := (store (sess st))\<lparr>products :=
                 update_first (\<lambda>p. p_shopify_id p = Some vid)
                   (synced_fields product variant price) (products (store (sess st)))\<rparr>\<rparr>,
              updated_count := updated_count st + 1\<rparr>)"
  by (simp add: sync_variant_def Let_def)

lemma sync_variant_insert:
  "eligible variant \<Longrightarrow> v_id variant = Some vid \<Longrightarrow> vid \<notin> processed_ids st \<Longrightarrow>
   float_or_0 (v_price variant) = Inr price \<Longrightarrow>
   first_row (\<lambda>p. p_shopify_id p = Some vid) (products (store (sess st))) = None \<Longrightarrow>
     sync_variant product variant st =
       Inr (st\<lparr>processed_ids := insert vid (processed_ids st),
              sess := (sess st)\<lparr>new_products := new_products (sess st) @
                 [synced_fields product variant price (blank_product (Some vid))]\<rparr>,
              added_count := added_count st + 1\<rparr>)"
  by (simp add: sync_variant_def Let_def)

lemma eligible_id: "eligible variant \<Longrightarrow> \<exists>vid. v_id variant = Some vid \<and> vid \<noteq> 0"
  by (cases "v_id variant") (auto simp: eligible_def)

lemma sync_variant_cases:
  assumes "sync_variant product variant st = Inr st'"
  obtains
    (skip) "\<not> eligible variant" "st' = st\<lparr>skipped_count := skipped_count st + 1\<rparr>"
  | (seen) vid where "eligible variant" "v_id variant = Some vid" "vid \<in> processed_ids st" "st' = st"
  | (update) vid price r0 where "eligible variant" "v_id variant = Some vid" "vid \<notin> processed_ids st"
      "float_or_0 (v_price variant) = Inr price"
      "first_row (\<lambda>p. p_shopify_id p = Some vid) (products (store (sess st))) = Some r0"
      "st' = st\<lparr>processed_ids := insert vid (processed_ids st),
                sess := (sess st)\<lparr>store := (store (sess st))\<lparr>products :=
                   update_first (\<lambda>p. p_shopify_id p = Some vid)
                     (synced_fields product variant price) (products (store (sess st)))\<rparr>\<rparr>,
                updated_count := updated_count st + 1\<rparr>"
  | (insert) vid price where "eligible variant" "v_id variant = Some vid" "vid \<notin> processed_ids st"
      "float_or_0 (v_price variant) = Inr price"
      "first_row (\<lambda>p. p_shopify_id p = Some vid) (products (store (sess st))) = None"
      "st' = st\<lparr>processed_ids := insert vid (processed_ids st),
                sess := (sess st)\<lparr>new_products := new_products (sess st) @
                   [synced_fields product variant price (blank_product (Some vid))]\<rparr>,
                added_count := added_count st + 1\<rparr>"
proof (cases "eligible variant")
  case False
  then have "st' = st\<lparr>skipped_count := skipped_count st + 1\<rparr>"
    using assms sync_variant_skip [of variant product st] by simp
  with False show ?thesis by (rule skip)
next
  case True
  then obtain vid where vid: "v_id variant = Some vid"
    using eligible_id by blast
  show ?thesis
  proof (cases "vid \<in> processed_ids st")
    case in_set: True
    have "st' = st"
      using assms sync_variant_seen [OF True vid in_set, of product] by simp
    with True vid in_set show ?thesis by (rule seen)
  next
    case fresh: False
    show ?thesis
    proof (cases "float_or_0 (v_price variant)")
      case (Inl e)
      then show ?thesis
        using assms sync_variant_bad_price [OF True vid fresh Inl, of product] by simp
    next
      case (Inr price)
      show ?thesis
      proof (cases "first_row (\<lambda>p. p_shopify_id p = Some vid) (products (store (sess st)))")
        case None
        show ?thesis
          using assms sync_variant_insert [OF True vid fresh Inr None, of product]
          by (intro insert [OF True vid fresh Inr None]) simp
      next
        case (Some r0)
        show ?thesis
          using assms sync_variant_update [OF True vid fresh Inr Some, of product]
          by (intro update [OF True vid fresh Inr Some]) simp
      qed
    qed
  qed
qed

lemma pass_inv_start: "pass_inv (start_pass d)"
  by (simp add: pass_inv_def start_pass_def open_session_def)

lemma stored_ids_update [simp]:
  "stored_ids (s\<lparr>store := (store s)\<lparr>products :=
      update_first P (synced_fields product variant price) (products (store s))\<rparr>\<rparr>) = stored_ids s"
  by (simp add: stored_ids_def map_update_first_invariant)

lemma first_row_stored_ids:
  "first_row (\<lambda>p. p_shopify_id p = k) (products (store s)) = None \<longleftrightarrow> k \<notin> set (stored_ids s)"
  by (auto simp: first_row_None_iff stored_ids_def)

lemma sync_variant_inv:
  assumes "sync_variant product variant st = Inr st'" "pass_inv st"
  shows "pass_inv st'"
  using assms(1)
proof (cases rule: sync_variant_cases)
  case skip
  with assms(2) show ?thesis by (simp add: pass_inv_def)
next
  case (seen vid)
  with assms(2) show ?thesis by simp
next
  case (update vid price r0)
  have "Some vid \<in> set (stored_ids (sess st))"
    using update(5) first_row_stored_ids [of "Some vid" "sess st"] by simp
  with assms(2) update(3) show ?thesis
    unfolding update(6) pass_inv_def by (auto simp: card_insert_if)
next
  case (insert vid price)
  have "Some vid \<notin> set (stored_ids (sess st))"
    using insert(5) first_row_stored_ids [of "Some vid" "sess st"] by simp
  moreover have "stored_ids ((sess st)\<lparr>new_products := new_products (sess st) @
        [synced_fields product variant price (blank_product (Some vid))]\<rparr>) = stored_ids (sess st)"
    by (simp add: stored_ids_def)
  moreover have "p_shopify_id (synced_fields product variant price (blank_product (Some vid))) = Some vid"
    by (simp add: blank_product_def)
  ultimately show ?thesis
    using assms(2) insert(3)
    unfolding insert(6) pass_inv_def by (auto simp: card_insert_if)
qed

lemma sync_variants_inv:
  assumes "sync_variants pvs st = Inr st'" "pass_inv st"
  shows "pass_inv st'"
  using assms
proof (induction pvs arbitrary: st)
  case Nil
  then show ?case by simp
next
  case (Cons pv pvs)
  then obtain st1 where st1: "sync_variant (fst pv) (snd pv) st = Inr st1"
    and rest: "sync_variants pvs st1 = Inr st'"
    by (auto split: sum.splits)
  from sync_variant_inv [OF st1 Cons.prems(2)] Cons.IH [OF rest] show ?case by blast
qed

lemma eligible_ids_Nil [simp]: "eligible_ids [] = []"
  by (simp add: eligible_ids_def)

lemma eligible_ids_Cons:
  "eligible_ids (pv # pvs) =
     (if eligible (snd pv) then (case v_id (snd pv) of Some vid \<Rightarrow> vid # eligible_ids pvs | None \<Rightarrow> eligible_ids pvs)
      else eligible_ids pvs)"
  by (simp add: eligible_ids_def split: option.splits)

text \<open>What every step leaves alone.\<close>

lemma sync_variant_frame:
  assumes "sync_variant product variant st = Inr st'"
  shows "stored_ids (sess st') = stored_ids (sess st)
       \<and> map fst (products (store (sess st'))) = map fst (products (store (sess st)))
       \<and> other_tables (sess st') = other_tables (sess st)"
  using assms
proof (cases rule: sync_variant_cases)
  case (update vid price r0)
  show ?thesis unfolding update(6) by (simp add: other_tables_def)
next
  case (insert vid price)
  show ?thesis unfolding insert(6) by (simp add: other_tables_def stored_ids_def)
qed (simp_all add: other_tables_def stored_ids_def)

lemma sync_variants_frame:
  assumes "sync_variants pvs st = Inr st'"
  shows "stored_ids (sess st') = stored_ids (sess st)
       \<and> map fst (products (store (sess st'))) = map fst (products (store (sess st)))
       \<and> other_tables (sess st') = other_tables (sess st)"
  using assms
proof (induction pvs arbitrary: st)
  case Nil
  then show ?case by simp
next
  case (Cons pv pvs)
  then obtain st1 where st1: "sync_variant (fst pv) (snd pv) st = Inr st1"
    and rest: "sync_variants pvs st1 = Inr st'"
    by (auto split: sum.splits)
  from sync_variant_frame [OF st1] Cons.IH [OF rest] show ?case by simp
qed

text \<open>The keys seen by the end of a pass: those seen before, and the eligible ones.\<close>

lemma sync_variant_processed:
  assumes "sync_variant product variant st = Inr st'"
  shows "processed_ids st' = processed_ids st \<union> set (eligible_ids [(product, variant)])"
  using assms
proof (cases rule: sync_variant_cases)
  case skip
  then show ?thesis by (simp add: eligible_ids_Cons)
next
  case (seen vid)
  then show ?thesis by (auto simp: eligible_ids_Cons)
next
  case (update vid price r0)
  show ?thesis unfolding update(6) using update(1,2) by (auto simp: eligible_ids_Cons)
next
  case (insert vid price)
  show ?thesis unfolding insert(6) using insert(1,2) by (auto simp: eligible_ids_Cons)
qed

lemma set_eligible_ids_Cons:
  "set (eligible_ids (pv # pvs)) = set (eligible_ids [pv]) \<union> set (eligible_ids pvs)"
  by (auto simp: eligible_ids_Cons split: option.splits)

lemma sync_variants_processed:
  assumes "sync_variants pvs st = Inr st'"
  shows "processed_ids st' = processed_ids st \<union> set (eligible_ids pvs)"
  using assms
proof (induction pvs arbitrary: st)
  case Nil
  then show ?case by simp
next
  case (Cons pv pvs)
  then obtain st1 where st1: "sync_variant (fst pv) (snd pv) st = Inr st1"
    and rest: "sync_variants pvs st1 = Inr st'"
    by (auto split: sum.splits)
  from sync_variant_processed [OF st1] Cons.IH [OF rest] show ?case
    using set_eligible_ids_Cons [of pv pvs] by (cases pv) auto
qed

text \<open>A pass over keys the store already holds adds nothing.\<close>

lemma sync_variants_no_add:
  assumes "sync_variants pvs st = Inr st'"
    and "\<forall>vid \<in> set (eligible_ids pvs). Some vid \<in> set (stored_ids (sess st))"
  shows "new_products (sess st') = new_products (sess st) \<and> added_count st' = added_count st"
  using assms
proof (induction pvs arbitrary: st)
  case Nil
  then show ?case by simp
next
  case (Cons pv pvs)
  then obtain st1 where st1: "sync_variant (fst pv) (snd pv) st = Inr st1"
    and rest: "sync_variants pvs st1 = Inr st'"
    by (auto split: sum.splits)
  have ids: "stored_ids (sess st1) = stored_ids (sess st)"
    using sync_variant_frame [OF st1] by simp
  have tail: "\<forall>vid \<in> set (eligible_ids pvs). Some vid \<in> set (stored_ids (sess st1))"
    using Cons.prems(2) set_eligible_ids_Cons [of pv pvs] ids by auto
  have head: "new_products (sess st1) = new_products (sess st) \<and> added_count st1 = added_count st"
    using st1
  proof (cases rule: sync_variant_cases)
    case (insert vid price)
    have "vid \<in> set (eligible_ids (pv # pvs))"
      using insert(1,2) by (simp add: eligible_ids_Cons)
    then have "Some vid \<in> set (stored_ids (sess st))"
      using Cons.prems(2) by blast
    then show ?thesis
      using insert(5) first_row_stored_ids [of "Some vid" "sess st"] by simp
  next
    case (update vid price r0)
    show ?thesis unfolding update(6) by simp
  qed simp_all
  from Cons.IH [OF rest tail] head show ?case by simp
qed

text \<open>Whether a pass raises depends on the payload and on the keys already seen, not
  on the store.\<close>

lemma sync_variant_runs_alike:
  assumes "sync_variant product variant st = Inr st'" "processed_ids st2 = processed_ids st"
  shows "\<exists>st2'. sync_variant product variant st2 = Inr st2' \<and> processed_ids st2' = processed_ids st'"
  using assms(1)
proof (cases rule: sync_variant_cases)
  case skip
  then show ?thesis using sync_variant_skip [of variant product st2] assms(2) by simp
next
  case (seen vid)
  then show ?thesis using sync_variant_seen [of variant vid st2 product] assms(2) by simp
next
  case (update vid price r0)
  have fresh: "vid \<notin> processed_ids st2" using update(3) assms(2) by simp
  show ?thesis
  proof (cases "first_row (\<lambda>p. p_shopify_id p = Some vid) (products (store (sess st2)))")
    case None
    show ?thesis
      using sync_variant_insert [OF update(1,2) fresh update(4) None, of product] assms(2)
      unfolding update(6) by simp
  next
    case (Some r)
    show ?thesis
      using sync_variant_update [OF update(1,2) fresh update(4) Some, of product] assms(2)
      unfolding update(6) by simp
  qed
next
  case (insert vid price)
  have fresh: "vid \<notin> processed_ids st2" using insert(3) assms(2) by simp
  show ?thesis
  proof (cases "first_row (\<lambda>p. p_shopify_id p = Some vid) (products (store (sess st2)))")
    case None
    show ?thesis
      using sync_variant_insert [OF insert(1,2) fresh insert(4) None, of product] assms(2)
      unfolding insert(6) by simp
  next
    case (Some r)
    show ?thesis
      using sync_variant_update [OF insert(1,2) fresh insert(4) Some, of product] assms(2)
      unfolding insert(6) by simp
  qed
qed

lemma sync_variants_runs_alike:
  assumes "sync_variants pvs st = Inr st'" "processed_ids st2 = processed_ids st"
  shows "\<exists>st2'. sync_variants pvs st2 = Inr st2'"
  using assms
proof (induction pvs arbitrary: st st2)
  case Nil
  then show ?case by simp
next
  case (Cons pv pvs)
  then obtain st1 where st1: "sync_variant (fst pv) (snd pv) st = Inr st1"
    and rest: "sync_variants pvs st1 = Inr st'"
    by (auto split: sum.splits)
  obtain st21 where st21: "sync_variant (fst pv) (snd pv) st2 = Inr st21"
    and same: "processed_ids st21 = processed_ids st1"
    using sync_variant_runs_alike [OF st1 Cons.prems(2)] by blast
  from Cons.IH [OF rest same] st21 show ?case by simp
qed

text \<open>A row written for a key stays as written until the end of the pass: the key is
  in the set of the keys seen, and no later step touches it.\<close>

lemma update_first_keeps_row:
  assumes "x \<in> snd ` set t" "\<not> P x"
  shows "x \<in> snd ` set (update_first P f t)"
proof -
  from assms(1) obtain r where "r \<in> set t" "snd r = x" by auto
  with assms(2) have "r \<in> set (update_first P f t)" by (simp add: update_first_keeps)
  with \<open>snd r = x\<close> show ?thesis by force
qed

lemma sync_variant_persists:
  assumes "sync_variant product variant st = Inr st'"
    and "x \<in> product_rows (sess st)" "p_shopify_id x = Some k" "k \<in> processed_ids st"
  shows "x \<in> product_rows (sess st') \<and> k \<in> processed_ids st'"
  using assms(1)
proof (cases rule: sync_variant_cases)
  case skip
  with assms show ?thesis by (simp add: product_rows_def)
next
  case (seen vid)
  with assms show ?thesis by simp
next
  case (update vid price r0)
  have "vid \<noteq> k" using update(3) assms(4) by auto
  then have "x \<in> snd ` set (products (store (sess st))) \<Longrightarrow>
      x \<in> snd ` set (update_first (\<lambda>p. p_shopify_id p = Some vid)
             (synced_fields product variant price) (products (store (sess st))))"
    using assms(3) by (intro update_first_keeps_row) auto
  then show ?thesis
    using assms(2,4) unfolding update(6) product_rows_def by auto
next
  case (insert vid price)
  show ?thesis
    using assms(2,4) unfolding insert(6) product_rows_def by auto
qed

lemma sync_variants_persists:
  assumes "sync_variants pvs st = Inr st'"
    and "x \<in> product_rows (sess st)" "p_shopify_id x = Some k" "k \<in> processed_ids st"
  shows "x \<in> product_rows (sess st')"
  using assms
proof (induction pvs arbitrary: st)
  case Nil
  then show ?case by simp
next
  case (Cons pv pvs)
  then obtain st1 where st1: "sync_variant (fst pv) (snd pv) st = Inr st1"
    and rest: "sync_variants pvs st1 = Inr st'"
    by (auto split: sum.splits)
  from sync_variant_persists [OF st1 Cons.prems(2,3,4)] Cons.IH [OF rest _ Cons.prems(3)]
  show ?case by blast
qed

text \<open>The row a step writes.\<close>

lemma sync_variant_title:
  assumes "sync_variant product variant st = Inr st'"
    and "x \<in> product_rows (sess st')"
  shows "x \<in> product_rows (sess st)
       \<or> (\<exists>k. p_shopify_id x = Some k \<and> k \<in> processed_ids st'
             \<and> p_title x = get_default (pj_title product) ''Unknown Product'')"
  using assms(1)
proof (cases rule: sync_variant_cases)
  case skip
  with assms(2) show ?thesis by (simp add: product_rows_def)
next
  case (seen vid)
  with assms(2) show ?thesis by simp
next
  case (update vid price r0)
  from assms(2) have "x \<in> snd ` set (update_first (\<lambda>p. p_shopify_id p = Some vid)
             (synced_fields product variant price) (products (store (sess st))))
        \<or> x \<in> set (new_products (sess st))"
    unfolding update(6) product_rows_def by simp
  then show ?thesis
  proof
    assume "x \<in> snd ` set (update_first (\<lambda>p. p_shopify_id p = Some vid)
             (synced_fields product variant price) (products (store (sess st))))"
    then obtain r where "r \<in> set (update_first (\<lambda>p. p_shopify_id p = Some vid)
             (synced_fields product variant price) (products (store (sess st))))" "snd r = x"
      by auto
    from update_first_rows [OF this(1)] this(2) show ?thesis
      unfolding update(6) product_rows_def by force
  next
    assume "x \<in> set (new_products (sess st))"
    then show ?thesis by (simp add: product_rows_def)
  qed
next
  case (insert vid price)
  from assms(2) show ?thesis
    unfolding insert(6) product_rows_def by (auto simp: blank_product_def)
qed

text \<open>Two passes over the same payload: when the first ends with every row titled, so
  does the second, whatever store it starts from.\<close>

lemma sync_variants_titles:
  assumes "sync_variants pvs st = Inr st'" "sync_variants pvs st2 = Inr st2'"
    and "processed_ids st2 = processed_ids st"
    and "\<forall>x \<in> product_rows (sess st'). p_title x \<noteq> None"
    and "\<forall>x \<in> product_rows (sess st2). p_title x \<noteq> None"
  shows "\<forall>x \<in> product_rows (sess st2'). p_title x \<noteq> None"
  using assms
proof (induction pvs arbitrary: st st2)
  case Nil
  then show ?case by simp
next
  case (Cons pv pvs)
  from Cons.prems(1) obtain st1 where st1: "sync_variant (fst pv) (snd pv) st = Inr st1"
    and rest: "sync_variants pvs st1 = Inr st'"
    by (auto split: sum.splits)
  from Cons.prems(2) obtain st21 where st21: "sync_variant (fst pv) (snd pv) st2 = Inr st21"
    and rest2: "sync_variants pvs st21 = Inr st2'"
    by (auto split: sum.splits)
  have same: "processed_ids st21 = processed_ids st1"
    using sync_variant_runs_alike [OF st1 Cons.prems(3)] st21 by auto
  have "\<forall>x \<in> product_rows (sess st21). p_title x \<noteq> None"
    using st1
  proof (cases rule: sync_variant_cases)
    case skip
    then have "st21 = st2\<lparr>skipped_count := skipped_count st2 + 1\<rparr>"
      using st21 sync_variant_skip [of "snd pv" "fst pv" st2] by simp
    with Cons.prems(5) show ?thesis by (simp add: product_rows_def)
  next
    case (seen vid)
    then have "st21 = st2"
      using st21 sync_variant_seen [of "snd pv" vid st2 "fst pv"] Cons.prems(3) by simp
    with Cons.prems(5) show ?thesis by simp
  next
    case (update vid price r0)
    have "(fst r0, synced_fields (fst pv) (snd pv) price (snd r0))
            \<in> set (products (store (sess st1)))"
      unfolding update(6) using update_first_writes [OF update(5)] by simp
    then have "synced_fields (fst pv) (snd pv) price (snd r0) \<in> product_rows (sess st1)"
      unfolding product_rows_def by force
    moreover have "p_shopify_id (synced_fields (fst pv) (snd pv) price (snd r0)) = Some vid"
      using first_row_SomeD [OF update(5)] by simp
    moreover have "vid \<in> processed_ids st1"
      unfolding update(6) by simp
    ultimately have "synced_fields (fst pv) (snd pv) price (snd r0) \<in> product_rows (sess st')"
      using sync_variants_persists [OF rest] by blast
    with Cons.prems(4) have titled: "get_default (pj_title (fst pv)) ''Unknown Product'' \<noteq> None"
      by force
    show ?thesis
    proof
      fix x assume "x \<in> product_rows (sess st21)"
      from sync_variant_title [OF st21 this] titled Cons.prems(5)
      show "p_title x \<noteq> None" by auto
    qed
  next
    case (insert vid price)
    have "synced_fields (fst pv) (snd pv) price (blank_product (Some vid))
            \<in> product_rows (sess st1)"
      unfolding insert(6) product_rows_def by simp
    moreover have "p_shopify_id (synced_fields (fst pv) (snd pv) price (blank_product (Some vid)))
            = Some vid"
      by (simp add: blank_product_def)
    moreover have "vid \<in> processed_ids st1"
      unfolding insert(6) by simp
    ultimately have "synced_fields (fst pv) (snd pv) price (blank_product (Some vid))
            \<in> product_rows (sess st')"
      using sync_variants_persists [OF rest] by blast
    with Cons.prems(4) have titled: "get_default (pj_title (fst pv)) ''Unknown Product'' \<noteq> None"
      by force
    show ?thesis
    proof
      fix x assume "x \<in> product_rows (sess st21)"
      from sync_variant_title [OF st21 this] titled Cons.prems(5)
      show "p_title x \<noteq> None" by auto
    qed
  qed
  from Cons.IH [OF rest rest2 same Cons.prems(4) this] show ?case by blast
qed

subsection \<open>Commits\<close>

lemma product_defaults_id [simp]: "p_shopify_id (product_defaults p) = p_shopify_id p"
  by (simp add: product_defaults_def split: option.splits)

lemma product_defaults_title [simp]: "p_title (product_defaults p) = p_title p"
  by (simp add: product_defaults_def split: option.splits)

lemma product_defaults_barcode [simp]: "p_barcode (product_defaults p) = p_barcode p"
  by (simp add: product_defaults_def split: option.splits)

lemma products_ok_iff:
  "products_ok t \<longleftrightarrow> (\<forall>x \<in> set (map snd t). p_shopify_id x \<noteq> None \<and> p_title x \<noteq> None)"
  by (auto simp: products_ok_def list_all_iff)

lemma map_snd_products_flushed:
  "map snd (products (flushed s)) = map snd (products (store s)) @ map product_defaults (new_products s)"
  by (simp add: flushed_def)

lemma products_ok_flushed:
  "products_ok (products (flushed s)) \<longleftrightarrow>
     (\<forall>x \<in> product_rows s. p_shopify_id x \<noteq> None \<and> p_title x \<noteq> None)"
proof -
  have "set (map snd (products (flushed s))) =
        snd ` set (products (store s)) \<union> product_defaults ` set (new_products s)"
    unfolding map_snd_products_flushed by auto
  then show ?thesis
    unfolding products_ok_iff product_rows_def
    by (simp add: ball_Un)
qed

lemma ids_products_flushed:
  "map (\<lambda>r. p_shopify_id (snd r)) (products (flushed s)) =
     stored_ids s @ map p_shopify_id (new_products s)"
proof -
  have "map (\<lambda>r. p_shopify_id (snd r)) (products (flushed s)) =
        map p_shopify_id (map snd (products (flushed s)))"
    by (simp add: comp_def)
  then show ?thesis
    unfolding map_snd_products_flushed by (simp add: stored_ids_def comp_def)
qed

lemma commit_Inr_iff:
  "commit s = Inr d \<longleftrightarrow>
     d = flushed s \<and> products_ok (products (flushed s)) \<and> customers_ok (customers (flushed s))"
  by (auto simp: commit_def)

lemma sync_products_Inr_iff:
  "sync_products ps d = Inr (d', rep) \<longleftrightarrow>
     (\<exists>st. sync_variants (variant_pairs ps) (start_pass d) = Inr st
        \<and> commit (sess st) = Inr d'
        \<and> rep = \<lparr>added = added_count st, updated = updated_count st,
                  skipped_no_barcode = skipped_count st, total = length ps\<rparr>)"
  by (auto simp: sync_products_def split: sum.splits)

lemma start_pass_simps [simp]:
  "sess (start_pass d) = open_session d" "processed_ids (start_pass d) = {}"
  "added_count (start_pass d) = 0" "updated_count (start_pass d) = 0"
  "skipped_count (start_pass d) = 0"
  by (simp_all add: start_pass_def)

lemma open_session_simps [simp]:
  "store (open_session d) = d" "new_products (open_session d) = []"
  "new_customers (open_session d) = []" "new_orders (open_session d) = []"
  "new_events (open_session d) = []"
  by (simp_all add: open_session_def)

lemma flushed_other_tables:
  assumes "other_tables s = other_tables (open_session d)"
  shows "customers (flushed s) = customers d" "orders (flushed s) = orders d"
    "webhook_events (flushed s) = webhook_events d"
  using assms by (simp_all add: other_tables_def flushed_def)

text \<open>The second of two product syncs of the same payload.\<close>

lemma sync_products_twice:
  assumes "sync_products ps d = Inr (d1, r1)"
  shows "\<exists>d2 r2. sync_products ps d1 = Inr (d2, r2) \<and> added r2 = 0
           \<and> length (products d2) = length (products d1)
           \<and> customers d2 = customers d1 \<and> orders d2 = orders d1
           \<and> webhook_events d2 = webhook_events d1"
proof -
  let ?pvs = "variant_pairs ps"
  from assms obtain st1 where run1: "sync_variants ?pvs (start_pass d) = Inr st1"
    and c1: "commit (sess st1) = Inr d1"
    unfolding sync_products_Inr_iff by blast
  from c1 have d1: "d1 = flushed (sess st1)"
    and ok1: "products_ok (products (flushed (sess st1)))"
    and cok1: "customers_ok (customers (flushed (sess st1)))"
    unfolding commit_Inr_iff by simp_all
  obtain st2 where run2: "sync_variants ?pvs (start_pass d1) = Inr st2"
    using sync_variants_runs_alike [OF run1, of "start_pass d1"] by auto
  have inv1: "pass_inv st1"
    using sync_variants_inv [OF run1 pass_inv_start] .
  have seen1: "processed_ids st1 = set (eligible_ids ?pvs)"
    using sync_variants_processed [OF run1] by simp
  have ids1: "stored_ids (open_session d1) = stored_ids (sess st1) @ map p_shopify_id (new_products (sess st1))"
    unfolding d1 using ids_products_flushed [of "sess st1"] by (simp add: stored_ids_def)
  have known: "\<forall>vid \<in> set (eligible_ids ?pvs). Some vid \<in> set (stored_ids (sess (start_pass d1)))"
    using inv1 seen1 ids1 unfolding pass_inv_def by auto
  from sync_variants_no_add [OF run2 known]
  have none: "new_products (sess st2) = []" and added: "added_count st2 = 0" by simp_all
  have frame2: "stored_ids (sess st2) = stored_ids (open_session d1)"
    "map fst (products (store (sess st2))) = map fst (products d1)"
    "other_tables (sess st2) = other_tables (open_session d1)"
    using sync_variants_frame [OF run2] by simp_all
  have rows1: "product_rows (open_session d1) = snd ` set (products d1)"
    by (simp add: product_rows_def)
  have titled1: "\<forall>x \<in> product_rows (sess st1). p_title x \<noteq> None"
    using ok1 unfolding products_ok_flushed by blast
  have titled_d1: "\<forall>x \<in> product_rows (sess (start_pass d1)). p_title x \<noteq> None"
    using ok1 unfolding d1 [symmetric] products_ok_iff by (simp add: rows1)
  have titled2: "\<forall>x \<in> product_rows (sess st2). p_title x \<noteq> None"
    using sync_variants_titles [OF run1 run2 _ titled1 titled_d1] by simp
  have keyed1: "\<forall>k \<in> set (stored_ids (open_session d1)). k \<noteq> None"
    using ok1 unfolding d1 [symmetric] products_ok_iff stored_ids_def by auto
  have keyed2: "\<forall>x \<in> product_rows (sess st2). p_shopify_id x \<noteq> None"
  proof
    fix x assume "x \<in> product_rows (sess st2)"
    then have "x \<in> snd ` set (products (store (sess st2)))"
      using none by (simp add: product_rows_def)
    then have "p_shopify_id x \<in> set (stored_ids (sess st2))"
      unfolding stored_ids_def by auto
    with keyed1 frame2(1) show "p_shopify_id x \<noteq> None" by simp
  qed
  have pok2: "products_ok (products (flushed (sess st2)))"
    unfolding products_ok_flushed using titled2 keyed2 by blast
  have cok2: "customers_ok (customers (flushed (sess st2)))"
    using flushed_other_tables(1) [OF frame2(3)] cok1 d1 by simp
  have c2: "commit (sess st2) = Inr (flushed (sess st2))"
    unfolding commit_Inr_iff using pok2 cok2 by simp
  have "length (products (flushed (sess st2))) = length (products d1)"
    using none frame2(2) by (simp add: flushed_def) (metis length_map)
  with run2 c2 added flushed_other_tables [OF frame2(3)] show ?thesis
    unfolding sync_products_Inr_iff by auto
qed

subsection \<open>The customer pass\<close>

lemma customer_fields_id [simp]: "c_shopify_id (customer_fields cj c) = c_shopify_id c"
  by (simp add: customer_fields_def split: prod.splits)

lemma new_customer_row_id [simp]: "c_shopify_id (new_customer_row cj) = cj_id cj"
  by (simp add: new_customer_row_def)

lemma customer_keys_Nil [simp]: "customer_keys [] = []"
  by (simp add: customer_keys_def)

lemma customer_keys_Cons:
  "customer_keys (cj # cjs) =
     (case cj_id cj of
        None \<Rightarrow> customer_keys cjs
      | Some k \<Rightarrow> if k = 0 then customer_keys cjs else k # customer_keys cjs)"
  by (simp add: customer_keys_def split: option.splits)

lemma sync_customer_ignored:
  "cj_id cj = None \<or> cj_id cj = Some 0 \<or> (\<exists>k. cj_id cj = Some k \<and> k \<in> processed_ids st) \<Longrightarrow>
     sync_customer cj st = st"
  by (auto simp: sync_customer_def)

lemma sync_customer_update:
  "cj_id cj = Some k \<Longrightarrow> k \<noteq> 0 \<Longrightarrow> k \<notin> processed_ids st \<Longrightarrow>
   first_row (\<lambda>c. c_shopify_id c = Some k) (customers (store (sess st))) = Some r0 \<Longrightarrow>
     sync_customer cj st =
       st\<lparr>processed_ids := insert k (processed_ids st),
          sess := (sess st)\<lparr>store := (store (sess st))\<lparr>customers :=
             update_first (\<lambda>c. c_shopify_id c = Some k) (customer_fields cj)
               (customers (store (sess st)))\<rparr>\<rparr>,
          updated_count := updated_count st + 1\<rparr>"
  by (simp add: sync_customer_def Let_def)

lemma sync_customer_insert:
  "cj_id cj = Some k \<Longrightarrow> k \<noteq> 0 \<Longrightarrow> k \<notin> processed_ids st \<Longrightarrow>
   first_row (\<lambda>c. c_shopify_id c = Some k) (customers (store (sess st))) = None \<Longrightarrow>
     sync_customer cj st =
       st\<lparr>processed_ids := insert k (processed_ids st),
          sess := (sess st)\<lparr>new_customers := new_customers (sess st) @ [new_customer_row cj]\<rparr>,
          added_count := added_count st + 1\<rparr>"
  by (simp add: sync_customer_def Let_def)

lemma sync_customer_cases:
  obtains
    (ignored) "cj_id cj = None \<or> cj_id cj = Some 0 \<or> (\<exists>k. cj_id cj = Some k \<and> k \<in> processed_ids st)"
      "sync_customer cj st = st"
  | (update) k r0 where "cj_id cj = Some k" "k \<noteq> 0" "k \<notin> processed_ids st"
      "first_row (\<lambda>c. c_shopify_id c = Some k) (customers (store (sess st))) = Some r0"
      "sync_customer cj st =
         st\<lparr>processed_ids := insert k (processed_ids st),
            sess := (sess st)\<lparr>store := (store (sess st))\<lparr>customers :=
               update_first (\<lambda>c. c_shopify_id c = Some k) (customer_fields cj)
                 (customers (store (sess st)))\<rparr>\<rparr>,
            updated_count := updated_count st + 1\<rparr>"
  | (insert) k where "cj_id cj = Some k" "k \<noteq> 0" "k \<notin> processed_ids st"
      "first_row (\<lambda>c. c_shopify_id c = Some k) (customers (store (sess st))) = None"
      "sync_customer cj st =
         st\<lparr>processed_ids := insert k (processed_ids st),
            sess := (sess st)\<lparr>new_customers := new_customers (sess st) @ [new_customer_row cj]\<rparr>,
            added_count := added_count st + 1\<rparr>"
proof (cases "cj_id cj = None \<or> cj_id cj = Some 0 \<or> (\<exists>k. cj_id cj = Some k \<and> k \<in> processed_ids st)")
  case True
  from True sync_customer_ignored [OF True] show ?thesis by (rule ignored)
next
  case False
  then obtain k where k: "cj_id cj = Some k" "k \<noteq> 0" "k \<notin> processed_ids st"
    by (cases "cj_id cj") auto
  show ?thesis
  proof (cases "first_row (\<lambda>c. c_shopify_id c = Some k) (customers (store (sess st)))")
    case None
    from k None sync_customer_insert [OF k None] show ?thesis by (rule insert)
  next
    case (Some r0)
    from k Some sync_customer_update [OF k Some] show ?thesis by (rule update)
  qed
qed

lemma customer_ids_update [simp]:
  "customer_ids (s\<lparr>store := (store s)\<lparr>customers :=
      update_first P (customer_fields cj) (customers (store s))\<rparr>\<rparr>) = customer_ids s"
  by (simp add: customer_ids_def map_update_first_invariant)

lemma first_row_customer_ids:
  "first_row (\<lambda>c. c_shopify_id c = k) (customers (store s)) = None \<longleftrightarrow> k \<notin> set (customer_ids s)"
  by (auto simp: first_row_None_iff customer_ids_def)

lemma customer_pass_inv_start: "customer_pass_inv (start_pass d)"
  by (simp add: customer_pass_inv_def)

lemma sync_customer_inv:
  assumes "customer_pass_inv st"
  shows "customer_pass_inv (sync_customer cj st)"
proof (cases cj st rule: sync_customer_cases)
  case ignored
  with assms show ?thesis by simp
next
  case (update k r0)
  have "Some k \<in> set (customer_ids (sess st))"
    using update(4) first_row_customer_ids [of "Some k" "sess st"] by simp
  with assms update(3) show ?thesis
    unfolding update(5) customer_pass_inv_def by (auto simp: card_insert_if)
next
  case (insert k)
  have "Some k \<notin> set (customer_ids (sess st))"
    using insert(4) first_row_customer_ids [of "Some k" "sess st"] by simp
  moreover have "customer_ids ((sess st)\<lparr>new_customers := new_customers (sess st) @ [new_customer_row cj]\<rparr>)
      = customer_ids (sess st)"
    by (simp add: customer_ids_def)
  ultimately show ?thesis
    using assms insert(1,3)
    unfolding insert(5) customer_pass_inv_def by (auto simp: card_insert_if)
qed

lemma sync_customer_loop_inv:
  "customer_pass_inv st \<Longrightarrow> customer_pass_inv (sync_customer_loop cjs st)"
  by (induction cjs arbitrary: st) (simp_all add: sync_customer_inv)

lemma sync_customer_frame:
  "customer_ids (sess (sync_customer cj st)) = customer_ids (sess st)
   \<and> map fst (customers (store (sess (sync_customer cj st)))) = map fst (customers (store (sess st)))
   \<and> beside_customers (sess (sync_customer cj st)) = beside_customers (sess st)"
proof (cases cj st rule: sync_customer_cases)
  case ignored
  then show ?thesis by simp
next
  case (update k r0)
  show ?thesis unfolding update(5) by (simp add: beside_customers_def)
next
  case (insert k)
  show ?thesis unfolding insert(5) by (simp add: beside_customers_def customer_ids_def)
qed

lemma sync_customer_loop_frame:
  "customer_ids (sess (sync_customer_loop cjs st)) = customer_ids (sess st)
   \<and> map fst (customers (store (sess (sync_customer_loop cjs st)))) = map fst (customers (store (sess st)))
   \<and> beside_customers (sess (sync_customer_loop cjs st)) = beside_customers (sess st)"
  by (induction cjs arbitrary: st) (simp_all add: sync_customer_frame)

lemma sync_customer_processed:
  "processed_ids (sync_customer cj st) = processed_ids st \<union> set (customer_keys [cj])"
proof (cases cj st rule: sync_customer_cases)
  case ignored
  then show ?thesis by (auto simp: customer_keys_Cons split: if_splits)
next
  case (update k r0)
  show ?thesis unfolding update(5) using update(1,2) by (simp add: customer_keys_Cons)
next
  case (insert k)
  show ?thesis unfolding insert(5) using insert(1,2) by (simp add: customer_keys_Cons)
qed

lemma set_customer_keys_Cons:
  "set (customer_keys (cj # cjs)) = set (customer_keys [cj]) \<union> set (customer_keys cjs)"
  by (auto simp: customer_keys_Cons split: option.splits)

lemma sync_customer_loop_processed:
  "processed_ids (sync_customer_loop cjs st) = processed_ids st \<union> set (customer_keys cjs)"
proof (induction cjs arbitrary: st)
  case Nil
  then show ?case by simp
next
  case (Cons cj cjs)
  show ?case
    using Cons.IH [of "sync_customer cj st"] sync_customer_processed [of cj st]
      set_customer_keys_Cons [of cj cjs]
    by auto
qed

lemma sync_customer_loop_no_add:
  assumes "\<forall>k \<in> set (customer_keys cjs). Some k \<in> set (customer_ids (sess st))"
  shows "new_customers (sess (sync_customer_loop cjs st)) = new_customers (sess st)
       \<and> added_count (sync_customer_loop cjs st) = added_count st"
  using assms
proof (induction cjs arbitrary: st)
  case Nil
  then show ?case by simp
next
  case (Cons cj cjs)
  have tail: "\<forall>k \<in> set (customer_keys cjs). Some k \<in> set (customer_ids (sess (sync_customer cj st)))"
    using Cons.prems set_customer_keys_Cons [of cj cjs] sync_customer_frame [of cj st] by auto
  have head: "new_customers (sess (sync_customer cj st)) = new_customers (sess st)
       \<and> added_count (sync_customer cj st) = added_count st"
  proof (cases cj st rule: sync_customer_cases)
    case ignored
    then show ?thesis by simp
  next
    case (update k r0)
    show ?thesis unfolding update(5) by simp
  next
    case (insert k)
    have "k \<in> set (customer_keys (cj # cjs))"
      using insert(1,2) by (simp add: customer_keys_Cons)
    then have "Some k \<in> set (customer_ids (sess st))"
      using Cons.prems by blast
    then show ?thesis
      using insert(4) first_row_customer_ids [of "Some k" "sess st"] by simp
  qed
  from Cons.IH [OF tail] head show ?case by simp
qed

lemma customers_ok_iff:
  "customers_ok t \<longleftrightarrow>
     None \<notin> set (map (\<lambda>r. c_shopify_id (snd r)) t) \<and> distinct (map (\<lambda>r. c_shopify_id (snd r)) t)"
proof -
  have "list_all (\<lambda>r. c_shopify_id (snd r) \<noteq> None) t
        \<longleftrightarrow> None \<notin> set (map (\<lambda>r. c_shopify_id (snd r)) t)"
    by (induction t) auto
  then show ?thesis by (simp add: customers_ok_def)
qed

lemma ids_customers_flushed:
  "map (\<lambda>r. c_shopify_id (snd r)) (customers (flushed s)) =
     customer_ids s @ map c_shopify_id (new_customers s)"
proof -
  have "map (\<lambda>r. c_shopify_id (snd r)) (customers (flushed s)) =
        map c_shopify_id (map snd (customers (flushed s)))"
    by (simp add: comp_def)
  then show ?thesis
    by (simp add: flushed_def customer_ids_def comp_def)
qed

lemma sync_customers_Inr_iff:
  "sync_customers cjs d = Inr (d', rep) \<longleftrightarrow>
     commit (sess (sync_customer_loop cjs (start_pass d))) = Inr d'
     \<and> rep = \<lparr>added = added_count (sync_customer_loop cjs (start_pass d)),
               updated = updated_count (sync_customer_loop cjs (start_pass d)),
               skipped_no_barcode = 0, total = length cjs\<rparr>"
  by (auto simp: sync_customers_def Let_def split: sum.splits)

lemma flushed_beside_customers:
  assumes "beside_customers s = beside_customers (open_session d)"
  shows "products (flushed s) = products d" "orders (flushed s) = orders d"
    "webhook_events (flushed s) = webhook_events d"
  using assms by (simp_all add: beside_customers_def flushed_def)

text \<open>The second of two customer syncs of the same payload.\<close>

lemma sync_customers_twice:
  assumes "sync_customers cjs d = Inr (d1, r1)"
  shows "\<exists>d2 r2. sync_customers cjs d1 = Inr (d2, r2) \<and> added r2 = 0
           \<and> length (customers d2) = length (customers d1)
           \<and> products d2 = products d1 \<and> orders d2 = orders d1
           \<and> webhook_events d2 = webhook_events d1"
proof -
  let ?st1 = "sync_customer_loop cjs (start_pass d)"
  let ?st2 = "sync_customer_loop cjs (start_pass d1)"
  from assms have c1: "commit (sess ?st1) = Inr d1"
    unfolding sync_customers_Inr_iff by simp
  then have d1: "d1 = flushed (sess ?st1)"
    and pok1: "products_ok (products (flushed (sess ?st1)))"
    and cok1: "customers_ok (customers (flushed (sess ?st1)))"
    unfolding commit_Inr_iff by simp_all
  have inv1: "customer_pass_inv ?st1"
    using sync_customer_loop_inv [OF customer_pass_inv_start] .
  have seen1: "processed_ids ?st1 = set (customer_keys cjs)"
    using sync_customer_loop_processed [of cjs "start_pass d"] by simp
  have ids1: "customer_ids (open_session d1) =
      customer_ids (sess ?st1) @ map c_shopify_id (new_customers (sess ?st1))"
    unfolding d1 using ids_customers_flushed [of "sess ?st1"] by (simp add: customer_ids_def)
  have known: "\<forall>k \<in> set (customer_keys cjs). Some k \<in> set (customer_ids (sess (start_pass d1)))"
    using inv1 seen1 ids1 unfolding customer_pass_inv_def by auto
  from sync_customer_loop_no_add [OF known]
  have none: "new_customers (sess ?st2) = []" and added: "added_count ?st2 = 0" by simp_all
  have frame2: "customer_ids (sess ?st2) = customer_ids (open_session d1)"
    "map fst (customers (store (sess ?st2))) = map fst (customers d1)"
    "beside_customers (sess ?st2) = beside_customers (open_session d1)"
    using sync_customer_loop_frame [of cjs "start_pass d1"] by simp_all
  have "map (\<lambda>r. c_shopify_id (snd r)) (customers (flushed (sess ?st2))) =
        map (\<lambda>r. c_shopify_id (snd r)) (customers d1)"
    unfolding ids_customers_flushed using none frame2(1) by (simp add: customer_ids_def)
  then have cok2: "customers_ok (customers (flushed (sess ?st2)))"
    using cok1 d1 unfolding customers_ok_iff by simp
  have pok2: "products_ok (products (flushed (sess ?st2)))"
    using flushed_beside_customers(1) [OF frame2(3)] pok1 d1 by simp
  have c2: "commit (sess ?st2) = Inr (flushed (sess ?st2))"
    unfolding commit_Inr_iff using pok2 cok2 by simp
  have "length (customers (flushed (sess ?st2))) = length (customers d1)"
    using none frame2(2) by (simp add: flushed_def) (metis length_map)
  with c2 added flushed_beside_customers [OF frame2(3)] show ?thesis
    unfolding sync_customers_Inr_iff by auto
qed

subsection \<open>Counting\<close>









section \<open>Order creation: what is written, and when\<close>

lemma persist_customer_Inr:
  assumes "persist_customer cj d = Inr (d', customer)"
  shows "d' = d\<lparr>customers := customers d @ [customer]\<rparr>"
    and "products_ok (products d')" "customers_ok (customers d')"
  using assms
  by (auto simp: persist_customer_def commit_def flushed_def split: if_splits)

lemma find_or_fetch_customer_Inr:
  assumes "find_or_fetch_customer r email d = Inr (d', customer)"
  shows "d' = d \<or> (\<exists>row. d' = d\<lparr>customers := customers d @ [row]\<rparr>)"
proof (cases "first_row (\<lambda>c. c_email c = Some email) (customers d)")
  case (Some row)
  with assms show ?thesis by (simp add: find_or_fetch_customer_def)
next
  case None
  show ?thesis
  proof (cases "remote_search_by_email r email")
    case Nil
    with assms None show ?thesis by (simp add: find_or_fetch_customer_def)
  next
    case (Cons c cs)
    with assms None obtain row where "persist_customer c d = Inr (d', row)"
      by (auto simp: find_or_fetch_customer_def split: sum.splits)
    from persist_customer_Inr(1) [OF this] show ?thesis by blast
  qed
qed

lemma resolve_customer_Inr:
  assumes "resolve_customer r request d = Inr (d', customer)"
  shows "d' = d \<or> (\<exists>row. d' = d\<lparr>customers := customers d @ [row]\<rparr>)"
proof (cases "co_new_customer request")
  case None
  with assms obtain email c where "find_or_fetch_customer r email d = Inr (d', c)"
    by (auto simp: resolve_customer_def split: option.splits sum.splits)
  then show ?thesis by (rule find_or_fetch_customer_Inr)
next
  case (Some nc)
  show ?thesis
  proof (cases "first_row (\<lambda>c. c_email c = Some (nc_email nc)) (customers d)")
    case existing: (Some row)
    with assms Some show ?thesis by (simp add: resolve_customer_def)
  next
    case None
    with assms Some obtain cj where "persist_customer cj d = Inr (d', customer)"
      by (auto simp: resolve_customer_def split: option.splits)
    from persist_customer_Inr(1) [OF this] show ?thesis by blast
  qed
qed

text \<open>The loop over the cart adds one line and one local order per accepted item.\<close>

lemma add_cart_item_length:
  assumes "add_cart_item d item acc = Inr acc'"
  shows "length (local_orders acc') = length (local_orders acc) + (if accepted d item then 1 else 0)
       \<and> length (line_items acc') = length (line_items acc) + (if accepted d item then 1 else 0)"
proof (cases "get_default (ci_type item) ''barcode'' = Some ''custom''")
  case True
  with assms show ?thesis
    by (auto simp: add_cart_item_def accepted_def Let_def
        split: sum.splits option.splits if_splits)
next
  case False
  show ?thesis
  proof (cases "ci_barcode item")
    case None
    with assms False show ?thesis by (simp add: add_cart_item_def accepted_def Let_def)
  next
    case (Some barcode)
    show ?thesis
    proof (cases "barcode = []")
      case True
      with assms False Some show ?thesis by (simp add: add_cart_item_def accepted_def Let_def)
    next
      case nonempty: False
      show ?thesis
      proof (cases "all_rows (\<lambda>p. p_barcode p = Some barcode) (products d)")
        case Nil
        then have "select_product d barcode = Inr None" by (simp add: select_product_def)
        with assms False Some nonempty Nil show ?thesis
          by (simp add: add_cart_item_def accepted_def Let_def)
      next
        case (Cons p ps)
        then have "select_product d barcode \<noteq> Inr None"
          by (auto simp: select_product_def split: sum.splits option.splits)
        with assms False Some nonempty Cons show ?thesis
          by (auto simp: add_cart_item_def accepted_def Let_def
              split: sum.splits option.splits)
      qed
    qed
  qed
qed

lemma add_cart_items_length:
  assumes "add_cart_items d items acc = Inr acc'"
  shows "length (local_orders acc') = length (local_orders acc) + length (filter (accepted d) items)
       \<and> length (line_items acc') = length (line_items acc) + length (filter (accepted d) items)"
  using assms
proof (induction items arbitrary: acc)
  case Nil
  then show ?case by simp
next
  case (Cons item items)
  then obtain acc1 where one: "add_cart_item d item acc = Inr acc1"
    and rest: "add_cart_items d items acc1 = Inr acc'"
    by (auto split: sum.splits)
  from add_cart_item_length [OF one] Cons.IH [OF rest] show ?case by simp
qed


lemma order_defaults_cart_row [simp]:
  "order_defaults (cart_row remote_order customer_id payment_method order_data)
     = cart_row remote_order customer_id payment_method order_data"
  by (simp add: order_defaults_def cart_row_def)

lemma commit_new_orders:
  assumes "commit ((open_session d)\<lparr>new_orders := rows\<rparr>) = Inr d'"
  shows "d' = d\<lparr>orders := insert_all (orders d) (map order_defaults rows)\<rparr>"
  using assms by (simp add: commit_Inr_iff flushed_def)

lemma apply_discount_Inr:
  assumes "apply_discount discount_amount original_total = Inr final_amount"
  obtains discount where "discount_amount = Some discount"
    "final_amount = (if discount > 0 then original_total - discount else original_total)"
    "discount > 0 \<Longrightarrow> \<not> original_total \<le> discount"
  using assms by (auto simp: apply_discount_def split: option.splits if_splits)

text \<open>What a checkout that succeeds has done.\<close>

lemma checkout_Inr:
  assumes "checkout r request customer d = Inr (d', response)"
  obtains acc discount final_amount remote_order where
    "add_cart_items d (co_items request) empty_cart = Inr acc"
    "line_items acc \<noteq> []"
    "co_discount request = Some discount"
    "apply_discount (co_discount request) (total_amount acc) = Inr final_amount"
    "remote_post_order r
       (cart_order_payload request (snd customer) (line_items acc) discount final_amount)
       = Posted (Some remote_order)"
    "d' = d\<lparr>orders := insert_all (orders d)
             (map (cart_row remote_order (fst customer) (co_payment_method request))
                (local_orders acc))\<rparr>"
    "response =
       \<lparr>cr_shopify_order_id = so_id remote_order,
        cr_shopify_order_number = so_order_number remote_order,
        cr_original_amount = total_amount acc,
        cr_final_amount = final_amount,
        cr_items_count = length (line_items acc) + (if discount > 0 then 1 else 0),
        cr_orders = map (cart_row remote_order (fst customer) (co_payment_method request))
                      (local_orders acc),
        cr_discount_applied = (if discount > 0 then Some discount else None)\<rparr>"
proof -
  from assms obtain acc where acc: "add_cart_items d (co_items request) empty_cart = Inr acc"
    by (cases "add_cart_items d (co_items request) empty_cart") (simp_all add: checkout_def)
  from assms acc have lines: "line_items acc \<noteq> []"
    by (auto simp: checkout_def split: if_splits)
  from assms acc lines obtain final_amount where
    final: "apply_discount (co_discount request) (total_amount acc) = Inr final_amount"
    by (cases "apply_discount (co_discount request) (total_amount acc)")
      (simp_all add: checkout_def)
  from final obtain discount where discount: "co_discount request = Some discount"
    by (rule apply_discount_Inr)
  let ?payload = "cart_order_payload request (snd customer) (line_items acc) discount final_amount"
  from assms acc lines final discount obtain remote_order where
    posted: "remote_post_order r ?payload = Posted (Some remote_order)"
    by (cases "remote_post_order r ?payload")
      (auto simp: checkout_def Let_def split: option.splits)
  let ?rows = "map (cart_row remote_order (fst customer) (co_payment_method request))
                 (local_orders acc)"
  from assms acc lines final discount posted obtain d2 where
    committed: "commit ((open_session d)\<lparr>new_orders := ?rows\<rparr>) = Inr d2"
    by (cases "commit ((open_session d)\<lparr>new_orders := ?rows\<rparr>)")
      (simp_all add: checkout_def Let_def)
  from assms acc lines final discount posted committed have d2: "d' = d2"
    and response: "response =
       \<lparr>cr_shopify_order_id = so_id remote_order,
        cr_shopify_order_number = so_order_number remote_order,
        cr_original_amount = total_amount acc,
        cr_final_amount = final_amount,
        cr_items_count = length (op_line_items ?payload),
        cr_orders = ?rows,
        cr_discount_applied = (if discount > 0 then Some discount else None)\<rparr>"
    by (simp_all add: checkout_def Let_def)
  have count: "length (op_line_items ?payload)
      = length (line_items acc) + (if discount > 0 then 1 else 0)"
    by (simp add: cart_order_payload_def)
  have "d' = d\<lparr>orders := insert_all (orders d) ?rows\<rparr>"
    using commit_new_orders [OF committed] d2 by (simp add: comp_def)
  with acc lines discount final posted response count show ?thesis
    by (intro that [of acc discount final_amount remote_order]) simp_all
qed


lemma accepted_products:
  "products d1 = products d \<Longrightarrow> accepted d1 item = accepted d item"
  by (simp add: accepted_def split: option.splits)

lemma create_order_from_cart_Inr:
  assumes "create_order_from_cart r request d = (Inr response, d')"
  obtains d1 customer where "well_formed_request request"
    "resolve_customer r request d = Inr (d1, customer)"
    "checkout r request customer d1 = Inr (d', response)"
proof -
  from assms have wf: "well_formed_request request"
    by (auto simp: create_order_from_cart_def well_formed_request_def split: if_splits)
  with assms obtain d1 customer where res: "resolve_customer r request d = Inr (d1, customer)"
    by (cases "resolve_customer r request d")
      (auto simp: create_order_from_cart_def well_formed_request_def split: if_splits)
  with assms wf have "checkout r request customer d1 = Inr (d', response)"
    by (cases "checkout r request customer d1")
      (auto simp: create_order_from_cart_def well_formed_request_def split: if_splits)
  with wf res show ?thesis by (rule that)
qed

text \<open>A cart request that fails leaves the store it found, but for a customer row
  committed on the way.\<close>

lemma create_order_from_cart_Inl:
  assumes "create_order_from_cart r request d = (Inl e, d')"
  shows "d' = d \<or> (\<exists>row. d' = d\<lparr>customers := customers d @ [row]\<rparr>)"
proof (cases "well_formed_request request")
  case False
  with assms show ?thesis
    by (auto simp: create_order_from_cart_def well_formed_request_def split: if_splits)
next
  case True
  show ?thesis
  proof (cases "resolve_customer r request d")
    case (Inl e1)
    with assms True show ?thesis
      by (auto simp: create_order_from_cart_def well_formed_request_def split: if_splits)
  next
    case (Inr res)
    obtain d1 customer where res: "res = (d1, customer)" by (cases res)
    with assms True Inr have "d' = d1"
      by (cases "checkout r request customer d1")
        (auto simp: create_order_from_cart_def well_formed_request_def split: if_splits)
    with resolve_customer_Inr [of r request d d1 customer] Inr res show ?thesis by simp
  qed
qed

subsection \<open>Validation errors and the discount bound\<close>

lemma create_order_from_cart_resolved:
  assumes "well_formed_request request" "resolve_customer r request d = Inr (d1, customer)"
  shows "create_order_from_cart r request d =
     (case checkout r request customer d1 of
        Inl e \<Rightarrow> (Inl e, d1)
      | Inr (d2, response) \<Rightarrow> (Inr response, d2))"
  using assms by (auto simp: create_order_from_cart_def well_formed_request_def)

lemma checkout_Inl:
  assumes "checkout r request customer d = Inl e"
  shows "\<not> early_error e"
  using assms
  by (auto simp: checkout_def apply_discount_def early_error_def Let_def
      split: sum.splits if_splits option.splits post_result.splits)

lemma create_order_from_cart_early:
  assumes "create_order_from_cart r request d = (Inl e, d')" "early_error e"
  shows "d' = d"
proof (cases "well_formed_request request")
  case False
  with assms(1) show ?thesis
    by (auto simp: create_order_from_cart_def well_formed_request_def split: if_splits)
next
  case wf: True
  show ?thesis
  proof (cases "resolve_customer r request d")
    case (Inl e1)
    with assms(1) wf show ?thesis
      by (auto simp: create_order_from_cart_def well_formed_request_def split: if_splits)
  next
    case (Inr pair)
    obtain d1 customer where pair: "pair = (d1, customer)" by (cases pair)
    from create_order_from_cart_resolved [OF wf Inr [unfolded pair]] assms(1)
    have "checkout r request customer d1 = Inl e"
      by (auto split: sum.splits)
    from checkout_Inl [OF this] assms(2) show ?thesis by simp
  qed
qed


lemma find_or_fetch_customer_known:
  assumes "find_or_fetch_customer r email d = Inr (d1, customer)"
    and "first_row (\<lambda>c. c_email c = Some email) (customers d) \<noteq> None"
  shows "d1 = d"
  using assms by (auto simp: find_or_fetch_customer_def split: option.splits)

lemma resolve_customer_known:
  assumes "resolve_customer r request d = Inr (d1, customer)" "customer_known request d"
  shows "d1 = d"
  using assms
  by (auto simp: resolve_customer_def customer_known_def
      split: option.splits sum.splits dest: find_or_fetch_customer_known)

lemma create_order_from_cart_known:
  assumes "create_order_from_cart r request d = (Inl e, d')" "customer_known request d"
  shows "d' = d"
proof (cases "well_formed_request request")
  case False
  with assms(1) show ?thesis
    by (auto simp: create_order_from_cart_def well_formed_request_def split: if_splits)
next
  case wf: True
  show ?thesis
  proof (cases "resolve_customer r request d")
    case (Inl e1)
    with assms(1) wf show ?thesis
      by (auto simp: create_order_from_cart_def well_formed_request_def split: if_splits)
  next
    case (Inr pair)
    obtain d1 customer where pair: "pair = (d1, customer)" by (cases pair)
    have "d1 = d"
      using resolve_customer_known [OF Inr [unfolded pair] assms(2)] .
    with create_order_from_cart_resolved [OF wf Inr [unfolded pair]] assms(1)
    show ?thesis
      by (auto split: sum.splits)
  qed
qed

lemma find_or_fetch_customer_Inl:
  assumes "find_or_fetch_customer r email d = Inl e"
  shows "status_code e = 500"
  using assms
  by (auto simp: find_or_fetch_customer_def persist_customer_def Let_def
      split: option.splits list.splits sum.splits if_splits)

lemma create_order_endpoint_400:
  assumes "create_order_endpoint r barcode payment_method email quantity d = (Inl e, d')"
    and "status_code e = 400"
  shows "d' = d"
  using assms
  by (auto simp: create_order_endpoint_def Let_def
      split: option.splits sum.splits if_splits prod.splits dest: find_or_fetch_customer_Inl)

lemma create_manual_order_endpoint_400:
  assumes "create_manual_order_endpoint r request d = (Inl e, d')"
    and "status_code e = 400"
  shows "d' = d"
  using assms
  by (auto simp: create_manual_order_endpoint_def manual_customer_def Let_def
      split: option.splits sum.splits if_splits prod.splits dest: find_or_fetch_customer_Inl)

subsection \<open>The total of a cart and the discount\<close>

lemma double_less_not_le: "(x::double) < y \<Longrightarrow> \<not> y \<le> x"
  by (cases x; cases y) (auto simp: less_double_def less_eq_double_def)

lemma first_in_stock_sold:
  assumes "first_in_stock rows = Inr found"
  shows "found = find (\<lambda>row. case p_inventory_quantity (snd row) of
                              None \<Rightarrow> False | Some n \<Rightarrow> 0 < n) rows"
  using assms by (induction rows) (auto split: option.splits if_splits)

lemma select_product_sold:
  assumes "select_product d barcode = Inr (Some product)"
  shows "sold_variant d barcode = Some (snd product)"
proof (cases "all_rows (\<lambda>p. p_barcode p = Some barcode) (products d)")
  case Nil
  with assms show ?thesis by (simp add: select_product_def)
next
  case (Cons row rows)
  with assms obtain found where found: "first_in_stock (row # rows) = Inr found"
    and product: "product = (case found of None \<Rightarrow> row | Some q \<Rightarrow> q)"
    by (cases "first_in_stock (row # rows)")
      (auto simp: select_product_def split: option.splits)
  from first_in_stock_sold [OF found] product Cons show ?thesis
    by (auto simp: sold_variant_def all_rows_def Let_def split: option.splits)
qed

lemma int_to_float_Inr: "int_to_float q = Inr factor \<Longrightarrow> factor = round_double (of_int q)"
  by (auto simp: int_to_float_def split: double.splits)

lemma add_cart_item_total:
  assumes "add_cart_item d item acc = Inr acc'"
  shows "total_amount acc' =
     (if accepted d item
      then total_amount acc + item_price d item * round_double (of_int (item_quantity item))
      else total_amount acc)"
proof (cases "get_default (ci_type item) ''barcode'' = Some ''custom''")
  case True
  with assms show ?thesis
    by (cases "ci_quantity item"; cases "ci_price item")
      (auto simp: add_cart_item_def accepted_def item_price_def item_quantity_def Let_def
        dest!: int_to_float_Inr split: sum.splits option.splits if_splits price_json.splits)
next
  case False
  show ?thesis
  proof (cases "ci_barcode item")
    case None
    with assms False show ?thesis by (simp add: add_cart_item_def accepted_def Let_def)
  next
    case (Some barcode)
    show ?thesis
    proof (cases "barcode = []")
      case True
      with assms False Some show ?thesis by (simp add: add_cart_item_def accepted_def Let_def)
    next
      case nonempty: False
      show ?thesis
      proof (cases "all_rows (\<lambda>p. p_barcode p = Some barcode) (products d)")
        case Nil
        then have "select_product d barcode = Inr None" by (simp add: select_product_def)
        with assms False Some nonempty Nil show ?thesis
          by (simp add: add_cart_item_def accepted_def Let_def)
      next
        case (Cons p ps)
        then have "select_product d barcode \<noteq> Inr None"
          by (auto simp: select_product_def split: sum.splits option.splits)
        with assms False Some nonempty obtain product where
          sel: "select_product d barcode = Inr (Some product)"
          by (cases "select_product d barcode")
            (auto simp: add_cart_item_def Let_def split: option.splits)
        from select_product_sold [OF sel] assms False Some nonempty Cons sel show ?thesis
          by (cases "ci_quantity item")
            (auto simp: add_cart_item_def accepted_def item_price_def item_quantity_def Let_def
              dest!: int_to_float_Inr split: sum.splits option.splits)
      qed
    qed
  qed
qed

lemma add_cart_items_total:
  assumes "add_cart_items d items acc = Inr acc'"
  shows "total_amount acc' =
     foldl (+) (total_amount acc)
       (map (\<lambda>item. item_price d item * round_double (of_int (item_quantity item)))
          (filter (accepted d) items))"
  using assms
proof (induction items arbitrary: acc)
  case Nil
  then show ?case by simp
next
  case (Cons item items)
  then obtain acc1 where one: "add_cart_item d item acc = Inr acc1"
    and rest: "add_cart_items d items acc1 = Inr acc'"
    by (auto split: sum.splits)
  from add_cart_item_total [OF one] Cons.IH [OF rest] show ?case by simp
qed

lemma cart_total_products:
  "products d1 = products d \<Longrightarrow> cart_total d1 items = cart_total d items"
proof -
  assume same: "products d1 = products d"
  then have "accepted d1 = accepted d"
    by (intro ext) (rule accepted_products)
  moreover from same have "sold_variant d1 = sold_variant d"
    by (intro ext) (simp add: sold_variant_def)
  then have "item_price d1 = item_price d"
    by (intro ext) (simp add: item_price_def cong: option.case_cong)
  ultimately show ?thesis by (simp add: cart_total_def)
qed


lemma checkout_total:
  assumes "add_cart_items d (co_items request) empty_cart = Inr acc"
  shows "total_amount acc = cart_total d (co_items request)"
    and "line_items acc = [] \<longleftrightarrow> filter (accepted d) (co_items request) = []"
proof -
  show "total_amount acc = cart_total d (co_items request)"
    using add_cart_items_total [OF assms] by (simp add: cart_total_def empty_cart_def)
  have "length (line_items acc) = length (filter (accepted d) (co_items request))"
    using add_cart_items_length [OF assms] by (simp add: empty_cart_def)
  then show "line_items acc = [] \<longleftrightarrow> filter (accepted d) (co_items request) = []"
    by (metis length_0_conv)
qed

lemma checkout_discount_too_large:
  assumes "add_cart_items d (co_items request) empty_cart = Inr acc"
    and "filter (accepted d) (co_items request) \<noteq> []"
    and "co_discount request = Some discount" "0 < discount"
    and "cart_total d (co_items request) \<le> discount"
  shows "checkout r request customer d
     = Inl (DiscountTooLarge discount (cart_total d (co_items request)))"
  using assms checkout_total [OF assms(1)] by (simp add: checkout_def apply_discount_def)

lemma checkout_accepted:
  assumes "add_cart_items d (co_items request) empty_cart = Inr acc"
    and "filter (accepted d) (co_items request) \<noteq> []"
    and "co_discount request = Some discount"
    and "final_amount = (if 0 < discount then cart_total d (co_items request) - discount
                         else cart_total d (co_items request))"
    and "0 < discount \<longrightarrow> \<not> cart_total d (co_items request) \<le> discount"
    and "remote_post_order r
           (cart_order_payload request (snd customer) (line_items acc) discount final_amount)
         = Posted (Some remote_order)"
    and "products_ok (products d)" "customers_ok (customers d)"
  shows "\<exists>d2 response. checkout r request customer d = Inr (d2, response)
      \<and> cr_original_amount response = cart_total d (co_items request)
      \<and> cr_final_amount response = final_amount
      \<and> cr_discount_applied response = (if 0 < discount then Some discount else None)
      \<and> cr_shopify_order_id response = so_id remote_order"
proof -
  let ?rows = "map (cart_row remote_order (fst customer) (co_payment_method request))
                 (local_orders acc)"
  have "commit ((open_session d)\<lparr>new_orders := ?rows\<rparr>)
      = Inr (flushed ((open_session d)\<lparr>new_orders := ?rows\<rparr>))"
    using assms(7,8) by (simp add: commit_def flushed_def)
  with assms(1-6) checkout_total [OF assms(1)] show ?thesis
    by (cases "0 < discount") (simp_all add: checkout_def apply_discount_def Let_def)
qed

lemma checkout_never_discount_error:
  assumes "co_discount request = Some discount" "\<not> 0 < discount"
  shows "checkout r request customer d \<noteq> Inl (DiscountTooLarge x y)"
  using assms
  by (auto simp: checkout_def apply_discount_def Let_def
      split: sum.splits if_splits option.splits post_result.splits)

lemma manual_discount_too_large:
  assumes "valid_manual request" "int_to_float (mo_quantity request) = Inr factor"
    and "mo_discount request = Some discount" "mo_price request * factor \<le> discount"
  shows "create_manual_order_endpoint r request d =
     (Inl (DiscountTooLarge discount (mo_price request * factor)), d)"
  using assms by (auto simp: create_manual_order_endpoint_def valid_manual_def Let_def)

lemma manual_discounted:
  assumes "valid_manual request" "int_to_float (mo_quantity request) = Inr factor"
    and "mo_discount request = Some discount" "\<not> mo_price request * factor \<le> discount"
    and "manual_customer r request d = Inr (d1, customer)"
    and "create_manual_order r request (map_option snd customer) discount = Some remote_order"
    and "products_ok (products d1)" "customers_ok (customers d1)"
  shows "\<exists>d2 response. create_manual_order_endpoint r request d = (Inr response, d2)
      \<and> mr_original_amount response = mo_price request * factor
      \<and> mr_final_amount response = mo_price request * factor - discount"
proof -
  let ?row = "\<lparr>o_shopify_order_id = so_id remote_order,
                o_customer_id = map_option fst customer,
                o_product_id = None,
                o_barcode = None,
                o_title = Some (full_title (mo_title request) (mo_size request)),
                o_quantity = Some (mo_quantity request),
                o_price = mo_price request,
                o_payment_method = mo_payment_method request,
                o_status = Some ''completed''\<rparr>"
  have "commit ((open_session d1)\<lparr>new_orders := [?row]\<rparr>)
      = Inr (flushed ((open_session d1)\<lparr>new_orders := [?row]\<rparr>))"
    using assms(7,8) by (simp add: commit_def flushed_def)
  with assms(1-6) show ?thesis
    by (auto simp: create_manual_order_endpoint_def valid_manual_def Let_def)
qed

section \<open>Which operations keep every product row barcoded\<close>

lemma all_barcoded_iff: "all_barcoded d \<longleftrightarrow> (\<forall>x \<in> snd ` set (products d). barcoded x)"
  by (auto simp: all_barcoded_def list_all_iff)

lemma eligible_barcode:
  "eligible variant \<Longrightarrow> v_id variant = Some vid
     \<Longrightarrow> v_barcode variant \<notin> {None, Some []} \<and> vid \<noteq> 0"
  by (cases "v_barcode variant") (auto simp: eligible_def)

lemma barcoded_product_defaults [simp]: "barcoded (product_defaults p) = barcoded p"
  by (simp add: barcoded_def)

lemma sync_variant_barcoded:
  assumes "sync_variant product variant st = Inr st'"
    and "\<forall>x \<in> product_rows (sess st). barcoded x"
  shows "\<forall>x \<in> product_rows (sess st'). barcoded x"
  using assms(1)
proof (cases rule: sync_variant_cases)
  case skip
  with assms(2) show ?thesis by (simp add: product_rows_def)
next
  case (seen vid)
  with assms(2) show ?thesis by simp
next
  case (update vid price r0)
  show ?thesis
  proof
    fix x assume "x \<in> product_rows (sess st')"
    then consider "x \<in> set (new_products (sess st))"
      | r where "r \<in> set (update_first (\<lambda>p. p_shopify_id p = Some vid)
             (synced_fields product variant price) (products (store (sess st))))" "snd r = x"
      unfolding update(6) product_rows_def by auto
    then show "barcoded x"
    proof cases
      case 1
      with assms(2) show ?thesis by (simp add: product_rows_def)
    next
      case 2
      from update_first_rows [OF 2(1)] show ?thesis
      proof
        assume "r \<in> set (products (store (sess st)))"
        with assms(2) 2(2) show ?thesis by (force simp: product_rows_def)
      next
        assume "\<exists>r0 \<in> set (products (store (sess st))). p_shopify_id (snd r0) = Some vid
            \<and> r = (fst r0, synced_fields product variant price (snd r0))"
        with 2(2) eligible_barcode [OF update(1,2)] show ?thesis
          by (auto simp: barcoded_def)
      qed
    qed
  qed
next
  case (insert vid price)
  show ?thesis
    using assms(2) eligible_barcode [OF insert(1,2)]
    unfolding insert(6) product_rows_def by (auto simp: barcoded_def blank_product_def)
qed

lemma sync_variants_barcoded:
  assumes "sync_variants pvs st = Inr st'"
    and "\<forall>x \<in> product_rows (sess st). barcoded x"
  shows "\<forall>x \<in> product_rows (sess st'). barcoded x"
  using assms
proof (induction pvs arbitrary: st)
  case Nil
  then show ?case by simp
next
  case (Cons pv pvs)
  then obtain st1 where st1: "sync_variant (fst pv) (snd pv) st = Inr st1"
    and rest: "sync_variants pvs st1 = Inr st'"
    by (auto split: sum.splits)
  from Cons.IH [OF rest sync_variant_barcoded [OF st1 Cons.prems(2)]] show ?case .
qed

lemma rows_products_flushed:
  "snd ` set (products (flushed s)) =
     snd ` set (products (store s)) \<union> product_defaults ` set (new_products s)"
proof -
  have "snd ` set (products (flushed s)) = set (map snd (products (flushed s)))" by simp
  then show ?thesis unfolding map_snd_products_flushed by auto
qed

lemma sync_products_barcoded:
  assumes "sync_products ps d = Inr (d', rep)" "all_barcoded d"
  shows "all_barcoded d'"
proof -
  from assms(1) obtain st where run: "sync_variants (variant_pairs ps) (start_pass d) = Inr st"
    and c: "commit (sess st) = Inr d'"
    unfolding sync_products_Inr_iff by blast
  have "\<forall>x \<in> product_rows (sess (start_pass d)). barcoded x"
    using assms(2) by (simp add: all_barcoded_iff product_rows_def)
  from sync_variants_barcoded [OF run this] have "\<forall>x \<in> product_rows (sess st). barcoded x" .
  moreover have "d' = flushed (sess st)" using c unfolding commit_Inr_iff by simp
  ultimately show ?thesis
    unfolding all_barcoded_iff by (simp add: rows_products_flushed product_rows_def ball_Un)
qed

text \<open>A bulk sync writes no row without a barcode, whatever the store held: every row
  it leaves is barcoded or is a row it did not touch.\<close>

lemma sync_variant_writes:
  assumes "sync_variant product variant st = Inr st'"
  shows "untouched_or_barcoded (sess st) (sess st')"
  using assms
proof (cases rule: sync_variant_cases)
  case skip
  then show ?thesis by (simp add: untouched_or_barcoded_def)
next
  case (seen vid)
  then show ?thesis by (simp add: untouched_or_barcoded_def)
next
  case (update vid price r0)
  have "x \<in> snd ` set (products (store (sess st))) \<or> barcoded x"
    if "x \<in> snd ` set (update_first (\<lambda>p. p_shopify_id p = Some vid)
               (synced_fields product variant price) (products (store (sess st))))" for x
  proof -
    from that obtain r where r: "r \<in> set (update_first (\<lambda>p. p_shopify_id p = Some vid)
               (synced_fields product variant price) (products (store (sess st))))" "snd r = x"
      by auto
    from update_first_rows [OF r(1)] r(2) eligible_barcode [OF update(1,2)] show ?thesis
      by (force simp: barcoded_def)
  qed
  then show ?thesis
    unfolding update(6) untouched_or_barcoded_def by simp
next
  case (insert vid price)
  have "barcoded (synced_fields product variant price (blank_product (Some vid)))"
    using eligible_barcode [OF insert(1,2)] by (simp add: barcoded_def blank_product_def)
  then show ?thesis
    unfolding insert(6) untouched_or_barcoded_def by auto
qed

lemma untouched_or_barcoded_trans:
  "untouched_or_barcoded s s1 \<Longrightarrow> untouched_or_barcoded s1 s2 \<Longrightarrow> untouched_or_barcoded s s2"
  unfolding untouched_or_barcoded_def by blast

lemma sync_variants_writes:
  assumes "sync_variants pvs st = Inr st'"
  shows "untouched_or_barcoded (sess st) (sess st')"
  using assms
proof (induction pvs arbitrary: st)
  case Nil
  then show ?case by (simp add: untouched_or_barcoded_def)
next
  case (Cons pv pvs)
  then obtain st1 where st1: "sync_variant (fst pv) (snd pv) st = Inr st1"
    and rest: "sync_variants pvs st1 = Inr st'"
    by (auto split: sum.splits)
  from untouched_or_barcoded_trans [OF sync_variant_writes [OF st1] Cons.IH [OF rest]]
  show ?case .
qed

lemma sync_products_writes_barcoded:
  assumes "sync_products ps d = Inr (d', rep)" "row \<in> set (products d')"
  shows "barcoded (snd row) \<or> snd row \<in> snd ` set (products d)"
proof -
  from assms(1) obtain st where run: "sync_variants (variant_pairs ps) (start_pass d) = Inr st"
    and c: "commit (sess st) = Inr d'"
    unfolding sync_products_Inr_iff by blast
  have d': "d' = flushed (sess st)" using c unfolding commit_Inr_iff by simp
  have w: "untouched_or_barcoded (open_session d) (sess st)"
    using sync_variants_writes [OF run] by simp
  from assms(2) have "snd row \<in> snd ` set (products (flushed (sess st)))"
    unfolding d' by simp
  then consider "snd row \<in> snd ` set (products (store (sess st)))"
    | p where "p \<in> set (new_products (sess st))" "snd row = product_defaults p"
    unfolding rows_products_flushed by auto
  then show ?thesis
  proof cases
    case 1
    have "\<forall>x \<in> snd ` set (products (store (sess st))).
            x \<in> snd ` set (products d) \<or> barcoded x"
      using w unfolding untouched_or_barcoded_def by simp
    with 1 show ?thesis by blast
  next
    case 2
    with w show ?thesis unfolding untouched_or_barcoded_def by auto
  qed
qed

lemma commit_no_new_products:
  assumes "commit s = Inr d" "new_products s = []"
  shows "products d = products (store s)"
  using assms by (simp add: commit_Inr_iff flushed_def)

lemma set_log_products [simp]: "products (set_log log_id status message d) = products d"
  by (simp add: set_log_def)

lemma webhook_line_items_products:
  "webhook_line_items payload customer_id payment_method financial_status items s = (s', e) \<Longrightarrow>
     products (store s') = products (store s) \<and> new_products s' = new_products s"
proof (induction items arbitrary: s)
  case Nil
  then show ?case by simp
next
  case (Cons item items)
  show ?case
  proof (cases "webhook_order_row payload customer_id payment_method financial_status item s")
    case (Inl err)
    with Cons.prems show ?thesis by simp
  next
    case (Inr new_order)
    with Cons.prems Cons.IH [of "s\<lparr>new_orders := new_orders s @ [new_order]\<rparr>"]
    show ?thesis by simp
  qed
qed

lemma handle_order_webhook_products:
  assumes "handle_order_webhook payload s = (s', e)"
  shows "products (store s') = products (store s) \<and> new_products s' = new_products s"
proof (cases "all_rows (\<lambda>r. o_shopify_order_id r = oj_id payload) (orders (store s)) = []")
  case False
  with assms show ?thesis by (auto simp: handle_order_webhook_def Let_def)
next
  case True
  show ?thesis
  proof (cases "oj_line_items payload = []")
    case empty: True
    with assms True show ?thesis by (auto simp: handle_order_webhook_def Let_def)
  next
    case False
    show ?thesis
    proof (cases "webhook_payment_method payload")
      case (Inl err)
      with assms True False show ?thesis by (auto simp: handle_order_webhook_def Let_def)
    next
      case (Inr payment_method)
      with assms True False show ?thesis
        using webhook_line_items_products
        by (auto simp: handle_order_webhook_def Let_def)
    qed
  qed
qed

lemma handle_customer_webhook_products:
  assumes "handle_customer_webhook payload s = (s', e)"
  shows "products (store s') = products (store s) \<and> new_products s' = new_products s"
  using assms by (auto simp: handle_customer_webhook_def split: option.splits)

text \<open>The handlers of the topics other than \<^verbatim>\<open>products/create\<close> and
  \<^verbatim>\<open>products/update\<close> add no product row and keep the rows barcoded.\<close>

lemma handler_barcoded:
  assumes "dispatch topic payload = Some handler"
    and "topic \<notin> {''products/create'', ''products/update''}"
    and "handler s = (s', e)" "new_products s = []"
    and "\<forall>x \<in> snd ` set (products (store s)). barcoded x"
  shows "new_products s' = [] \<and> (\<forall>x \<in> snd ` set (products (store s')). barcoded x)"
proof -
  consider (delete) "handler = handle_product_delete (as_product payload)"
    | (inventory) "handler = handle_inventory_update (as_inventory payload)"
    | (customer) "handler = handle_customer_webhook (as_customer payload)"
    | (order) "handler = handle_order_webhook (as_order payload)"
    using assms(1,2) by (auto simp: dispatch_def split: if_splits)
  then show ?thesis
  proof cases
    case delete
    with assms(3,4,5) show ?thesis
      by (auto simp: handle_product_delete_def split: if_splits)
  next
    case inventory
    have "barcoded x" if "x \<in> snd ` set (update_first
            (\<lambda>p. p_shopify_id p = ij_inventory_item_id (as_inventory payload))
            (\<lambda>p. p\<lparr>p_inventory_quantity := ij_available (as_inventory payload)\<rparr>)
            (products (store s)))" for x
    proof -
      from that obtain r where r: "r \<in> set (update_first
            (\<lambda>p. p_shopify_id p = ij_inventory_item_id (as_inventory payload))
            (\<lambda>p. p\<lparr>p_inventory_quantity := ij_available (as_inventory payload)\<rparr>)
            (products (store s)))" "snd r = x"
        by auto
      from update_first_rows [OF r(1)] r(2) assms(5) show ?thesis
        by (force simp: barcoded_def)
    qed
    then have "\<forall>x \<in> snd ` set (update_first
            (\<lambda>p. p_shopify_id p = ij_inventory_item_id (as_inventory payload))
            (\<lambda>p. p\<lparr>p_inventory_quantity := ij_available (as_inventory payload)\<rparr>)
            (products (store s))). barcoded x"
      by blast
    moreover from inventory assms(3) have "s' = s\<lparr>store := (store s)\<lparr>products :=
         update_first (\<lambda>p. p_shopify_id p = ij_inventory_item_id (as_inventory payload))
           (\<lambda>p. p\<lparr>p_inventory_quantity := ij_available (as_inventory payload)\<rparr>)
           (products (store s))\<rparr>\<rparr>"
      by (simp add: handle_inventory_update_def)
    ultimately show ?thesis using assms(4) by simp
  next
    case customer
    with assms(3,4,5) handle_customer_webhook_products [of "as_customer payload" s s' e]
    show ?thesis by simp
  next
    case order
    with assms(3,4,5) handle_order_webhook_products [of "as_order payload" s s' e]
    show ?thesis by simp
  qed
qed

lemma handle_webhook_barcoded:
  assumes "handle_webhook topic body d = (answer, d')"
    and "topic \<notin> {''products/create'', ''products/update''}" "all_barcoded d"
  shows "all_barcoded d'"
proof (cases body)
  case None
  with assms show ?thesis by (simp add: handle_webhook_def)
next
  case (Some payload)
  let ?d1 = "d\<lparr>webhook_events := insert_all (webhook_events d)
                      [\<lparr>w_topic = topic, w_shopify_id = wj_id payload, w_payload = wj_raw payload,
                        w_status = ''processing'', w_error_message = None\<rparr>]\<rparr>"
  have d1: "products ?d1 = products d" by simp
  show ?thesis
  proof (cases "dispatch topic payload")
    case None
    with assms(1) Some have "products d' = products d"
      by (auto simp: handle_webhook_def Let_def)
    with assms(3) show ?thesis by (simp add: all_barcoded_def)
  next
    case handler: (Some handler)
    obtain s e where run: "handler (open_session ?d1) = (s, e)"
      by (cases "handler (open_session ?d1)")
    have kept: "new_products s = [] \<and> (\<forall>x \<in> snd ` set (products (store s)). barcoded x)"
      using handler_barcoded [OF handler assms(2) run] assms(3)
      by (simp add: all_barcoded_iff)
    have "products d' = products d \<or> products d' = products (store s)"
    proof (cases e)
      case None
      show ?thesis
      proof (cases "commit (s\<lparr>store := set_log (next_id (webhook_events d)) ''processed'' None (store s)\<rparr>)")
        case (Inl err)
        with assms(1) Some handler run None show ?thesis
          by (auto simp: handle_webhook_def Let_def)
      next
        case (Inr d2)
        from commit_no_new_products [OF Inr] kept have "products d2 = products (store s)" by simp
        moreover from assms(1) Some handler run None Inr have "d' = d2"
          by (auto simp: handle_webhook_def Let_def)
        ultimately show ?thesis by simp
      qed
    next
      case raised: (Some err)
      show ?thesis
      proof (cases "err = DatabaseError")
        case True
        with assms(1) Some handler run raised show ?thesis
          by (auto simp: handle_webhook_def Let_def)
      next
        case False
        show ?thesis
        proof (cases "commit (s\<lparr>store := set_log (next_id (webhook_events d)) ''failed''
                                          (Some (exception_text err)) (store s)\<rparr>)")
          case (Inl err')
          with assms(1) Some handler run raised False show ?thesis
            by (auto simp: handle_webhook_def Let_def)
        next
          case (Inr d2)
          from commit_no_new_products [OF Inr] kept have "products d2 = products (store s)"
            by simp
          moreover from assms(1) Some handler run raised False Inr have "d' = d2"
            by (auto simp: handle_webhook_def Let_def)
          ultimately show ?thesis by simp
        qed
      qed
    qed
    with kept assms(3) show ?thesis by (auto simp: all_barcoded_iff)
  qed
qed


lemma find_or_fetch_customer_products:
  "find_or_fetch_customer r email d = Inr (d', customer) \<Longrightarrow> products d' = products d"
  using find_or_fetch_customer_Inr [of r email d d' customer] by auto

lemma commit_new_orders_products:
  "commit ((open_session d)\<lparr>new_orders := rows\<rparr>) = Inr d' \<Longrightarrow> products d' = products d"
  by (drule commit_new_orders) simp

lemma commit_case_products:
  assumes "(case commit ((open_session d1)\<lparr>new_orders := rows\<rparr>) of
              Inl e \<Rightarrow> (f e, d1) | Inr d2 \<Rightarrow> (g d2, d2)) = (out, d')"
  shows "products d' = products d1"
proof (cases "commit ((open_session d1)\<lparr>new_orders := rows\<rparr>)")
  case (Inl e)
  with assms show ?thesis by simp
next
  case (Inr d2)
  with assms have "d' = d2" by simp
  with commit_new_orders_products [OF Inr] show ?thesis by simp
qed

lemma create_order_from_cart_products:
  assumes "create_order_from_cart r request d = (out, d')"
  shows "products d' = products d"
proof (cases out)
  case (Inl e)
  with assms create_order_from_cart_Inl [of r request d e d'] show ?thesis by auto
next
  case (Inr response)
  with assms obtain d1 customer where res: "resolve_customer r request d = Inr (d1, customer)"
    and out: "checkout r request customer d1 = Inr (d', response)"
    by (auto elim: create_order_from_cart_Inr)
  from out have "products d' = products d1"
    by (rule checkout_Inr) simp
  with resolve_customer_Inr [OF res] show ?thesis by auto
qed

lemma create_order_endpoint_products:
  assumes "create_order_endpoint r barcode payment_method email quantity d = (out, d')"
  shows "products d' = products d"
proof (cases "payment_method \<in> {''cash'', ''pos''}")
  case False
  with assms show ?thesis by (auto simp: create_order_endpoint_def)
next
  case True
  show ?thesis
  proof (cases "select_product d barcode")
    case (Inl e)
    with assms True show ?thesis by (auto simp: create_order_endpoint_def)
  next
    case (Inr found)
    show ?thesis
    proof (cases found)
      case None
      with assms True Inr show ?thesis by (auto simp: create_order_endpoint_def)
    next
      case (Some product)
      show ?thesis
      proof (cases "find_or_fetch_customer r email d")
        case (Inl e)
        with assms True Inr Some show ?thesis by (auto simp: create_order_endpoint_def)
      next
        case fetched: (Inr res)
        obtain d1 customer where res: "res = (d1, customer)" by (cases res)
        have d1: "products d1 = products d"
          using find_or_fetch_customer_products fetched res by simp
        show ?thesis
        proof (cases customer)
          case None
          with assms True Inr Some fetched res d1 show ?thesis
            by (auto simp: create_order_endpoint_def)
        next
          case found_customer: (Some c)
          show ?thesis
          proof (cases "create_order r (snd product) (snd c) payment_method")
            case None
            with assms True Inr Some fetched res d1 found_customer show ?thesis
              by (auto simp: create_order_endpoint_def)
          next
            case created: (Some remote_order)
            with assms True Inr Some fetched res d1 found_customer show ?thesis
              by (auto simp: create_order_endpoint_def Let_def dest!: commit_case_products)
          qed
        qed
      qed
    qed
  qed
qed

lemma create_manual_order_endpoint_products:
  assumes "create_manual_order_endpoint r request d = (out, d')"
  shows "products d' = products d"
proof (cases "mo_title request = [] \<or> mo_price request \<le> 0
    \<or> mo_payment_method request \<notin> {''cash'', ''pos''} \<or> mo_quantity request < 1")
  case True
  with assms show ?thesis by (auto simp: create_manual_order_endpoint_def split: if_splits)
next
  case False
  show ?thesis
  proof (cases "int_to_float (mo_quantity request)")
    case (Inl e)
    with assms False show ?thesis by (auto simp: create_manual_order_endpoint_def)
  next
    case factor: (Inr factor)
    show ?thesis
    proof (cases "mo_discount request")
      case None
      with assms False factor show ?thesis by (auto simp: create_manual_order_endpoint_def)
    next
      case (Some discount)
      show ?thesis
      proof (cases "discount \<ge> mo_price request * factor")
        case True
        with assms False factor Some show ?thesis
          by (auto simp: create_manual_order_endpoint_def)
      next
        case small: False
        let ?lookup = "manual_customer r request d"
        show ?thesis
        proof (cases ?lookup)
          case (Inl e)
          with assms False factor Some small show ?thesis
            by (auto simp: create_manual_order_endpoint_def)
        next
          case (Inr res)
          obtain d1 customer where res: "res = (d1, customer)" by (cases res)
          have d1: "products d1 = products d"
            using Inr res find_or_fetch_customer_products [of r _ d d1 customer]
            by (auto simp: manual_customer_def split: option.splits if_splits)
          show ?thesis
          proof (cases "create_manual_order r request (map_option snd customer) discount")
            case None
            with assms False factor Some small Inr res d1 show ?thesis
              by (auto simp: create_manual_order_endpoint_def)
          next
            case created: (Some remote_order)
            with assms False factor Some small Inr res d1 show ?thesis
              by (auto simp: create_manual_order_endpoint_def Let_def dest!: commit_case_products)
          qed
        qed
      qed
    qed
  qed
qed

lemma sync_customers_products:
  assumes "sync_customers cjs d = Inr (d', rep)"
  shows "products d' = products d"
proof -
  from assms have c: "commit (sess (sync_customer_loop cjs (start_pass d))) = Inr d'"
    unfolding sync_customers_Inr_iff by simp
  then have "d' = flushed (sess (sync_customer_loop cjs (start_pass d)))"
    unfolding commit_Inr_iff by simp
  moreover have "beside_customers (sess (sync_customer_loop cjs (start_pass d)))
      = beside_customers (open_session d)"
    using sync_customer_loop_frame [of cjs "start_pass d"] by simp
  ultimately show ?thesis
    using flushed_beside_customers(1) by simp
qed

lemma reachable_barcoded:
  assumes "reachable d"
  shows "all_barcoded d"
  using assms
proof (induction rule: reachable.induct)
  case (start d)
  then show ?case by (simp add: all_barcoded_def)
next
  case (products_synced d ps d' rep)
  then show ?case using sync_products_barcoded by blast
next
  case (customers_synced d cjs d' rep)
  then show ?case using sync_customers_products [of cjs d d' rep] by (simp add: all_barcoded_def)
next
  case (products_cleared d d')
  then show ?case by (auto simp: clear_products_def all_barcoded_def split: if_splits)
next
  case (webhook d topic body answer d')
  then show ?case using handle_webhook_barcoded by blast
next
  case (cart_order d r request cart_result d')
  then show ?case
    using create_order_from_cart_products [of r request d cart_result d']
    by (simp add: all_barcoded_def)
next
  case (single_order d r barcode payment_method email quantity order_result d')
  then show ?case
    using create_order_endpoint_products [of r barcode payment_method email quantity d order_result d']
    by (simp add: all_barcoded_def)
next
  case (manual_order d r manual manual_result d')
  then show ?case
    using create_manual_order_endpoint_products [of r manual d manual_result d']
    by (simp add: all_barcoded_def)
qed

section \<open>Clearing the products table: what changes and what does not\<close>

text \<open>
  C10 (as amended). Where the foreign keys are not enforced (the default SQLite
  deployment), or no order row points to a product, \<^verbatim>\<open>clear_products\<close> succeeds,
  empties the products table and leaves the customers, orders and webhook-event tables
  as they were: an order row keeps its \<^verbatim>\<open>product_id\<close>, now dangling.
\<close>

theorem clear_products_frame:
  assumes "\<not> enforce_foreign_keys d \<or> \<not> product_referenced d (\<lambda>p. True)"
  shows "\<exists>d'. clear_products d = Inr d' \<and> products d' = [] \<and> customers d' = customers d
           \<and> orders d' = orders d \<and> webhook_events d' = webhook_events d"
  using assms by (auto simp: clear_products_def)

theorem clear_products_frame_witness:
  "\<exists>d'. clear_products sqlite_store = Inr d' \<and> products d' = [] \<and> customers d' = []
      \<and> map (\<lambda>r. o_product_id (snd r)) (orders d') = [Some 1] \<and> webhook_events d' = []"
  using clear_products_frame [of sqlite_store] by (auto simp: sqlite_store_def)

text \<open>
  On the PostgreSQL deployment the order row of the example blocks the DELETE: the
  request fails and no product row is deleted.
\<close>

theorem clear_products_counterexample:
  "clear_products postgres_store = Inl InternalError"
  by (simp add: clear_products_def postgres_store_def sqlite_store_def product_referenced_def)

section \<open>Order webhooks for an order already stored\<close>

text \<open>
  C6. When the store holds at least one line row of the payload's external order id,
  \<^verbatim>\<open>handle_order_webhook\<close> returns normally, adds no row of any kind to the session,
  leaves the products, customers and webhook-event tables alone, keeps the keys and the
  order of the order rows, and rewrites only the status of the rows of that order, to
  the payload's financial status ("pending" when the payload has none). The line items
  of the payload are not read.
\<close>

theorem order_webhook_status_only:
  assumes "all_rows (\<lambda>r. o_shopify_order_id r = oj_id payload) (orders (store s)) \<noteq> []"
  shows "\<exists>s'. handle_order_webhook payload s = (s', None)
     \<and> new_orders s' = new_orders s \<and> new_products s' = new_products s
     \<and> new_customers s' = new_customers s \<and> new_events s' = new_events s
     \<and> products (store s') = products (store s) \<and> customers (store s') = customers (store s)
     \<and> webhook_events (store s') = webhook_events (store s)
     \<and> map fst (orders (store s')) = map fst (orders (store s))
     \<and> (\<forall>i < length (orders (store s)).
           snd (orders (store s') ! i) =
             (if o_shopify_order_id (snd (orders (store s) ! i)) = oj_id payload
              then (snd (orders (store s) ! i))
                     \<lparr>o_status := get_default (oj_financial_status payload) ''pending''\<rparr>
              else snd (orders (store s) ! i)))"
  using assms by (simp add: handle_order_webhook_def Let_def comp_def)

theorem order_webhook_status_only_witness:
  "all_rows (\<lambda>r. o_shopify_order_id r = oj_id paid_payload)
      (orders (store (open_session two_line_store))) \<noteq> []
   \<and> length (oj_line_items paid_payload) = 3
   \<and> (\<exists>s'. handle_order_webhook paid_payload (open_session two_line_store) = (s', None)
         \<and> new_orders s' = []
         \<and> map fst (orders (store s')) = [1, 2, 3]
         \<and> map (\<lambda>r. o_status (snd r)) (orders (store s')) =
              [Some ''paid'', Some ''completed'', Some ''paid'']
         \<and> map (\<lambda>r. o_title (snd r)) (orders (store s')) =
              [Some ''Shirt'', Some ''Mug'', Some ''Cap''])"
  using order_webhook_status_only [of paid_payload "open_session two_line_store"]
  by (auto simp: handle_order_webhook_def paid_payload_def two_line_store_def sqlite_store_def
      open_session_def all_rows_def Let_def)

section \<open>The variant a barcode selects\<close>

lemma first_in_stock_find:
  assumes "\<forall>r \<in> set ps. p_inventory_quantity (snd r) \<noteq> None"
  shows "first_in_stock ps = Inr (find (\<lambda>r. 0 < the (p_inventory_quantity (snd r))) ps)"
  using assms by (induction ps) auto

text \<open>
  Where every variant with the barcode carries a quantity, the selection is the one
  the code's comments describe: the first matching row in stock, or else the first
  matching row.
\<close>

lemma select_product_prefers_stock:
  assumes "\<forall>r \<in> set (all_rows (\<lambda>p. p_barcode p = Some barcode) (products d)).
             p_inventory_quantity (snd r) \<noteq> None"
  shows "select_product d barcode =
     Inr (case find (\<lambda>r. 0 < the (p_inventory_quantity (snd r)))
                 (all_rows (\<lambda>p. p_barcode p = Some barcode) (products d)) of
            Some r \<Rightarrow> Some r
          | None \<Rightarrow>
              (case all_rows (\<lambda>p. p_barcode p = Some barcode) (products d) of
                 [] \<Rightarrow> None
               | r # _ \<Rightarrow> Some r))"
proof (cases "all_rows (\<lambda>p. p_barcode p = Some barcode) (products d)")
  case Nil
  then show ?thesis by (simp add: select_product_def)
next
  case (Cons r rs)
  with assms have "first_in_stock (r # rs) =
      Inr (find (\<lambda>r. 0 < the (p_inventory_quantity (snd r))) (r # rs))"
    by (intro first_in_stock_find) simp
  with Cons show ?thesis
    by (simp add: select_product_def split: option.splits)
qed

lemma select_product_example:
  "select_product shared_barcode_store ''888'' =
     Inr (Some (2, (blank_product (Some 12))\<lparr>p_title := Some ''Shirt M'',
            p_barcode := Some ''888'', p_inventory_quantity := Some 5\<rparr>))"
  by (simp add: select_product_def shared_barcode_store_def all_rows_def blank_product_def)

text \<open>
  C8, at the input where the code fails. The store holds two variants of the barcode
  888, the second in stock. An inventory webhook whose \<^verbatim>\<open>available\<close> is \<^verbatim>\<open>null\<close>
  stores \<^verbatim>\<open>None\<close> as the quantity of the first; the commit accepts it, the column
  being nullable. From then on the selection loop raises on \<^verbatim>\<open>None > 0\<close> before it
  reaches the variant in stock.
\<close>

theorem select_product_null_inventory:
  "\<exists>d. commit (fst (handle_inventory_update untracked_payload (open_session shared_barcode_store)))
          = Inr d
      \<and> map (\<lambda>r. p_inventory_quantity (snd r)) (products d) = [None, Some 5]
      \<and> select_product d ''888'' = Inl InternalError"
  by (simp add: commit_def flushed_def handle_inventory_update_def untracked_payload_def
      open_session_def shared_barcode_store_def products_ok_def customers_ok_def
      select_product_def all_rows_def blank_product_def)

section \<open>Bulk sync: idempotence and deduplication\<close>

text \<open>The example catalog and customer feed, synced into the empty store.\<close>

lemma first_sync:
  "sync_products catalog empty_store =
     Inr (synced_store, \<lparr>added = 3, updated = 0, skipped_no_barcode = 2, total = 3\<rparr>)"
  by code_simp

lemma first_customer_sync:
  "sync_customers customer_feed empty_store =
     Inr (synced_customers, \<lparr>added = 2, updated = 0, skipped_no_barcode = 0, total = 4\<rparr>)"
  by code_simp

text \<open>
  C3. When a product sync succeeds, a second sync of the same remote catalog into the
  store the first one left succeeds too, reports \<^verbatim>\<open>added = 0\<close> and leaves the number
  of product rows, and the other tables, as they were; likewise for a customer sync
  and the customers table. (A sync that fails rolls back and changes nothing.)
\<close>

theorem bulk_sync_idempotent:
  "(sync_products ps d = Inr (d1, r1) \<longrightarrow>
      (\<exists>d2 r2. sync_products ps d1 = Inr (d2, r2) \<and> added r2 = 0
         \<and> length (products d2) = length (products d1)
         \<and> customers d2 = customers d1 \<and> orders d2 = orders d1
         \<and> webhook_events d2 = webhook_events d1))
   \<and> (sync_customers cjs e = Inr (e1, q1) \<longrightarrow>
      (\<exists>e2 q2. sync_customers cjs e1 = Inr (e2, q2) \<and> added q2 = 0
         \<and> length (customers e2) = length (customers e1)
         \<and> products e2 = products e1 \<and> orders e2 = orders e1
         \<and> webhook_events e2 = webhook_events e1))"
  by (intro conjI impI sync_products_twice sync_customers_twice)

theorem bulk_sync_idempotent_witness:
  "sync_products catalog empty_store =
     Inr (synced_store, \<lparr>added = 3, updated = 0, skipped_no_barcode = 2, total = 3\<rparr>)
   \<and> (\<exists>d2 r2. sync_products catalog synced_store = Inr (d2, r2) \<and> added r2 = 0
         \<and> length (products d2) = 3)
   \<and> sync_customers customer_feed empty_store =
     Inr (synced_customers, \<lparr>added = 2, updated = 0, skipped_no_barcode = 0, total = 4\<rparr>)
   \<and> (\<exists>e2 q2. sync_customers customer_feed synced_customers = Inr (e2, q2) \<and> added q2 = 0
         \<and> length (customers e2) = 2)"
proof -
  have three: "length (products synced_store) = 3" and two: "length (customers synced_customers) = 2"
    by (simp_all add: synced_store_def synced_customers_def)
  from bulk_sync_idempotent [of catalog empty_store synced_store
      "\<lparr>added = 3, updated = 0, skipped_no_barcode = 2, total = 3\<rparr>"
      customer_feed empty_store synced_customers
      "\<lparr>added = 2, updated = 0, skipped_no_barcode = 0, total = 4\<rparr>"]
  show ?thesis
    unfolding three two using first_sync first_customer_sync by blast
qed






section \<open>Pagination that fails part-way\<close>

lemma fetch_pages_stops:
  assumes "pages_from http key n u pages u'" "u' \<noteq> []"
    and "http (n + length pages + 1) u' = RequestFailed"
  shows "fetch_pages http key (Some u) n acc = Some (acc @ concat pages, n + length pages + 1)"
  using assms
proof (induction pages arbitrary: n u acc)
  case Nil
  then show ?case by (subst fetch_pages.simps) simp
next
  case (Cons page pages)
  from Cons.prems(1) obtain data link_header v where
    u: "u \<noteq> []" and resp: "http (n + 1) u = Response data link_header"
    and page: "map_of data key = Some page" "page \<noteq> []"
    and v: "next_url link_header = Some v" and rest: "pages_from http key (n + 1) v pages u'"
    by (auto split: response.splits option.splits)
  have "fetch_pages http key (Some v) (n + 1) (acc @ page)
          = Some ((acc @ page) @ concat pages, (n + 1) + length pages + 1)"
    using Cons.prems(3) by (intro Cons.IH [OF rest Cons.prems(2)]) simp
  then show ?case
    using u resp page v by (subst fetch_pages.simps) (simp add: records_def)
qed

text \<open>
  C9. Let the remote answer the first \<open>length pages\<close> GETs of a fetch, each with records
  and a next link, and fail the GET after them, number \<open>k = length pages + 1\<close>. Then
  each of the three fetchers returns (it does not raise, and it does not run on): its
  result is exactly the records of the pages before the failure, in order, and the
  failed GET was its last, the \<open>k\<close>-th: there is no retry and no further page.
\<close>

theorem partial_pagination:
  "(pages_from http ''products'' 0 (base_url @ ''/products.json?limit=250'') pages u'
      \<and> u' \<noteq> [] \<and> http (length pages + 1) u' = RequestFailed
    \<longrightarrow> get_all_products base_url http = Some (concat pages, length pages + 1))
   \<and> (pages_from http ''customers'' 0 (base_url @ ''/customers.json?limit=250'') cpages cu'
      \<and> cu' \<noteq> [] \<and> http (length cpages + 1) cu' = RequestFailed
    \<longrightarrow> get_all_customers base_url http = Some (concat cpages, length cpages + 1))
   \<and> (pages_from http ''orders'' 0
        (base_url @ ''/orders.json?limit=250&status='' @ status @ ''&created_at_min=''
           @ start_date @ ''&created_at_max='' @ end_date) opages ou'
      \<and> ou' \<noteq> [] \<and> http (length opages + 1) ou' = RequestFailed
    \<longrightarrow> get_orders_by_date_range base_url http start_date end_date status
          = Some (concat opages, length opages + 1))"
proof (intro conjI impI; elim conjE)
  assume "pages_from http ''products'' 0 (base_url @ ''/products.json?limit=250'') pages u'"
    "u' \<noteq> []" "http (length pages + 1) u' = RequestFailed"
  then show "get_all_products base_url http = Some (concat pages, length pages + 1)"
    unfolding get_all_products_def
    using fetch_pages_stops [of http "''products''" 0 _ pages u' "[]"] by simp
next
  assume "pages_from http ''customers'' 0 (base_url @ ''/customers.json?limit=250'') cpages cu'"
    "cu' \<noteq> []" "http (length cpages + 1) cu' = RequestFailed"
  then show "get_all_customers base_url http = Some (concat cpages, length cpages + 1)"
    unfolding get_all_customers_def
    using fetch_pages_stops [of http "''customers''" 0 _ cpages cu' "[]"] by simp
next
  assume "pages_from http ''orders'' 0
        (base_url @ ''/orders.json?limit=250&status='' @ status @ ''&created_at_min=''
           @ start_date @ ''&created_at_max='' @ end_date) opages ou'"
    "ou' \<noteq> []" "http (length opages + 1) ou' = RequestFailed"
  then show "get_orders_by_date_range base_url http start_date end_date status
          = Some (concat opages, length opages + 1)"
    unfolding get_orders_by_date_range_def
    using fetch_pages_stops [of http "''orders''" 0 _ opages ou' "[]"] by simp
qed

lemma example_pages:
  "pages_from example_http ''products'' 0 (''https://shop'' @ ''/products.json?limit=250'')
     [[1, 2, 3, 4, 5], [6, 7, 8]] ''https://shop/page3''"
  "pages_from example_http ''customers'' 0 (''https://shop'' @ ''/customers.json?limit=250'')
     [[70, 71, 72], [73, 74, 75, 76]] ''https://shop/page3''"
  "pages_from example_http ''orders'' 0
     (''https://shop'' @ ''/orders.json?limit=250&status='' @ ''any'' @ ''&created_at_min=''
        @ ''2024-01-01'' @ ''&created_at_max='' @ ''2024-01-31'')
     [[50, 51, 52, 53], [54, 55, 56]] ''https://shop/page3''"
  by code_simp+

theorem partial_pagination_witness:
  "example_http 3 ''https://shop/page3'' = RequestFailed
   \<and> example_http 4 ''https://shop/page3'' \<noteq> RequestFailed
   \<and> get_all_products ''https://shop'' example_http = Some ([1, 2, 3, 4, 5, 6, 7, 8], 3)
   \<and> get_all_customers ''https://shop'' example_http = Some ([70, 71, 72, 73, 74, 75, 76], 3)
   \<and> get_orders_by_date_range ''https://shop'' example_http ''2024-01-01'' ''2024-01-31'' ''any''
        = Some ([50, 51, 52, 53, 54, 55, 56], 3)"
  using partial_pagination [of example_http "''https://shop''" "[[1, 2, 3, 4, 5], [6, 7, 8]]"
      "''https://shop/page3''" "[[70, 71, 72], [73, 74, 75, 76]]" "''https://shop/page3''" "''any''"
      "''2024-01-01''" "''2024-01-31''" "[[50, 51, 52, 53], [54, 55, 56]]" "''https://shop/page3''"]
    example_pages
  by (simp add: example_http_def)

section \<open>Product rows without a barcode\<close>

text \<open>
  C1 (as amended). A bulk product sync persists no variant whose barcode or external
  id is null, the empty string or zero: every product row a successful sync leaves is
  \<open>barcoded\<close> (its barcode is neither null nor empty, its external variant id neither
  null nor zero) or is a row of the store it found, untouched. And no operation other
  than the product webhook does: in every store reached from one without products by
  syncs, clears, order requests and webhooks of topics other than
  \<^verbatim>\<open>products/create\<close> and \<^verbatim>\<open>products/update\<close>, every product row is barcoded.
\<close>

theorem null_barcode_only_by_product_webhook:
  "(reachable d \<longrightarrow> all_barcoded d)
   \<and> (sync_products ps d0 = Inr (d1, rep) \<and> row \<in> set (products d1)
        \<longrightarrow> barcoded (snd row) \<or> snd row \<in> snd ` set (products d0))"
  using reachable_barcoded sync_products_writes_barcoded by blast

lemma reachable_example: "reachable synced_store"
proof -
  have "reachable empty_store"
    by (rule reachable.start) (simp add: empty_store_def)
  from reachable.products_synced [OF this first_sync] show ?thesis .
qed

theorem null_barcode_only_by_product_webhook_witness:
  "reachable synced_store
   \<and> map (\<lambda>row. p_barcode (snd row)) (products synced_store)
       = [Some ''888'', Some ''888'', Some ''999'']
   \<and> all_barcoded synced_store
   \<and> sync_products catalog empty_store =
       Inr (synced_store, \<lparr>added = 3, updated = 0, skipped_no_barcode = 2, total = 3\<rparr>)
   \<and> barcoded (snd (hd (products synced_store)))"
  using null_barcode_only_by_product_webhook [of synced_store catalog empty_store synced_store
      "\<lparr>added = 3, updated = 0, skipped_no_barcode = 2, total = 3\<rparr>" "hd (products synced_store)"]
    reachable_example first_sync
  by (simp add: synced_store_def empty_store_def)

text \<open>
  The product webhook does persist a variant without a barcode: after one
  \<^verbatim>\<open>products/create\<close> call on the empty store, the only product row has none.
\<close>

theorem product_webhook_null_barcode_counterexample:
  "fst (handle_webhook ''products/create'' (Some no_barcode_webhook) empty_store) = None
   \<and> map (\<lambda>row. p_barcode (snd row))
       (products (snd (handle_webhook ''products/create'' (Some no_barcode_webhook) empty_store)))
     = [None]"
  by code_simp

section \<open>One local row per accepted cart item\<close>

text \<open>
  C7. A cart checkout that succeeds has posted one order to the remote platform, and
  the store it leaves has the order rows it found followed by exactly one new row per
  accepted cart item, each with the external id of the order the remote created; the
  line items that were posted are one more when a discount applies, the negative line
  having no local row. The products and webhook-event tables are as before. A cart
  request that fails, whether before or after the remote call, leaves the orders table
  as it found it: rows are written only once the remote order exists, all in the one
  commit that ends the request.
\<close>

theorem cart_fan_out:
  "(create_order_from_cart r request d = (Inr response, d') \<longrightarrow>
      (\<exists>new payload remote_order.
          remote_post_order r payload = Posted (Some remote_order)
        \<and> orders d' = orders d @ new
        \<and> length new = length (filter (accepted d) (co_items request))
        \<and> (\<forall>row \<in> set new. o_shopify_order_id (snd row) = so_id remote_order)
        \<and> map snd new = cr_orders response
        \<and> length (op_line_items payload) =
            length new + (case co_discount request of
                            None \<Rightarrow> 0 | Some discount \<Rightarrow> if discount > 0 then 1 else 0)
        \<and> products d' = products d \<and> webhook_events d' = webhook_events d))
   \<and> (create_order_from_cart r request d = (Inl e, d') \<longrightarrow> orders d' = orders d)"
proof (intro conjI impI)
  assume "create_order_from_cart r request d = (Inl e, d')"
  from create_order_from_cart_Inl [OF this] show "orders d' = orders d" by auto
next
  assume "create_order_from_cart r request d = (Inr response, d')"
  then obtain d1 customer where res: "resolve_customer r request d = Inr (d1, customer)"
    and out: "checkout r request customer d1 = Inr (d', response)"
    by (rule create_order_from_cart_Inr)
  from resolve_customer_Inr [OF res] have same: "products d1 = products d" "orders d1 = orders d"
    "webhook_events d1 = webhook_events d"
    by auto
  from out obtain acc discount final_amount remote_order where
    acc: "add_cart_items d1 (co_items request) empty_cart = Inr acc"
    and discount: "co_discount request = Some discount"
    and posted: "remote_post_order r
       (cart_order_payload request (snd customer) (line_items acc) discount final_amount)
       = Posted (Some remote_order)"
    and d': "d' = d1\<lparr>orders := insert_all (orders d1)
             (map (cart_row remote_order (fst customer) (co_payment_method request))
                (local_orders acc))\<rparr>"
    and response: "cr_orders response =
        map (cart_row remote_order (fst customer) (co_payment_method request)) (local_orders acc)"
    by (rule checkout_Inr) simp
  let ?rows = "map (cart_row remote_order (fst customer) (co_payment_method request))
                 (local_orders acc)"
  let ?payload = "cart_order_payload request (snd customer) (line_items acc) discount final_amount"
  obtain new where new: "insert_all (orders d1) ?rows = orders d1 @ new" "map snd new = ?rows"
    using insert_all_append [of "orders d1" ?rows] by blast
  have counts: "length (local_orders acc) = length (filter (accepted d) (co_items request))"
    "length (line_items acc) = length (filter (accepted d) (co_items request))"
    using add_cart_items_length [OF acc] accepted_products [OF same(1)]
    by (simp_all add: empty_cart_def cong: filter_cong)
  have len: "length new = length (filter (accepted d) (co_items request))"
    using new(2) counts(1) by (metis length_map)
  have ids: "\<forall>row \<in> set new. o_shopify_order_id (snd row) = so_id remote_order"
  proof
    fix row assume "row \<in> set new"
    then have "snd row \<in> set ?rows" using new(2) by (metis image_eqI set_map)
    then show "o_shopify_order_id (snd row) = so_id remote_order"
      by (auto simp: cart_row_def)
  qed
  have lines: "length (op_line_items ?payload) =
      length new + (case co_discount request of
                      None \<Rightarrow> 0 | Some discount \<Rightarrow> if discount > 0 then 1 else 0)"
    using len counts(2) discount by (simp add: cart_order_payload_def)
  have "orders d' = orders d @ new" "products d' = products d"
    "webhook_events d' = webhook_events d"
    using d' new(1) same by simp_all
  with posted len ids lines new(2) response
  show "\<exists>new payload remote_order.
          remote_post_order r payload = Posted (Some remote_order)
        \<and> orders d' = orders d @ new
        \<and> length new = length (filter (accepted d) (co_items request))
        \<and> (\<forall>row \<in> set new. o_shopify_order_id (snd row) = so_id remote_order)
        \<and> map snd new = cr_orders response
        \<and> length (op_line_items payload) =
            length new + (case co_discount request of
                            None \<Rightarrow> 0 | Some discount \<Rightarrow> if discount > 0 then 1 else 0)
        \<and> products d' = products d \<and> webhook_events d' = webhook_events d"
    by (intro exI [of _ new] exI [of _ ?payload] exI [of _ remote_order]) simp
qed

lemma mixed_checkout:
  "create_order_from_cart example_remote mixed_cart shop_store = (Inr mixed_response, mixed_store)"
  by code_simp

lemma mixed_accepted:
  "length (co_items mixed_cart) = 4"
  "length (filter (accepted shop_store) (co_items mixed_cart)) = 3"
  "(case co_discount mixed_cart of
      None \<Rightarrow> 0 | Some discount \<Rightarrow> if discount > 0 then 1 else 0) = (1::nat)"
  "orders shop_store = []"
  by code_simp+

theorem cart_fan_out_witness:
  "create_order_from_cart example_remote mixed_cart shop_store = (Inr mixed_response, mixed_store)
   \<and> length (co_items mixed_cart) = 4
   \<and> length (filter (accepted shop_store) (co_items mixed_cart)) = 3
   \<and> (\<exists>new payload remote_order.
          remote_post_order example_remote payload = Posted (Some remote_order)
        \<and> orders mixed_store = new \<and> length new = 3
        \<and> (\<forall>row \<in> set new. o_shopify_order_id (snd row) = so_id remote_order)
        \<and> length (op_line_items payload) = 4)"
proof -
  from cart_fan_out [of example_remote mixed_cart shop_store mixed_response mixed_store]
    mixed_checkout
  obtain new payload remote_order where
    "remote_post_order example_remote payload = Posted (Some remote_order)"
    "orders mixed_store = orders shop_store @ new"
    "length new = length (filter (accepted shop_store) (co_items mixed_cart))"
    "\<forall>row \<in> set new. o_shopify_order_id (snd row) = so_id remote_order"
    "length (op_line_items payload) =
       length new + (case co_discount mixed_cart of
                       None \<Rightarrow> 0 | Some discount \<Rightarrow> if discount > 0 then 1 else 0)"
    by blast
  then have "remote_post_order example_remote payload = Posted (Some remote_order)
        \<and> orders mixed_store = new \<and> length new = 3
        \<and> (\<forall>row \<in> set new. o_shopify_order_id (snd row) = so_id remote_order)
        \<and> length (op_line_items payload) = 4"
    by (simp add: mixed_accepted)
  then show ?thesis
    using mixed_checkout mixed_accepted(1,2) by blast
qed

section \<open>The discount bound\<close>

text \<open>
  C5 (as amended). All amounts are floats and \<open>due\<close> is the total of the cart: the
  floats' sum, in the order of the cart, of price times quantity over the accepted
  items. For a cart request that passed the first checks, whose customer is resolved,
  whose items are read without an exception and of which at least one is accepted:
  with a discount \<open>0 < d\<close> and \<open>due \<le> d\<close> the request is answered with the validation
  error (status 400) and no order row is written; with \<open>0 < d < due\<close>, once the remote
  has created the order that is posted, the request succeeds, and the amount of the
  sale transaction posted and the final amount reported are both the floats'
  difference \<open>due - d\<close>, the discount being posted as a line of price \<open>- d\<close>; with a
  discount that is not \<open>> 0\<close> the discount is never the reason of a rejection, and the
  order is posted and reported with the amount \<open>due\<close>. For a manual order that passed
  its four checks, with \<open>due = price * quantity\<close>: every discount \<open>due \<le> d\<close> is
  answered with the validation error and the store is untouched, and every \<open>d < due\<close>
  is accepted with the final amount \<open>due - d\<close>.
\<close>

theorem discount_boundary:
  "(well_formed_request request \<and> resolve_customer r request d = Inr (dc, customer)
      \<and> add_cart_items dc (co_items request) empty_cart = Inr acc
      \<and> filter (accepted d) (co_items request) \<noteq> []
      \<and> co_discount request = Some discount \<and> due = cart_total d (co_items request)
    \<longrightarrow> (0 < discount \<and> due \<le> discount \<longrightarrow>
            create_order_from_cart r request d = (Inl (DiscountTooLarge discount due), dc)
          \<and> status_code (DiscountTooLarge discount due) = 400
          \<and> orders dc = orders d)
      \<and> (0 < discount \<and> discount < due
          \<and> payload = cart_order_payload request (snd customer) (line_items acc) discount
                         (due - discount)
          \<and> remote_post_order r payload = Posted (Some remote_order)
          \<and> products_ok (products dc) \<and> customers_ok (customers dc) \<longrightarrow>
            (\<exists>d2 response. create_order_from_cart r request d = (Inr response, d2)
               \<and> cr_original_amount response = due
               \<and> cr_final_amount response = due - discount
               \<and> op_amount payload = due - discount
               \<and> rl_price (last (op_line_items payload)) = - discount
               \<and> cr_shopify_order_id response = so_id remote_order))
      \<and> (\<not> 0 < discount \<longrightarrow>
            fst (create_order_from_cart r request d) \<noteq> Inl (DiscountTooLarge x y)
          \<and> (due \<noteq> NaN
              \<and> whole = cart_order_payload request (snd customer) (line_items acc) discount due
              \<and> remote_post_order r whole = Posted (Some remote_order)
              \<and> products_ok (products dc) \<and> customers_ok (customers dc) \<longrightarrow>
                (\<exists>d2 response. create_order_from_cart r request d = (Inr response, d2)
                   \<and> cr_original_amount response = due
                   \<and> cr_final_amount response = due
                   \<and> cr_discount_applied response = None
                   \<and> op_amount whole = due
                   \<and> op_line_items whole = line_items acc))))
   \<and> (valid_manual manual \<and> int_to_float (mo_quantity manual) = Inr factor
      \<and> mo_discount manual = Some manual_discount \<and> manual_due = mo_price manual * factor
    \<longrightarrow> (manual_due \<le> manual_discount \<longrightarrow>
            create_manual_order_endpoint r manual e
              = (Inl (DiscountTooLarge manual_discount manual_due), e))
      \<and> (manual_discount < manual_due
          \<and> manual_customer r manual e = Inr (ec, manual_payer)
          \<and> create_manual_order r manual (map_option snd manual_payer) manual_discount
               = Some manual_remote_order
          \<and> products_ok (products ec) \<and> customers_ok (customers ec) \<longrightarrow>
            (\<exists>e2 response. create_manual_order_endpoint r manual e = (Inr response, e2)
               \<and> mr_original_amount response = manual_due
               \<and> mr_final_amount response = manual_due - manual_discount)))"
proof (intro conjI)
  show "valid_manual manual \<and> int_to_float (mo_quantity manual) = Inr factor
      \<and> mo_discount manual = Some manual_discount \<and> manual_due = mo_price manual * factor
    \<longrightarrow> (manual_due \<le> manual_discount \<longrightarrow>
            create_manual_order_endpoint r manual e
              = (Inl (DiscountTooLarge manual_discount manual_due), e))
      \<and> (manual_discount < manual_due
          \<and> manual_customer r manual e = Inr (ec, manual_payer)
          \<and> create_manual_order r manual (map_option snd manual_payer) manual_discount
               = Some manual_remote_order
          \<and> products_ok (products ec) \<and> customers_ok (customers ec) \<longrightarrow>
            (\<exists>e2 response. create_manual_order_endpoint r manual e = (Inr response, e2)
               \<and> mr_original_amount response = manual_due
               \<and> mr_final_amount response = manual_due - manual_discount))"
  proof (intro impI conjI; elim conjE)
    assume "valid_manual manual" "int_to_float (mo_quantity manual) = Inr factor"
      "mo_discount manual = Some manual_discount" "manual_due = mo_price manual * factor"
      "manual_due \<le> manual_discount"
    then show "create_manual_order_endpoint r manual e
              = (Inl (DiscountTooLarge manual_discount manual_due), e)"
      using manual_discount_too_large [of manual factor manual_discount r e] by simp
  next
    assume "valid_manual manual" "int_to_float (mo_quantity manual) = Inr factor"
      "mo_discount manual = Some manual_discount" "manual_due = mo_price manual * factor"
      "manual_discount < manual_due"
      "manual_customer r manual e = Inr (ec, manual_payer)"
      "create_manual_order r manual (map_option snd manual_payer) manual_discount
               = Some manual_remote_order"
      "products_ok (products ec)" "customers_ok (customers ec)"
    then show "\<exists>e2 response. create_manual_order_endpoint r manual e = (Inr response, e2)
               \<and> mr_original_amount response = manual_due
               \<and> mr_final_amount response = manual_due - manual_discount"
      using manual_discounted [of manual factor manual_discount r e ec manual_payer
          manual_remote_order] double_less_not_le [of manual_discount manual_due]
      by simp
  qed
next
  show "well_formed_request request \<and> resolve_customer r request d = Inr (dc, customer)
      \<and> add_cart_items dc (co_items request) empty_cart = Inr acc
      \<and> filter (accepted d) (co_items request) \<noteq> []
      \<and> co_discount request = Some discount \<and> due = cart_total d (co_items request)
    \<longrightarrow> (0 < discount \<and> due \<le> discount \<longrightarrow>
            create_order_from_cart r request d = (Inl (DiscountTooLarge discount due), dc)
          \<and> status_code (DiscountTooLarge discount due) = 400
          \<and> orders dc = orders d)
      \<and> (0 < discount \<and> discount < due
          \<and> payload = cart_order_payload request (snd customer) (line_items acc) discount
                         (due - discount)
          \<and> remote_post_order r payload = Posted (Some remote_order)
          \<and> products_ok (products dc) \<and> customers_ok (customers dc) \<longrightarrow>
            (\<exists>d2 response. create_order_from_cart r request d = (Inr response, d2)
               \<and> cr_original_amount response = due
               \<and> cr_final_amount response = due - discount
               \<and> op_amount payload = due - discount
               \<and> rl_price (last (op_line_items payload)) = - discount
               \<and> cr_shopify_order_id response = so_id remote_order))
      \<and> (\<not> 0 < discount \<longrightarrow>
            fst (create_order_from_cart r request d) \<noteq> Inl (DiscountTooLarge x y)
          \<and> (due \<noteq> NaN
              \<and> whole = cart_order_payload request (snd customer) (line_items acc) discount due
              \<and> remote_post_order r whole = Posted (Some remote_order)
              \<and> products_ok (products dc) \<and> customers_ok (customers dc) \<longrightarrow>
                (\<exists>d2 response. create_order_from_cart r request d = (Inr response, d2)
                   \<and> cr_original_amount response = due
                   \<and> cr_final_amount response = due
                   \<and> cr_discount_applied response = None
                   \<and> op_amount whole = due
                   \<and> op_line_items whole = line_items acc)))"
  proof (intro impI, elim conjE)
    assume wf: "well_formed_request request"
      and res: "resolve_customer r request d = Inr (dc, customer)"
      and acc: "add_cart_items dc (co_items request) empty_cart = Inr acc"
      and some: "filter (accepted d) (co_items request) \<noteq> []"
      and disc: "co_discount request = Some discount"
      and due: "due = cart_total d (co_items request)"
    from resolve_customer_Inr [OF res] have same: "products dc = products d"
      and orders: "orders dc = orders d"
      by auto
    have due_here: "due = cart_total dc (co_items request)"
      using due cart_total_products [OF same] by simp
    have some_here: "filter (accepted dc) (co_items request) \<noteq> []"
      using some accepted_products [OF same] by (simp cong: filter_cong)
    note run = create_order_from_cart_resolved [OF wf res]
    have rejected: "create_order_from_cart r request d
          = (Inl (DiscountTooLarge discount due), dc)
        \<and> status_code (DiscountTooLarge discount due) = 400 \<and> orders dc = orders d"
      if "0 < discount \<and> due \<le> discount"
      using that run orders
        checkout_discount_too_large [OF acc some_here disc, of r customer] due_here by simp
    have discounted: "\<exists>d2 response. create_order_from_cart r request d = (Inr response, d2)
               \<and> cr_original_amount response = due
               \<and> cr_final_amount response = due - discount
               \<and> op_amount payload = due - discount
               \<and> rl_price (last (op_line_items payload)) = - discount
               \<and> cr_shopify_order_id response = so_id remote_order"
      if a: "0 < discount \<and> discount < due
          \<and> payload = cart_order_payload request (snd customer) (line_items acc) discount
                         (due - discount)
          \<and> remote_post_order r payload = Posted (Some remote_order)
          \<and> products_ok (products dc) \<and> customers_ok (customers dc)"
    proof -
      from a have small: "\<not> due \<le> discount"
        using double_less_not_le by blast
      from a have payload: "op_amount payload = due - discount"
        "rl_price (last (op_line_items payload)) = - discount"
        by (simp_all add: cart_order_payload_def)
      from checkout_accepted [OF acc some_here disc, of "due - discount" r customer remote_order]
        a small due_here
      obtain d2 response where "checkout r request customer dc = Inr (d2, response)"
        "cr_original_amount response = due" "cr_final_amount response = due - discount"
        "cr_shopify_order_id response = so_id remote_order"
        by auto
      with run payload show ?thesis by auto
    qed
    have never: "fst (create_order_from_cart r request d) \<noteq> Inl (DiscountTooLarge x y)"
      if "\<not> 0 < discount"
      using that run checkout_never_discount_error [OF disc, of r customer dc x y]
      by (auto split: sum.splits)
    have whole: "\<exists>d2 response. create_order_from_cart r request d = (Inr response, d2)
                   \<and> cr_original_amount response = due
                   \<and> cr_final_amount response = due
                   \<and> cr_discount_applied response = None
                   \<and> op_amount whole = due
                   \<and> op_line_items whole = line_items acc"
      if no: "\<not> 0 < discount"
        and a: "due \<noteq> NaN
              \<and> whole = cart_order_payload request (snd customer) (line_items acc) discount due
              \<and> remote_post_order r whole = Posted (Some remote_order)
              \<and> products_ok (products dc) \<and> customers_ok (customers dc)"
    proof -
      from a no have payload: "op_amount whole = due" "op_line_items whole = line_items acc"
        by (simp_all add: cart_order_payload_def)
      from checkout_accepted [OF acc some_here disc, of due r customer remote_order]
        a no due_here
      obtain d2 response where "checkout r request customer dc = Inr (d2, response)"
        "cr_original_amount response = due" "cr_final_amount response = due"
        "cr_discount_applied response = None"
        by auto
      with run payload show ?thesis by auto
    qed
    from rejected discounted never whole
    show "(0 < discount \<and> due \<le> discount \<longrightarrow>
            create_order_from_cart r request d = (Inl (DiscountTooLarge discount due), dc)
          \<and> status_code (DiscountTooLarge discount due) = 400
          \<and> orders dc = orders d)
      \<and> (0 < discount \<and> discount < due
          \<and> payload = cart_order_payload request (snd customer) (line_items acc) discount
                         (due - discount)
          \<and> remote_post_order r payload = Posted (Some remote_order)
          \<and> products_ok (products dc) \<and> customers_ok (customers dc) \<longrightarrow>
            (\<exists>d2 response. create_order_from_cart r request d = (Inr response, d2)
               \<and> cr_original_amount response = due
               \<and> cr_final_amount response = due - discount
               \<and> op_amount payload = due - discount
               \<and> rl_price (last (op_line_items payload)) = - discount
               \<and> cr_shopify_order_id response = so_id remote_order))
      \<and> (\<not> 0 < discount \<longrightarrow>
            fst (create_order_from_cart r request d) \<noteq> Inl (DiscountTooLarge x y)
          \<and> (due \<noteq> NaN
              \<and> whole = cart_order_payload request (snd customer) (line_items acc) discount due
              \<and> remote_post_order r whole = Posted (Some remote_order)
              \<and> products_ok (products dc) \<and> customers_ok (customers dc) \<longrightarrow>
                (\<exists>d2 response. create_order_from_cart r request d = (Inr response, d2)
                   \<and> cr_original_amount response = due
                   \<and> cr_final_amount response = due
                   \<and> cr_discount_applied response = None
                   \<and> op_amount whole = due
                   \<and> op_line_items whole = line_items acc)))"
      by blast
  qed
qed


lemma full_discount_cart_read:
  "well_formed_request full_discount_cart"
  "resolve_customer example_remote full_discount_cart shop_store = Inr (shop_store, hd (customers shop_store))"
  "add_cart_items shop_store (co_items full_discount_cart) empty_cart
     = Inr (projr (add_cart_items shop_store (co_items full_discount_cart) empty_cart))"
  "filter (accepted shop_store) (co_items full_discount_cart) \<noteq> []"
  "co_discount full_discount_cart = Some (Finite 100)"
  "cart_total shop_store (co_items full_discount_cart) = Finite 100"
  by code_simp+

lemma mixed_cart_read:
  "well_formed_request mixed_cart"
  "resolve_customer example_remote mixed_cart shop_store = Inr (shop_store, hd (customers shop_store))"
  "add_cart_items shop_store (co_items mixed_cart) empty_cart
     = Inr (projr (add_cart_items shop_store (co_items mixed_cart) empty_cart))"
  "filter (accepted shop_store) (co_items mixed_cart) \<noteq> []"
  "co_discount mixed_cart = Some (Finite (7036170730324623 / 70368744177664))"
  "cart_total shop_store (co_items mixed_cart) = Finite 100"
  by code_simp+

lemma dime_cart_read:
  "well_formed_request dime_cart"
  "resolve_customer example_remote dime_cart shop_store = Inr (shop_store, hd (customers shop_store))"
  "add_cart_items shop_store (co_items dime_cart) empty_cart
     = Inr (projr (add_cart_items shop_store (co_items dime_cart) empty_cart))"
  "filter (accepted shop_store) (co_items dime_cart) \<noteq> []"
  "co_discount dime_cart = Some (Finite (5404319552844595 / 18014398509481984))"
  "cart_total shop_store (co_items dime_cart) = Finite (1351079888211149 / 4503599627370496)"
  by code_simp+

lemma free_cart_read:
  "well_formed_request free_cart"
  "resolve_customer example_remote free_cart shop_store = Inr (shop_store, hd (customers shop_store))"
  "add_cart_items shop_store (co_items free_cart) empty_cart
     = Inr (projr (add_cart_items shop_store (co_items free_cart) empty_cart))"
  "filter (accepted shop_store) (co_items free_cart) \<noteq> []"
  "co_discount free_cart = Some (Finite 0)"
  "cart_total shop_store (co_items free_cart) = Finite 0"
  by code_simp+

lemma example_amounts:
  "(0::double) < Finite 100" "Finite 100 \<le> Finite 100"
  "(0::double) < Finite (7036170730324623 / 70368744177664)"
  "Finite (7036170730324623 / 70368744177664) < Finite 100"
  "Finite 100 - Finite (7036170730324623 / 70368744177664)
     = Finite (703687441777 / 70368744177664)"
  "(0::double) < Finite (5404319552844595 / 18014398509481984)"
  "Finite (5404319552844595 / 18014398509481984) < Finite (1351079888211149 / 4503599627370496)"
  "Finite (1351079888211149 / 4503599627370496) - Finite (5404319552844595 / 18014398509481984)
     = Finite (1 / 18014398509481984)"
  "\<not> (0::double) < Finite 0"
  "products_ok (products shop_store)" "customers_ok (customers shop_store)"
  by code_simp+

lemma poster_checks:
  "valid_manual (poster x) = True"
  "int_to_float (mo_quantity (poster x)) = Inr (Finite 2)"
  "mo_discount (poster x) = Some x"
  "mo_price (poster x) * Finite 2 = Finite 100"
  "manual_customer example_remote (poster x) shop_store = Inr (shop_store, None)"
  "create_manual_order example_remote (poster x) None x
     = Some \<lparr>so_id = Some 9001, so_order_number = Some 1001\<rparr>"
  by (code_simp | simp add: poster_def)+

text \<open>
  C2 (as amended). A cart order that fails with a validation error (status 400)
  reports the error and leaves the products, the orders and the webhook events
  exactly as they were. The customers are as they were too, or have gained one row at
  the end: the customer of the request, committed before the cart is validated. The
  whole store is untouched when the error is one of the first checks (empty items, bad
  payment method, no or both customer selectors), or when the customer the request
  names is a local row already. The single order and the manual order leave the whole
  store untouched on every validation error.
\<close>

theorem validation_errors_frame:
  "(create_order_from_cart r request d = (Inl e, d') \<and> status_code e = 400
   \<longrightarrow> products d' = products d \<and> orders d' = orders d
       \<and> webhook_events d' = webhook_events d
       \<and> enforce_foreign_keys d' = enforce_foreign_keys d
       \<and> (customers d' = customers d \<or> (\<exists>row. customers d' = customers d @ [row]))
       \<and> (early_error e \<or> customer_known request d \<longrightarrow> d' = d))
   \<and> (create_order_endpoint r barcode payment_method email quantity s = (Inl e1, s')
        \<and> status_code e1 = 400 \<longrightarrow> s' = s)
   \<and> (create_manual_order_endpoint r manual m = (Inl e2, m') \<and> status_code e2 = 400
        \<longrightarrow> m' = m)"
proof (intro conjI)
  show "create_order_from_cart r request d = (Inl e, d') \<and> status_code e = 400
   \<longrightarrow> products d' = products d \<and> orders d' = orders d
       \<and> webhook_events d' = webhook_events d
       \<and> enforce_foreign_keys d' = enforce_foreign_keys d
       \<and> (customers d' = customers d \<or> (\<exists>row. customers d' = customers d @ [row]))
       \<and> (early_error e \<or> customer_known request d \<longrightarrow> d' = d)"
  proof (intro impI, elim conjE)
    assume run: "create_order_from_cart r request d = (Inl e, d')"
    from create_order_from_cart_Inl [OF run]
    have frame: "products d' = products d \<and> orders d' = orders d
         \<and> webhook_events d' = webhook_events d
         \<and> enforce_foreign_keys d' = enforce_foreign_keys d
         \<and> (customers d' = customers d \<or> (\<exists>row. customers d' = customers d @ [row]))"
      by auto
    have "d' = d" if "early_error e \<or> customer_known request d"
      using that create_order_from_cart_early [OF run] create_order_from_cart_known [OF run]
      by blast
    with frame show "products d' = products d \<and> orders d' = orders d
         \<and> webhook_events d' = webhook_events d
         \<and> enforce_foreign_keys d' = enforce_foreign_keys d
         \<and> (customers d' = customers d \<or> (\<exists>row. customers d' = customers d @ [row]))
         \<and> (early_error e \<or> customer_known request d \<longrightarrow> d' = d)"
      by blast
  qed
  show "create_order_endpoint r barcode payment_method email quantity s = (Inl e1, s')
        \<and> status_code e1 = 400 \<longrightarrow> s' = s"
    using create_order_endpoint_400 by blast
  show "create_manual_order_endpoint r manual m = (Inl e2, m') \<and> status_code e2 = 400
        \<longrightarrow> m' = m"
    using create_manual_order_endpoint_400 by blast
qed

lemma rejected_checkout:
  "create_order_from_cart example_remote full_discount_cart shop_store
     = (Inl (DiscountTooLarge (Finite 100) (Finite 100)), shop_store)
   \<and> customer_known full_discount_cart shop_store
   \<and> create_order_from_cart example_remote rejected_cart shop_store
     = (Inl NoValidProducts, snd (create_order_from_cart example_remote rejected_cart shop_store))
   \<and> \<not> customer_known rejected_cart shop_store
   \<and> create_order_endpoint example_remote ''111'' ''card'' ''ada@example.com'' 1 shop_store
     = (Inl InvalidPaymentMethod, shop_store)
   \<and> create_manual_order_endpoint example_remote (poster (Finite 100)) shop_store
     = (Inl (DiscountTooLarge (Finite 100) (Finite 100)), shop_store)"
  by code_simp

theorem validation_errors_frame_witness:
  "create_order_from_cart example_remote full_discount_cart shop_store
     = (Inl (DiscountTooLarge (Finite 100) (Finite 100)), shop_store)
   \<and> status_code (DiscountTooLarge (Finite 100) (Finite 100)) = 400
   \<and> customer_known full_discount_cart shop_store
   \<and> create_order_from_cart example_remote rejected_cart shop_store
     = (Inl NoValidProducts, snd (create_order_from_cart example_remote rejected_cart shop_store))
   \<and> status_code NoValidProducts = 400
   \<and> products (snd (create_order_from_cart example_remote rejected_cart shop_store))
       = products shop_store
   \<and> orders (snd (create_order_from_cart example_remote rejected_cart shop_store))
       = orders shop_store
   \<and> webhook_events (snd (create_order_from_cart example_remote rejected_cart shop_store))
       = webhook_events shop_store
   \<and> create_order_endpoint example_remote ''111'' ''card'' ''ada@example.com'' 1 shop_store
     = (Inl InvalidPaymentMethod, shop_store)
   \<and> create_manual_order_endpoint example_remote (poster (Finite 100)) shop_store
     = (Inl (DiscountTooLarge (Finite 100) (Finite 100)), shop_store)"
  using validation_errors_frame [of example_remote full_discount_cart shop_store
      "DiscountTooLarge (Finite 100) (Finite 100)" shop_store "''111''" "''card''" "''ada@example.com''" 1 shop_store
      InvalidPaymentMethod shop_store "poster (Finite 100)" shop_store "DiscountTooLarge (Finite 100) (Finite 100)"
      shop_store]
    validation_errors_frame [of example_remote rejected_cart shop_store NoValidProducts
      "snd (create_order_from_cart example_remote rejected_cart shop_store)"
      "''111''" "''card''" "''ada@example.com''" 1 shop_store
      InvalidPaymentMethod shop_store "poster (Finite 100)" shop_store "DiscountTooLarge (Finite 100) (Finite 100)"
      shop_store]
    rejected_checkout
  by simp

theorem new_customer_kept_counterexample:
  "fst (create_order_from_cart example_remote rejected_cart shop_store) = Inl NoValidProducts
   \<and> status_code NoValidProducts = 400
   \<and> map (\<lambda>row. c_email (snd row)) (customers shop_store)
       = [Some ''ada@example.com'', Some ''bob@example.com'']
   \<and> map (\<lambda>row. c_email (snd row))
        (customers (snd (create_order_from_cart example_remote rejected_cart shop_store)))
       = [Some ''ada@example.com'', Some ''bob@example.com'', Some ''carol@example.com'']"
  by code_simp

end
